theory Spec2Isabelle
  imports Complex_Main
begin

section \<open>Characters, strings and paths\<close>

text \<open>
  \<^verbatim>\<open>std::tolower\<close> and \<^verbatim>\<open>std::toupper\<close> on the bytes of a \<^verbatim>\<open>std::string\<close>: the
  ASCII letters change case, every other byte is kept.
\<close>

definition upper_letters :: string where
  "upper_letters = ''ABCDEFGHIJKLMNOPQRSTUVWXYZ''"

definition lower_letters :: string where
  "lower_letters = ''abcdefghijklmnopqrstuvwxyz''"

definition tolower :: "char \<Rightarrow> char" where
  "tolower c = (case map_of (zip upper_letters lower_letters) c of Some d \<Rightarrow> d | None \<Rightarrow> c)"

definition toupper :: "char \<Rightarrow> char" where
  "toupper c = (case map_of (zip lower_letters upper_letters) c of Some d \<Rightarrow> d | None \<Rightarrow> c)"

text \<open>\<^verbatim>\<open>ToLower\<close> of lootthread.cpp: \<^verbatim>\<open>std::transform\<close> with \<^verbatim>\<open>std::tolower\<close>.\<close>

definition ToLower :: "string \<Rightarrow> string" where
  "ToLower text = map tolower text"

text \<open>\<^verbatim>\<open>std::string::starts_with\<close>.\<close>

fun starts_with :: "string \<Rightarrow> string \<Rightarrow> bool" where
  "starts_with s [] = True"
| "starts_with [] (p # ps) = False"
| "starts_with (c # cs) (p # ps) = (c = p \<and> starts_with cs ps)"

text \<open>
  \<^verbatim>\<open>boost::icontains(input, test)\<close>: some substring of the input equals the test string
  when both are compared byte by byte through \<^verbatim>\<open>std::toupper\<close> (\<^verbatim>\<open>is_iequal\<close>).
\<close>

fun istarts_with :: "string \<Rightarrow> string \<Rightarrow> bool" where
  "istarts_with s [] = True"
| "istarts_with [] (p # ps) = False"
| "istarts_with (c # cs) (p # ps) = (toupper c = toupper p \<and> istarts_with cs ps)"

fun icontains :: "string \<Rightarrow> string \<Rightarrow> bool" where
  "icontains [] test = (test = [])"
| "icontains (c # cs) test = (istarts_with (c # cs) test \<or> icontains cs test)"

text \<open>
  \<^verbatim>\<open>std::filesystem::path\<close> on a POSIX host, kept as the string it was built from.
  \<^verbatim>\<open>operator/\<close> replaces the left side when the right side is absolute, and otherwise
  appends the right side, after a separator when the left side has a filename.
\<close>

definition path_append :: "string \<Rightarrow> string \<Rightarrow> string" where
  "path_append p q =
     (if starts_with q ''/'' then q
      else if p \<noteq> [] \<and> last p \<noteq> CHR ''/'' then p @ ''/'' @ q
      else p @ q)"

text \<open>\<^verbatim>\<open>path::filename()\<close>: what follows the last separator.\<close>

definition filename :: "string \<Rightarrow> string" where
  "filename p = rev (takeWhile (\<lambda>c. c \<noteq> CHR ''/'') (rev p))"

text \<open>
  \<^verbatim>\<open>operator==\<close> on two paths compares them element by element, so that a run of
  separators counts as one separator.
\<close>

fun collapse_separators :: "string \<Rightarrow> string" where
  "collapse_separators (a # b # cs) =
     (if a = CHR ''/'' \<and> b = CHR ''/'' then collapse_separators (b # cs)
      else a # collapse_separators (b # cs))"
| "collapse_separators cs = cs"

definition path_eq :: "string \<Rightarrow> string \<Rightarrow> bool" where
  "path_eq p q = (collapse_separators p = collapse_separators q)"

section \<open>Logging\<close>

text \<open>\<^verbatim>\<open>loot::LogLevel\<close> (libloot) and \<^verbatim>\<open>lootcli::LogLevels\<close>, in their declared order.\<close>

datatype LogLevel = trace | debug | info | warning | error | fatal

datatype LogLevels = Trace | Debug | Info | Warning | Error

fun level_rank :: "LogLevel \<Rightarrow> nat" where
  "level_rank trace = 0"
| "level_rank debug = 1"
| "level_rank info = 2"
| "level_rank warning = 3"
| "level_rank error = 4"
| "level_rank fatal = 5"

fun fromLootLogLevel :: "LogLevel \<Rightarrow> LogLevels" where
  "fromLootLogLevel trace = Trace"
| "fromLootLogLevel debug = Debug"
| "fromLootLogLevel info = Info"
| "fromLootLogLevel warning = Warning"
| "fromLootLogLevel error = Error"
| "fromLootLogLevel fatal = Error"

fun toLootLogLevel :: "LogLevels \<Rightarrow> LogLevel" where
  "toLootLogLevel Trace = trace"
| "toLootLogLevel Debug = debug"
| "toLootLogLevel Info = info"
| "toLootLogLevel Warning = warning"
| "toLootLogLevel Error = error"

text \<open>\<^verbatim>\<open>escapeNewlines\<close>: a line feed becomes backslash-n, a carriage return backslash-r.\<close>

fun escapeNewlines :: "string \<Rightarrow> string" where
  "escapeNewlines [] = []"
| "escapeNewlines (c # cs) =
     (if c = CHR 0x0A then CHR 0x5C # CHR ''n'' # escapeNewlines cs
      else if c = CHR 0x0D then CHR 0x5C # CHR ''r'' # escapeNewlines cs
      else c # escapeNewlines cs)"

text \<open>
  A line written to standard output by \<^verbatim>\<open>LOOTWorker::log\<close>: the level tag and the
  escaped message. \<^verbatim>\<open>log\<close> writes nothing when the level is below \<^verbatim>\<open>m_LogLevel\<close>.
  The functions below return the lines they write, in order. (The name \<open>log\<close> is the
  logarithm in HOL, hence \<open>log_write\<close>.)
\<close>

type_synonym log_line = "LogLevels \<times> string"

definition log_write :: "LogLevel \<Rightarrow> LogLevel \<Rightarrow> string \<Rightarrow> log_line list" where
  "log_write m_LogLevel level message =
     (if level_rank level < level_rank m_LogLevel then []
      else [(fromLootLogLevel level, escapeNewlines message)])"

section \<open>Game identities\<close>

text \<open>\<^verbatim>\<open>loot::GameId\<close> of game_settings.h.\<close>

datatype GameId =
  tes3 | tes4 | nehrim | tes5 | enderal | tes5se | enderalse | tes5vr
  | fo3 | fonv | fo4 | fo4vr | starfield

text \<open>\<^verbatim>\<open>loot::GameType\<close> of libloot: the engine-type class.\<close>

datatype GameType =
  T_tes3 | T_tes4 | T_tes5 | T_tes5se | T_tes5vr | T_fo3 | T_fonv | T_fo4 | T_fo4vr
  | T_starfield

text \<open>
  Modelled from the spec: \<^verbatim>\<open>GetGameType\<close> is declared in game_settings.h and its body
  is not among the sources. The spec gives every identity an engine-type class and says
  that Nehrim, Enderal and Enderal SE share the class of their base game, while being
  identities of their own.
\<close>

fun GetGameType :: "GameId \<Rightarrow> GameType" where
  "GetGameType tes3 = T_tes3"
| "GetGameType tes4 = T_tes4"
| "GetGameType nehrim = T_tes4"
| "GetGameType tes5 = T_tes5"
| "GetGameType enderal = T_tes5"
| "GetGameType tes5se = T_tes5se"
| "GetGameType enderalse = T_tes5se"
| "GetGameType tes5vr = T_tes5vr"
| "GetGameType fo3 = T_fo3"
| "GetGameType fonv = T_fonv"
| "GetGameType fo4 = T_fo4"
| "GetGameType fo4vr = T_fo4vr"
| "GetGameType starfield = T_starfield"

text \<open>\<^verbatim>\<open>loot::DEFAULT_MASTERLIST_BRANCH\<close> of game_settings.h.\<close>

definition DEFAULT_MASTERLIST_BRANCH :: string where
  "DEFAULT_MASTERLIST_BRANCH = ''v0.23''"

text \<open>
  Modelled from the spec: \<^verbatim>\<open>GetDefaultMasterlistUrl(repositoryName)\<close> is declared in
  game_settings.h and its body is not among the sources. The spec gives it as the constant
  template \<^verbatim>\<open>https://raw.githubusercontent.com/loot/<repo>/<DEFAULT_BRANCH>/masterlist.yaml\<close>.
\<close>

definition GetDefaultMasterlistUrl :: "string \<Rightarrow> string" where
  "GetDefaultMasterlistUrl repositoryName =
     ''https://raw.githubusercontent.com/loot/'' @ repositoryName @ ''/''
       @ DEFAULT_MASTERLIST_BRANCH @ ''/masterlist.yaml''"

section \<open>Branch migration\<close>

text \<open>
  \<^verbatim>\<open>oldDefaultBranches\<close>: a \<^verbatim>\<open>std::set<std::string>\<close>, listed here in the order in
  which the set is iterated.
\<close>

definition oldDefaultBranches :: "string list" where
  "oldDefaultBranches =
     [''master'', ''v0.10'', ''v0.13'', ''v0.14'', ''v0.15'', ''v0.17'', ''v0.18'',
      ''v0.7'', ''v0.8'']"

text \<open>
  The first step of \<^verbatim>\<open>migrateMasterlistRepoSettings\<close>: the branch it continues with, and
  the line it logs.
\<close>

definition migrateBranch :: "string \<Rightarrow> string" where
  "migrateBranch branch =
     (if branch \<in> set oldDefaultBranches then DEFAULT_MASTERLIST_BRANCH else branch)"

definition migrateBranch_log :: "LogLevel \<Rightarrow> string \<Rightarrow> log_line list" where
  "migrateBranch_log lvl branch =
     (if branch \<in> set oldDefaultBranches
      then log_write lvl info (''Updating masterlist repository branch from '' @ branch @ '' to ''
                          @ DEFAULT_MASTERLIST_BRANCH)
      else [])"

section \<open>The catalog, the file system and the game settings\<close>

text \<open>
  \<^verbatim>\<open>std::filesystem::exists(p)\<close> and \<^verbatim>\<open>std::filesystem::is_regular_file(p)\<close> are
  called without an \<^verbatim>\<open>std::error_code\<close>: they answer, or they throw
  \<^verbatim>\<open>std::filesystem::filesystem_error\<close> when the status of the path cannot be
  determined (a name that is too long, a directory that may not be searched, a loop of
  symbolic links).
\<close>

datatype 'a fs = Answer 'a | filesystem_error

text \<open>
  What the code reads from outside lootthread.cpp and the spec does not fix: the catalog
  functions of game_settings.h whose tables are not among the sources, the conversion of
  a \<^verbatim>\<open>double\<close> to \<^verbatim>\<open>float\<close>, the local-data path that \<^verbatim>\<open>SetGameLocalFolder\<close>
  derives from a folder name, and the three observations of the file system that the
  code makes (\<^verbatim>\<open>std::filesystem::exists\<close>, \<^verbatim>\<open>is_regular_file\<close>, and the first line
  that \<^verbatim>\<open>std::getline\<close> reads from a file, \<open>None\<close> when the file cannot be opened).
\<close>

record env =
  GetGameName :: "GameId \<Rightarrow> string"
  GetMasterFilename :: "GameId \<Rightarrow> string"
  GetMinimumHeaderVersion :: "GameId \<Rightarrow> real"
  GetDefaultMasterlistRepositoryName :: "GameId \<Rightarrow> string"
  ToString :: "GameId \<Rightarrow> string"
  float_of_double :: "real \<Rightarrow> real"
  local_folder_path :: "string \<Rightarrow> string"
  fs_exists :: "string \<Rightarrow> bool fs"
  fs_is_regular_file :: "string \<Rightarrow> bool fs"
  fs_first_line :: "string \<Rightarrow> string option"

text \<open>
  \<^verbatim>\<open>loot::GameSettings\<close> of game_settings.h, field by field: \<open>gs_id\<close> is the member
  \<^verbatim>\<open>id_\<close>, and so on.
\<close>

record GameSettings =
  gs_id :: GameId
  gs_type :: GameType
  gs_name :: string
  gs_masterFile :: string
  gs_minimumHeaderVersion :: real
  gs_lootFolderName :: string
  gs_masterlistSource :: string
  gs_gamePath :: string
  gs_gameLocalPath :: string

text \<open>
  Modelled from the spec: the constructor \<^verbatim>\<open>GameSettings(gameId, lootFolder)\<close> and the
  setters are declared in game_settings.h and their bodies are not among the sources. The
  spec initialises a profile from the catalog defaults of its identity (engine-type class,
  display name, master file, minimum header version, default masterlist URL of the
  identity's repository) and the given folder name, and merges each override into the
  field it names.
\<close>

definition new_GameSettings :: "env \<Rightarrow> GameId \<Rightarrow> string \<Rightarrow> GameSettings" where
  "new_GameSettings e gameId lootFolder =
     \<lparr> gs_id = gameId,
       gs_type = GetGameType gameId,
       gs_name = GetGameName e gameId,
       gs_masterFile = GetMasterFilename e gameId,
       gs_minimumHeaderVersion = GetMinimumHeaderVersion e gameId,
       gs_lootFolderName = lootFolder,
       gs_masterlistSource =
         GetDefaultMasterlistUrl (GetDefaultMasterlistRepositoryName e gameId),
       gs_gamePath = [],
       gs_gameLocalPath = [] \<rparr>"

definition SetName :: "string \<Rightarrow> GameSettings \<Rightarrow> GameSettings" where
  "SetName name s = s\<lparr>gs_name := name\<rparr>"

definition SetMaster :: "string \<Rightarrow> GameSettings \<Rightarrow> GameSettings" where
  "SetMaster masterFile s = s\<lparr>gs_masterFile := masterFile\<rparr>"

definition SetMinimumHeaderVersion :: "real \<Rightarrow> GameSettings \<Rightarrow> GameSettings" where
  "SetMinimumHeaderVersion v s = s\<lparr>gs_minimumHeaderVersion := v\<rparr>"

definition SetMasterlistSource :: "string \<Rightarrow> GameSettings \<Rightarrow> GameSettings" where
  "SetMasterlistSource source s = s\<lparr>gs_masterlistSource := source\<rparr>"

definition SetGamePath :: "string \<Rightarrow> GameSettings \<Rightarrow> GameSettings" where
  "SetGamePath path s = s\<lparr>gs_gamePath := path\<rparr>"

definition SetGameLocalPath :: "string \<Rightarrow> GameSettings \<Rightarrow> GameSettings" where
  "SetGameLocalPath path s = s\<lparr>gs_gameLocalPath := path\<rparr>"

definition SetGameLocalFolder :: "env \<Rightarrow> string \<Rightarrow> GameSettings \<Rightarrow> GameSettings" where
  "SetGameLocalFolder e folderName s = s\<lparr>gs_gameLocalPath := local_folder_path e folderName\<rparr>"

section \<open>Requested game names\<close>

text \<open>\<^verbatim>\<open>LOOTWorker::setGame\<close>: the name table, and the exception for a name not in it.\<close>

definition gameMap :: "(string \<times> GameId) list" where
  "gameMap =
     [(''morrowind'', tes3), (''oblivion'', tes4), (''fallout3'', fo3), (''fallout4'', fo4),
      (''fallout4vr'', fo4vr), (''falloutnv'', fonv), (''skyrim'', tes5),
      (''skyrimse'', tes5se), (''skyrimvr'', tes5vr), (''nehrim'', nehrim),
      (''enderal'', enderal), (''enderalse'', enderalse), (''starfield'', starfield)]"

definition setGame :: "string \<Rightarrow> string + GameId" where
  "setGame gameName =
     (case map_of gameMap (ToLower gameName) of
        Some gid \<Rightarrow> Inr gid
      | None \<Rightarrow> Inl (''invalid game name '' @ [CHR 0x22] @ gameName @ [CHR 0x22]))"

section \<open>Configuration tables and the legacy classifier\<close>

text \<open>
  A \<^verbatim>\<open>toml::table\<close> as the code reads it: \<open>vstring t k\<close> is
  \<^verbatim>\<open>t[k].value<std::string>()\<close>, \<open>vbool t k\<close> is \<^verbatim>\<open>t[k].value<bool>()\<close> and
  \<open>vdouble t k\<close> is \<^verbatim>\<open>t[k].value<double>()\<close>; each is \<open>None\<close> when the key is absent
  or its value cannot be read at that type.
\<close>

record toml_table =
  vstring :: "string \<rightharpoonup> string"
  vbool :: "string \<rightharpoonup> bool"
  vdouble :: "string \<rightharpoonup> real"

text \<open>\<^verbatim>\<open>LOOTWorker::GetLocalFolder\<close>.\<close>

definition GetLocalFolder :: "toml_table \<Rightarrow> string option" where
  "GetLocalFolder t =
     (case vstring t ''local_folder'' of
        Some localFolder \<Rightarrow> Some localFolder
      | None \<Rightarrow>
          (case vstring t ''local_path'' of
             Some localPath \<Rightarrow> Some (filename localPath)
           | None \<Rightarrow> None))"

text \<open>
  \<^verbatim>\<open>LOOTWorker::IsNehrim\<close>. The install-path check returns from the function; the
  heuristics are the four disjuncts of the final \<^verbatim>\<open>return\<close>, in their order. The
  function has no handler of its own: an exception of one of its two file-system queries
  leaves it.
\<close>

definition nehrim_heuristics :: "env \<Rightarrow> toml_table \<Rightarrow> bool" where
  "nehrim_heuristics e t =
     ((case vstring t ''master'' of
         Some masterFilename \<Rightarrow> path_eq masterFilename (GetMasterFilename e nehrim)
       | None \<Rightarrow> False)
      \<or> (case vstring t ''name'' of
            Some gameName \<Rightarrow> icontains gameName ''nehrim'' | None \<Rightarrow> False)
      \<or> (case vstring t ''folder'' of
            Some folder \<Rightarrow> icontains folder ''nehrim'' | None \<Rightarrow> False)
      \<or> (case vbool t ''isBaseGameInstance'' of
            Some isBaseGameInstance \<Rightarrow> \<not> isBaseGameInstance | None \<Rightarrow> False))"

definition IsNehrim :: "env \<Rightarrow> toml_table \<Rightarrow> bool fs" where
  "IsNehrim e t =
     (case vstring t ''path'' of
        Some installPath \<Rightarrow>
          if installPath \<noteq> []
          then (case fs_exists e installPath of
                  filesystem_error \<Rightarrow> filesystem_error
                | Answer True \<Rightarrow> fs_exists e (path_append installPath ''NehrimLauncher.exe'')
                | Answer False \<Rightarrow> Answer (nehrim_heuristics e t))
          else Answer (nehrim_heuristics e t)
      | None \<Rightarrow> Answer (nehrim_heuristics e t))"

text \<open>\<^verbatim>\<open>LOOTWorker::IsEnderal(table, expectedLocalFolder)\<close> and its two callers.\<close>

definition enderal_heuristics :: "toml_table \<Rightarrow> string \<Rightarrow> bool" where
  "enderal_heuristics t expectedLocalFolder =
     ((case GetLocalFolder t of
         Some localFolder \<Rightarrow> path_eq localFolder expectedLocalFolder | None \<Rightarrow> False)
      \<or> (case vstring t ''name'' of
            Some gameName \<Rightarrow> icontains gameName ''enderal'' | None \<Rightarrow> False)
      \<or> (case vstring t ''folder'' of
            Some folder \<Rightarrow> icontains folder ''enderal'' | None \<Rightarrow> False)
      \<or> (case vbool t ''isBaseGameInstance'' of
            Some isBaseGameInstance \<Rightarrow> \<not> isBaseGameInstance | None \<Rightarrow> False))"

definition IsEnderal_in :: "env \<Rightarrow> toml_table \<Rightarrow> string \<Rightarrow> bool fs" where
  "IsEnderal_in e t expectedLocalFolder =
     (case vstring t ''path'' of
        Some installPath \<Rightarrow>
          if installPath \<noteq> []
          then (case fs_exists e installPath of
                  filesystem_error \<Rightarrow> filesystem_error
                | Answer True \<Rightarrow> fs_exists e (path_append installPath ''Enderal Launcher.exe'')
                | Answer False \<Rightarrow> Answer (enderal_heuristics t expectedLocalFolder))
          else Answer (enderal_heuristics t expectedLocalFolder)
      | None \<Rightarrow> Answer (enderal_heuristics t expectedLocalFolder))"

definition IsEnderal :: "env \<Rightarrow> toml_table \<Rightarrow> bool fs" where
  "IsEnderal e t = IsEnderal_in e t ''enderal''"

definition IsEnderalSE :: "env \<Rightarrow> toml_table \<Rightarrow> bool fs" where
  "IsEnderalSE e t = IsEnderal_in e t ''Enderal Special Edition''"

section \<open>Masterlist source migration\<close>

text \<open>
  \<^verbatim>\<open>LOOTWorker::isLocalPath\<close>, which queries the file system for every location
  that does not start with \<^verbatim>\<open>http://\<close> or \<^verbatim>\<open>https://\<close> in lower case, and
  \<^verbatim>\<open>LOOTWorker::isBranchCheckedOut\<close>, which reads through a stream and throws nothing.
\<close>

definition isLocalPath :: "env \<Rightarrow> string \<Rightarrow> string \<Rightarrow> bool fs" where
  "isLocalPath e location fname =
     (if starts_with location ''http://'' \<or> starts_with location ''https://'' then Answer False
      else (case fs_is_regular_file e (path_append location fname) of
              filesystem_error \<Rightarrow> filesystem_error
            | Answer False \<Rightarrow> Answer False
            | Answer True \<Rightarrow>
                fs_is_regular_file e (path_append (path_append location ''.git'') ''HEAD'')))"

definition isBranchCheckedOut :: "env \<Rightarrow> string \<Rightarrow> string \<Rightarrow> bool" where
  "isBranchCheckedOut e localGitRepo branch =
     (case fs_first_line e (path_append (path_append localGitRepo ''.git'') ''HEAD'') of
        None \<Rightarrow> False
      | Some line \<Rightarrow> line = ''ref: refs/heads/'' @ branch)"

text \<open>
  \<^verbatim>\<open>GITHUB_REPO_URL_REGEX\<close>, matched against the whole URL by \<^verbatim>\<open>std::regex_match\<close>:
  \<^verbatim>\<open>^https://github\.com/([^/]+)/([^/]+?)(?:\.git)?/?$\<close>, ignoring case. The result is
  the pair of the two capture groups, \<open>None\<close> when the URL does not match.

  \<open>git_tail\<close> is the end of the pattern, \<^verbatim>\<open>(?:\.git)?/?$\<close>. \<open>repo_lazy\<close> is the second
  group: it is lazy, so it takes one character that is not a separator, stops as soon as
  the rest of the URL matches the end of the pattern, and otherwise takes one more. The
  first group takes every character up to the first separator: a shorter match would
  have to be followed by a separator, and is followed by a character that is none.
\<close>

definition git_tail :: "string \<Rightarrow> bool" where
  "git_tail r = (ToLower r \<in> set [[], ''/'', ''.git'', ''.git/''])"

fun repo_lazy :: "string \<Rightarrow> string \<Rightarrow> string option" where
  "repo_lazy acc [] = None"
| "repo_lazy acc (c # cs) =
     (if c = CHR ''/'' then None
      else if git_tail cs then Some (acc @ [c])
      else repo_lazy (acc @ [c]) cs)"

definition GITHUB_REPO_URL_REGEX :: "string \<Rightarrow> (string \<times> string) option" where
  "GITHUB_REPO_URL_REGEX url =
     (let n = length ''https://github.com/'' in
      if ToLower (take n url) \<noteq> ''https://github.com/'' then None
      else
        let rest = drop n url;
            githubOwner = takeWhile (\<lambda>c. c \<noteq> CHR ''/'') rest
        in if githubOwner = [] then None
           else (case dropWhile (\<lambda>c. c \<noteq> CHR ''/'') rest of
                   [] \<Rightarrow> None
                 | sep # after \<Rightarrow>
                     (case repo_lazy [] after of
                        None \<Rightarrow> None
                      | Some githubRepo \<Rightarrow> Some (githubOwner, githubRepo))))"

text \<open>
  The two repository redirections of \<^verbatim>\<open>migrateMasterlistRepoSettings\<close>: the URL it
  continues with, and the lines it logs (the first message has no space after
  \<^verbatim>\<open>from\<close> in the source).
\<close>

definition migrateRepositoryUrl :: "GameId \<Rightarrow> string \<Rightarrow> string" where
  "migrateRepositoryUrl gid url =
     (let url1 = (if gid = tes5vr \<and> url = ''https://github.com/loot/skyrimse.git''
                  then ''https://github.com/loot/skyrimvr.git'' else url)
      in if gid = fo4vr \<and> url1 = ''https://github.com/loot/fallout4.git''
         then ''https://github.com/loot/fallout4vr.git'' else url1)"

definition migrateRepositoryUrl_log :: "LogLevel \<Rightarrow> GameId \<Rightarrow> string \<Rightarrow> log_line list" where
  "migrateRepositoryUrl_log lvl gid url =
     (let l1 = (if gid = tes5vr \<and> url = ''https://github.com/loot/skyrimse.git''
                then log_write lvl info (''Updating masterlist repository URL from'' @ url
                       @ '' to '' @ ''https://github.com/loot/skyrimvr.git'')
                else []);
          url1 = (if gid = tes5vr \<and> url = ''https://github.com/loot/skyrimse.git''
                  then ''https://github.com/loot/skyrimvr.git'' else url);
          l2 = (if gid = fo4vr \<and> url1 = ''https://github.com/loot/fallout4.git''
                then log_write lvl info (''Updating masterlist repository URL from '' @ url1
                       @ '' to '' @ ''https://github.com/loot/fallout4vr.git'')
                else [])
      in l1 @ l2)"

definition not_checked_out_message :: "string \<Rightarrow> string \<Rightarrow> string" where
  "not_checked_out_message url branch =
     ''The URL '' @ url
       @ '' is a local Git repository path but the configured branch '' @ branch
       @ '' is not checked out. LOOT will use the path as the masterlist ''
       @ ''source, but there may be unexpected differences in the loaded ''
       @ ''metadata if the '' @ branch
       @ '' branch is not manually checked out before the ''
       @ ''next time the masterlist is updated.''"

definition cannot_migrate_message :: string where
  "cannot_migrate_message =
     ''Cannot migrate masterlist repository settings as the URL does not ''
       @ ''point to a repository on GitHub.''"

text \<open>
  \<^verbatim>\<open>LOOTWorker::migrateMasterlistRepoSettings\<close>: the \<^verbatim>\<open>std::optional\<close> it returns,
  or the exception of \<^verbatim>\<open>isLocalPath\<close> that leaves it, and the lines it has logged by
  then.
\<close>

definition migrateMasterlistRepoSettings ::
  "env \<Rightarrow> LogLevel \<Rightarrow> GameId \<Rightarrow> string \<Rightarrow> string
     \<Rightarrow> string option fs \<times> log_line list" where
  "migrateMasterlistRepoSettings e lvl gid url0 branch0 =
     (let branch = migrateBranch branch0;
          url = migrateRepositoryUrl gid url0;
          logs = migrateBranch_log lvl branch0 @ migrateRepositoryUrl_log lvl gid url0;
          fname = ''masterlist.yaml''
      in case isLocalPath e url fname of
           filesystem_error \<Rightarrow> (filesystem_error, logs)
         | Answer True \<Rightarrow>
             (Answer (Some (path_append url fname)),
              logs @ (if \<not> isBranchCheckedOut e url branch
                      then log_write lvl warning (not_checked_out_message url branch)
                      else []))
         | Answer False \<Rightarrow>
             (case GITHUB_REPO_URL_REGEX url of
                None \<Rightarrow> (Answer None, logs @ log_write lvl warning cannot_migrate_message)
              | Some (githubOwner, githubRepo) \<Rightarrow>
                  (Answer (Some (''https://raw.githubusercontent.com/'' @ githubOwner @ ''/''
                                   @ githubRepo @ ''/'' @ branch @ ''/masterlist.yaml'')),
                   logs)))"

text \<open>
  \<^verbatim>\<open>LOOTWorker::migrateMasterlistSource\<close>: the two nested loops visit the pairs of
  \<open>List.product officialMasterlistRepos oldDefaultBranches\<close> in this order and return
  at the first pair whose URL equals the source.
\<close>

definition officialMasterlistRepos :: "string list" where
  "officialMasterlistRepos =
     [''morrowind'', ''oblivion'', ''skyrim'', ''skyrimse'', ''skyrimvr'',
      ''fallout3'', ''falloutnv'', ''fallout4'', ''fallout4vr'', ''enderal'']"

definition legacy_url :: "string \<Rightarrow> string \<Rightarrow> string" where
  "legacy_url repo branch =
     ''https://raw.githubusercontent.com/loot/'' @ repo @ ''/'' @ branch @ ''/masterlist.yaml''"

fun migrate_scan :: "LogLevel \<Rightarrow> string \<Rightarrow> (string \<times> string) list \<Rightarrow> string \<times> log_line list" where
  "migrate_scan lvl source [] = (source, [])"
| "migrate_scan lvl source ((repo, branch) # rest) =
     (if source = legacy_url repo branch
      then (GetDefaultMasterlistUrl repo,
            log_write lvl info (''Migrating masterlist source from '' @ source @ '' to ''
                                 @ GetDefaultMasterlistUrl repo))
      else migrate_scan lvl source rest)"

definition migrateMasterlistSource :: "LogLevel \<Rightarrow> string \<Rightarrow> string \<times> log_line list" where
  "migrateMasterlistSource lvl source =
     migrate_scan lvl source (List.product officialMasterlistRepos oldDefaultBranches)"

section \<open>The migration table\<close>

text \<open>The pairs of repository and branch that \<^verbatim>\<open>migrateMasterlistSource\<close> visits.\<close>

definition table_pairs :: "(string \<times> string) list" where
  "table_pairs = List.product officialMasterlistRepos oldDefaultBranches"

section \<open>The URL pattern of the spec\<close>

text \<open>
  The pattern as the spec words it: the URL is \<^verbatim>\<open>https://github.com/\<close> in any case,
  an owner, a separator, a repository, an optional \<^verbatim>\<open>.git\<close> in any case and an
  optional trailing separator; owner and repository are not empty and hold no separator.
  \<open>ends_with_git\<close> says that a repository name of more than four characters itself ends
  in \<^verbatim>\<open>.git\<close>.
\<close>

definition ends_with_git :: "string \<Rightarrow> bool" where
  "ends_with_git repo =
     (4 < length repo \<and> ToLower (drop (length repo - 4) repo) = ''.git'')"

definition github_url_parts ::
  "string \<Rightarrow> string \<Rightarrow> string \<Rightarrow> string \<Rightarrow> string \<Rightarrow> string \<Rightarrow> bool" where
  "github_url_parts url pre owner repo git slash =
     (url = pre @ owner @ ''/'' @ repo @ git @ slash
      \<and> ToLower pre = ''https://github.com/''
      \<and> owner \<noteq> [] \<and> CHR ''/'' \<notin> set owner
      \<and> repo \<noteq> [] \<and> CHR ''/'' \<notin> set repo
      \<and> (git = [] \<or> ToLower git = ''.git'')
      \<and> (slash = [] \<or> slash = ''/''))"

section \<open>Settings resolution\<close>

text \<open>
  Dereferencing an empty \<^verbatim>\<open>std::optional\<close> with \<^verbatim>\<open>operator*\<close> has undefined
  behaviour: the model gives it an outcome of its own, from which nothing follows.
\<close>

datatype 'a outcome = Returns 'a | UndefinedBehaviour

text \<open>
  Lines 234 to 245 of \<^verbatim>\<open>getSettings\<close>, the step the spec calls \<open>resolveSource\<close>:
  an explicit \<^verbatim>\<open>masterlistSource\<close> goes through \<^verbatim>\<open>migrateMasterlistSource\<close>; otherwise
  \<^verbatim>\<open>*url\<close> and \<^verbatim>\<open>*branch\<close> are evaluated, without a test, as the arguments of
  \<^verbatim>\<open>migrateMasterlistRepoSettings\<close>, and the source is set only when that call returns a
  value. An exception of that call leaves the block.
\<close>

datatype source_result =
  NewSource string "log_line list"
  | KeepSource "log_line list"
  | SourceThrows "log_line list"
  | SourceUndefined

definition resolveSource ::
  "env \<Rightarrow> LogLevel \<Rightarrow> GameId \<Rightarrow> string option \<Rightarrow> string option \<Rightarrow> string option
     \<Rightarrow> source_result" where
  "resolveSource e lvl gid source url branch =
     (case source of
        Some src \<Rightarrow>
          (case migrateMasterlistSource lvl src of (migrated, logs) \<Rightarrow> NewSource migrated logs)
      | None \<Rightarrow>
          (case url of
             None \<Rightarrow> SourceUndefined
           | Some u \<Rightarrow>
               (case branch of
                  None \<Rightarrow> SourceUndefined
                | Some b \<Rightarrow>
                    (case migrateMasterlistRepoSettings e lvl gid u b of
                       (Answer (Some migratedSource), logs) \<Rightarrow> NewSource migratedSource logs
                     | (Answer None, logs) \<Rightarrow> KeepSource logs
                     | (filesystem_error, logs) \<Rightarrow> SourceThrows logs))))"

text \<open>
  The exceptions thrown inside the \<^verbatim>\<open>try\<close> block of \<^verbatim>\<open>getSettings\<close>: the four
  \<^verbatim>\<open>std::runtime_error\<close> of the block itself, and the \<^verbatim>\<open>filesystem_error\<close> that
  comes out of the classifiers and of \<^verbatim>\<open>migrateMasterlistRepoSettings\<close>.
\<close>

datatype entry_error =
  MissingGameId
  | InvalidType
  | MissingFolder
  | ConflictingConfiguration
  | FilesystemError

text \<open>
  What one iteration of the loop over \<^verbatim>\<open>games\<close> does: it throws (and the
  \<^verbatim>\<open>catch (...)\<close> skips the entry), it finds another engine-type class, it assigns
  \<^verbatim>\<open>m_GameSettings\<close> and breaks, or its behaviour is undefined.
\<close>

datatype entry_step =
  Threw entry_error
  | NoMatch
  | Accepted GameSettings
  | Undefined

text \<open>
  The chain of comparisons of \<^verbatim>\<open>gameType\<close>: the identity assigned to
  \<^verbatim>\<open>gameId\<close>, or the exception that leaves the chain, which is the final
  \<^verbatim>\<open>throw\<close> or the exception of a classifier. \<open>classified\<close> is the conditional
  expression \<^verbatim>\<open>classifier(gameTable) ? yes : no\<close>.
\<close>

definition classified :: "bool fs \<Rightarrow> GameId \<Rightarrow> GameId \<Rightarrow> entry_error + GameId" where
  "classified answer yes no =
     (case answer of
        filesystem_error \<Rightarrow> Inl FilesystemError
      | Answer b \<Rightarrow> Inr (if b then yes else no))"

definition declared_GameId :: "env \<Rightarrow> toml_table \<Rightarrow> string \<Rightarrow> entry_error + GameId" where
  "declared_GameId e t gameType =
     (if gameType = ''Morrowind'' then Inr tes3
      else if gameType = ''Oblivion'' then classified (IsNehrim e t) nehrim tes4
      else if gameType = ''Skyrim'' then classified (IsEnderal e t) enderal tes5
      else if gameType = ''SkyrimSE'' \<or> gameType = ''Skyrim Special Edition''
        then classified (IsEnderalSE e t) enderalse tes5se
      else if gameType = ''Skyrim VR'' then Inr tes5vr
      else if gameType = ''Fallout3'' then Inr fo3
      else if gameType = ''FalloutNV'' then Inr fonv
      else if gameType = ''Fallout4'' then Inr fo4
      else if gameType = ''Fallout4VR'' then Inr fo4vr
      else Inl InvalidType)"

definition declared_folder :: "toml_table \<Rightarrow> string \<Rightarrow> string" where
  "declared_folder t folder =
     (case vstring t ''type'' of
        Some ty \<Rightarrow> if ty = ''SkyrimSE'' \<and> folder = ty then ''Skyrim Special Edition'' else folder
      | None \<Rightarrow> folder)"

text \<open>The end of the block of a matching entry: game path, then local path or folder.\<close>

definition merge_paths :: "env \<Rightarrow> toml_table \<Rightarrow> GameSettings \<Rightarrow> entry_step" where
  "merge_paths e t s0 =
     (let s1 = (case vstring t ''path'' of Some path \<Rightarrow> SetGamePath path s0 | None \<Rightarrow> s0)
      in case vstring t ''local_path'' of
           Some localPath \<Rightarrow>
             (case vstring t ''local_folder'' of
                Some localFolder \<Rightarrow> Threw ConflictingConfiguration
              | None \<Rightarrow> Accepted (SetGameLocalPath localPath s1))
         | None \<Rightarrow>
             (case vstring t ''local_folder'' of
                Some localFolder \<Rightarrow> Accepted (SetGameLocalFolder e localFolder s1)
              | None \<Rightarrow> Accepted s1))"

text \<open>The block of a matching entry, from \<^verbatim>\<open>name\<close> on.\<close>

definition merge_overrides ::
  "env \<Rightarrow> LogLevel \<Rightarrow> toml_table \<Rightarrow> GameSettings \<Rightarrow> entry_step \<times> log_line list" where
  "merge_overrides e lvl t newSettings =
     (let s1 = (case vstring t ''name'' of Some name \<Rightarrow> SetName name newSettings
                | None \<Rightarrow> newSettings);
          s2 = (case vstring t ''master'' of Some master \<Rightarrow> SetMaster master s1 | None \<Rightarrow> s1);
          s3 = (case vdouble t ''minimumHeaderVersion'' of
                  Some v \<Rightarrow> SetMinimumHeaderVersion (float_of_double e v) s2
                | None \<Rightarrow> s2)
      in case resolveSource e lvl (gs_id s3) (vstring t ''masterlistSource'')
                (vstring t ''repo'') (vstring t ''branch'') of
           SourceUndefined \<Rightarrow> (Undefined, [])
         | SourceThrows logs \<Rightarrow> (Threw FilesystemError, logs)
         | KeepSource logs \<Rightarrow> (merge_paths e t s3, logs)
         | NewSource src logs \<Rightarrow> (merge_paths e t (SetMasterlistSource src s3), logs))"

text \<open>One iteration of the loop, for the current \<^verbatim>\<open>m_GameSettings\<close>.\<close>

definition process_entry ::
  "env \<Rightarrow> LogLevel \<Rightarrow> GameSettings \<Rightarrow> toml_table \<Rightarrow> entry_step \<times> log_line list" where
  "process_entry e lvl m_GameSettings t =
     (case vstring t ''gameId'' of
        None \<Rightarrow> (Threw MissingGameId, [])
      | Some gameType \<Rightarrow>
          (case declared_GameId e t gameType of
             Inl thrown \<Rightarrow> (Threw thrown, [])
           | Inr gameId \<Rightarrow>
               (case vstring t ''folder'' of
                  None \<Rightarrow> (Threw MissingFolder, [])
                | Some folder \<Rightarrow>
                    (let newSettings = new_GameSettings e gameId (declared_folder t folder)
                     in if gs_type newSettings = gs_type m_GameSettings
                        then merge_overrides e lvl t newSettings
                        else (NoMatch, [])))))"

text \<open>The loop over the tables of \<^verbatim>\<open>games\<close>: the settings it leaves and the lines logged.\<close>

fun scan_games ::
  "env \<Rightarrow> LogLevel \<Rightarrow> GameSettings \<Rightarrow> toml_table list
     \<Rightarrow> (GameSettings \<times> log_line list) outcome" where
  "scan_games e lvl m_GameSettings [] = Returns (m_GameSettings, [])"
| "scan_games e lvl m_GameSettings (t # ts) =
     (case process_entry e lvl m_GameSettings t of
        (Accepted newSettings, logs) \<Rightarrow> Returns (newSettings, logs)
      | (Undefined, logs) \<Rightarrow> UndefinedBehaviour
      | (skipped, logs) \<Rightarrow>
          (case scan_games e lvl m_GameSettings ts of
             Returns (s, later) \<Rightarrow> Returns (s, logs @ later)
           | UndefinedBehaviour \<Rightarrow> UndefinedBehaviour))"

text \<open>
  The parsed settings document: \<open>games\<close> is the list of its tables when
  \<^verbatim>\<open>games.is_array_of_tables()\<close> holds and \<open>None\<close> otherwise; \<open>language\<close> is the
  top-level string of that name.
\<close>

record settings =
  games :: "toml_table list option"
  language :: "string option"

text \<open>
  \<^verbatim>\<open>LOOTWorker::getSettings\<close> on a parsed document: the new \<^verbatim>\<open>m_GameSettings\<close>, the
  new \<^verbatim>\<open>m_Language\<close> (\<open>default_language\<close> is libloot's
  \<^verbatim>\<open>MessageContent::DEFAULT_LANGUAGE\<close>) and the lines logged.
\<close>

definition getSettings ::
  "env \<Rightarrow> LogLevel \<Rightarrow> string \<Rightarrow> GameSettings \<Rightarrow> string \<Rightarrow> settings
     \<Rightarrow> (GameSettings \<times> string \<times> log_line list) outcome" where
  "getSettings e lvl default_language m_GameSettings m_Language doc =
     (case (case games doc of
              Some tables \<Rightarrow> scan_games e lvl m_GameSettings tables
            | None \<Rightarrow> Returns (m_GameSettings, [])) of
        UndefinedBehaviour \<Rightarrow> UndefinedBehaviour
      | Returns (s, logs) \<Rightarrow>
          Returns (s,
                   (if m_Language = []
                    then (case language doc of Some l \<Rightarrow> l | None \<Rightarrow> default_language)
                    else m_Language),
                   logs))"

text \<open>
  Lines 570 to 575 of \<^verbatim>\<open>LOOTWorker::run\<close>: the catalog-default settings of the
  requested game, then \<^verbatim>\<open>getSettings\<close> when the settings file exists. A file that
  cannot be opened or parsed makes \<^verbatim>\<open>getSettings\<close> throw, and a file whose
  existence cannot be determined makes \<^verbatim>\<open>fs::exists\<close> throw: both are
  \<open>UnreadableSettings\<close>, and \<^verbatim>\<open>run\<close> returns 1.
\<close>

datatype settings_file = NoSettingsFile | UnreadableSettings | ParsedSettings settings

datatype resolution = RunFails | Resolved GameSettings string "log_line list"

definition default_GameSettings :: "env \<Rightarrow> GameId \<Rightarrow> GameSettings" where
  "default_GameSettings e m_GameId = new_GameSettings e m_GameId (ToString e m_GameId)"

definition resolve_settings ::
  "env \<Rightarrow> LogLevel \<Rightarrow> string \<Rightarrow> GameId \<Rightarrow> string \<Rightarrow> settings_file \<Rightarrow> resolution outcome" where
  "resolve_settings e lvl default_language m_GameId m_Language file =
     (case file of
        NoSettingsFile \<Rightarrow> Returns (Resolved (default_GameSettings e m_GameId) m_Language [])
      | UnreadableSettings \<Rightarrow> Returns RunFails
      | ParsedSettings doc \<Rightarrow>
          (case getSettings e lvl default_language (default_GameSettings e m_GameId)
                  m_Language doc of
             UndefinedBehaviour \<Rightarrow> UndefinedBehaviour
           | Returns (s, l, logs) \<Rightarrow> Returns (Resolved s l logs)))"

section \<open>Which entries the scan accepts\<close>

text \<open>
  The conditions under which an iteration of the loop reaches its assignment, read off
  \<^verbatim>\<open>getSettings\<close>. \<open>entry_GameId\<close> is the identity of the candidate profile that
  the entry gives, when it gives one: a \<^verbatim>\<open>gameId\<close> among the recognised strings, a
  classifier that answers, and a \<^verbatim>\<open>folder\<close>; \<open>entry_class\<close> is its engine-type
  class. \<open>source_defined\<close> says that no empty optional is dereferenced,
  \<open>source_raises\<close> that the local-path test of the repository URL throws, and
  \<open>conflicting_local\<close> is the test before the last \<^verbatim>\<open>throw\<close>.
\<close>

definition entry_GameId :: "env \<Rightarrow> toml_table \<Rightarrow> GameId option" where
  "entry_GameId e t =
     (case vstring t ''gameId'' of
        None \<Rightarrow> None
      | Some gameType \<Rightarrow>
          (case declared_GameId e t gameType of
             Inl thrown \<Rightarrow> None
           | Inr gameId \<Rightarrow>
               (case vstring t ''folder'' of
                  None \<Rightarrow> None
                | Some folder \<Rightarrow> Some gameId)))"

definition entry_class :: "env \<Rightarrow> toml_table \<Rightarrow> GameType option" where
  "entry_class e t = map_option GetGameType (entry_GameId e t)"

definition matches_class :: "env \<Rightarrow> GameSettings \<Rightarrow> toml_table \<Rightarrow> bool" where
  "matches_class e m_GameSettings t = (entry_class e t = Some (gs_type m_GameSettings))"

definition conflicting_local :: "toml_table \<Rightarrow> bool" where
  "conflicting_local t =
     (vstring t ''local_path'' \<noteq> None \<and> vstring t ''local_folder'' \<noteq> None)"

definition source_defined :: "toml_table \<Rightarrow> bool" where
  "source_defined t =
     (vstring t ''masterlistSource'' \<noteq> None
      \<or> (vstring t ''repo'' \<noteq> None \<and> vstring t ''branch'' \<noteq> None))"

definition source_raises :: "env \<Rightarrow> toml_table \<Rightarrow> bool" where
  "source_raises e t =
     (vstring t ''masterlistSource'' = None
      \<and> (case entry_GameId e t of
            None \<Rightarrow> False
          | Some gameId \<Rightarrow>
              (case vstring t ''repo'' of
                 None \<Rightarrow> False
               | Some url \<Rightarrow>
                   isLocalPath e (migrateRepositoryUrl gameId url) ''masterlist.yaml''
                     = filesystem_error)))"

definition is_accepted :: "env \<Rightarrow> GameSettings \<Rightarrow> toml_table \<Rightarrow> bool" where
  "is_accepted e m_GameSettings t =
     (matches_class e m_GameSettings t \<and> source_defined t \<and> \<not> source_raises e t
      \<and> \<not> conflicting_local t)"

definition is_skipped :: "env \<Rightarrow> GameSettings \<Rightarrow> toml_table \<Rightarrow> bool" where
  "is_skipped e m_GameSettings t =
     (\<not> matches_class e m_GameSettings t
      \<or> (source_defined t \<and> (source_raises e t \<or> conflicting_local t)))"

section \<open>The report\<close>

text \<open>
  \<^verbatim>\<open>QJsonValue\<close>: the values that the report is built from. A \<^verbatim>\<open>QJsonObject\<close> is the
  list of its members, each key once; \<open>put\<close> is \<^verbatim>\<open>o[e] = v\<close>, which replaces the
  member of that key or adds one.
\<close>

datatype QJsonValue =
  QJsonBool bool
  | QJsonNumber int
  | QJsonString string
  | QJsonArray "QJsonValue list"
  | QJsonObject "(string \<times> QJsonValue) list"

fun put :: "string \<Rightarrow> QJsonValue \<Rightarrow> (string \<times> QJsonValue) list \<Rightarrow> (string \<times> QJsonValue) list" where
  "put e v [] = [(e, v)]"
| "put e v ((k, w) # members) = (if k = e then (e, v) # members else (k, w) # put e v members)"

text \<open>
  The function \<^verbatim>\<open>set\<close> of lootthread.cpp (\<open>set\<close> is the set of a list in HOL,
  hence \<open>set_member\<close>): an empty object, an empty array and an empty string are not
  stored.
\<close>

definition is_empty_value :: "QJsonValue \<Rightarrow> bool" where
  "is_empty_value v = (v = QJsonObject [] \<or> v = QJsonArray [] \<or> v = QJsonString [])"

definition set_member ::
  "(string \<times> QJsonValue) list \<Rightarrow> string \<Rightarrow> QJsonValue \<Rightarrow> (string \<times> QJsonValue) list" where
  "set_member members e v = (if is_empty_value v then members else put e v members)"

text \<open>
  What the report reads from libloot. A message's content is the list of its texts by
  language; \<^verbatim>\<open>loot::SelectMessageContent\<close> is a parameter \<open>select\<close> of the functions
  below, giving the text chosen for a language, if any. \<open>GetPlugin\<close> is \<open>None\<close> for a
  plugin that is not loaded (a null pointer), \<open>GetPluginMetadata\<close> is \<open>None\<close> when there
  is no metadata.
\<close>

datatype MessageType = say | warn | error_message

type_synonym MessageContents = "(string \<times> string) list"

record Message =
  GetType :: MessageType
  GetContent :: MessageContents

record File =
  GetName :: string
  GetDisplayName :: string

record PluginCleaningData =
  GetCRC :: nat
  GetITMCount :: nat
  GetDeletedReferenceCount :: nat
  GetDeletedNavmeshCount :: nat
  GetCleaningUtility :: string
  GetDetail :: MessageContents

record PluginMetadata =
  GetIncompatibilities :: "File list"
  GetMessages :: "Message list"
  GetDirtyInfo :: "PluginCleaningData list"
  GetCleanInfo :: "PluginCleaningData list"

record PluginInterface =
  GetMasters :: "string list"
  LoadsArchive :: bool
  IsMaster :: bool
  IsLightPlugin :: bool

record GameInterface =
  GetPlugin :: "string \<rightharpoonup> PluginInterface"
  GetPluginMetadata :: "string \<rightharpoonup> PluginMetadata"

type_synonym selector = "MessageContents \<Rightarrow> string \<Rightarrow> string option"

text \<open>\<^verbatim>\<open>toString(loot::MessageType)\<close>.\<close>

fun toString :: "MessageType \<Rightarrow> string" where
  "toString say = ''info''"
| "toString warn = ''warn''"
| "toString error_message = ''error''"

text \<open>\<^verbatim>\<open>LOOTWorker::createMessages\<close>: a message without a selected text is dropped.\<close>

fun createMessages :: "selector \<Rightarrow> string \<Rightarrow> Message list \<Rightarrow> QJsonValue list" where
  "createMessages select m_Language [] = []"
| "createMessages select m_Language (m # list) =
     (case select (GetContent m) m_Language of
        Some text \<Rightarrow>
          QJsonObject (put ''text'' (QJsonString text)
                         (put ''type'' (QJsonString (toString (GetType m))) []))
            # createMessages select m_Language list
      | None \<Rightarrow> createMessages select m_Language list)"

text \<open>\<^verbatim>\<open>LOOTWorker::createDirty\<close> and \<^verbatim>\<open>LOOTWorker::createClean\<close>.\<close>

definition info_text :: "selector \<Rightarrow> string \<Rightarrow> PluginCleaningData \<Rightarrow> string" where
  "info_text select m_Language d =
     (case select (GetDetail d) m_Language of Some text \<Rightarrow> text | None \<Rightarrow> [])"

definition createDirty :: "selector \<Rightarrow> string \<Rightarrow> PluginCleaningData list \<Rightarrow> QJsonValue list" where
  "createDirty select m_Language data =
     map (\<lambda>d. QJsonObject
            (set_member
               (set_member
                  (put ''deletedNavmesh'' (QJsonNumber (int (GetDeletedNavmeshCount d)))
                     (put ''deletedReferences'' (QJsonNumber (int (GetDeletedReferenceCount d)))
                        (put ''itm'' (QJsonNumber (int (GetITMCount d)))
                           (put ''crc'' (QJsonNumber (int (GetCRC d))) []))))
                  ''cleaningUtility'' (QJsonString (GetCleaningUtility d)))
               ''info'' (QJsonString (info_text select m_Language d))))
         data"

definition createClean :: "selector \<Rightarrow> string \<Rightarrow> PluginCleaningData list \<Rightarrow> QJsonValue list" where
  "createClean select m_Language data =
     map (\<lambda>d. QJsonObject
            (set_member
               (set_member (put ''crc'' (QJsonNumber (int (GetCRC d))) [])
                  ''cleaningUtility'' (QJsonString (GetCleaningUtility d)))
               ''info'' (QJsonString (info_text select m_Language d))))
         data"

text \<open>
  \<^verbatim>\<open>LOOTWorker::createIncompatibilities\<close>: only the files that name a loaded plugin.
\<close>

fun createIncompatibilities :: "GameInterface \<Rightarrow> File list \<Rightarrow> QJsonValue list" where
  "createIncompatibilities game [] = []"
| "createIncompatibilities game (f # data) =
     (case GetPlugin game (GetName f) of
        None \<Rightarrow> createIncompatibilities game data
      | Some plugin \<Rightarrow>
          QJsonObject
            (if GetDisplayName f \<noteq> GetName f
             then set_member (put ''name'' (QJsonString (GetName f)) [])
                    ''displayName'' (QJsonString (GetDisplayName f))
             else put ''name'' (QJsonString (GetName f)) [])
            # createIncompatibilities game data)"

text \<open>
  \<^verbatim>\<open>LOOTWorker::createMissingMasters\<close>, for the masters of a plugin that is loaded: the
  masters that are not loaded.
\<close>

definition createMissingMasters :: "GameInterface \<Rightarrow> PluginInterface \<Rightarrow> QJsonValue list" where
  "createMissingMasters game plugin =
     map QJsonString (filter (\<lambda>master. GetPlugin game master = None) (GetMasters plugin))"

text \<open>
  The body of the loop of \<^verbatim>\<open>LOOTWorker::createPlugins\<close>, in the order of the source:
  the four members set from the metadata, when there is metadata; then
  \<^verbatim>\<open>missingMasters\<close>; then the three flags. \<open>plugin_members\<close> is the object \<^verbatim>\<open>o\<close>
  before the test of its size. A plugin of the load order that is not loaded makes the
  code call a member function through a null pointer: \<open>None\<close>.
\<close>

definition metadata_members ::
  "selector \<Rightarrow> string \<Rightarrow> GameInterface \<Rightarrow> PluginMetadata \<Rightarrow> (string \<times> QJsonValue) list
     \<Rightarrow> (string \<times> QJsonValue) list" where
  "metadata_members select m_Language game metaData o0 =
     set_member
       (set_member
          (set_member
             (set_member o0 ''incompatibilities''
                (QJsonArray (createIncompatibilities game (GetIncompatibilities metaData))))
             ''messages''
             (QJsonArray (createMessages select m_Language (GetMessages metaData))))
          ''dirty''
          (QJsonArray (createDirty select m_Language (GetDirtyInfo metaData))))
       ''clean''
       (QJsonArray (createClean select m_Language (GetCleanInfo metaData)))"

definition flag_members ::
  "PluginInterface \<Rightarrow> (string \<times> QJsonValue) list \<Rightarrow> (string \<times> QJsonValue) list" where
  "flag_members plugin o2 =
     (let o3 = (if LoadsArchive plugin then put ''loadsArchive'' (QJsonBool True) o2 else o2);
          o4 = (if IsMaster plugin then put ''isMaster'' (QJsonBool True) o3 else o3)
      in if IsLightPlugin plugin then put ''isLightMaster'' (QJsonBool True) o4 else o4)"

definition plugin_members ::
  "selector \<Rightarrow> string \<Rightarrow> GameInterface \<Rightarrow> string \<Rightarrow> (string \<times> QJsonValue) list option" where
  "plugin_members select m_Language game pluginName =
     (case GetPlugin game pluginName of
        None \<Rightarrow> None
      | Some plugin \<Rightarrow>
          (let o0 = put ''name'' (QJsonString pluginName) [];
               o1 = (case GetPluginMetadata game pluginName of
                       Some metaData \<Rightarrow> metadata_members select m_Language game metaData o0
                     | None \<Rightarrow> o0);
               o2 = set_member o1 ''missingMasters''
                      (QJsonArray (createMissingMasters game plugin))
           in Some (flag_members plugin o2)))"

text \<open>\<^verbatim>\<open>LOOTWorker::createPlugins\<close>: an object is pushed when it has more than one member.\<close>

fun createPlugins ::
  "selector \<Rightarrow> string \<Rightarrow> GameInterface \<Rightarrow> string list \<Rightarrow> QJsonValue list outcome" where
  "createPlugins select m_Language game [] = Returns []"
| "createPlugins select m_Language game (pluginName # sortedPlugins) =
     (case plugin_members select m_Language game pluginName of
        None \<Rightarrow> UndefinedBehaviour
      | Some members \<Rightarrow>
          (case createPlugins select m_Language game sortedPlugins of
             UndefinedBehaviour \<Rightarrow> UndefinedBehaviour
           | Returns plugins \<Rightarrow>
               Returns (if 1 < length members then QJsonObject members # plugins else plugins)))"

text \<open>
  The root object of \<^verbatim>\<open>LOOTWorker::createJsonReport\<close>, before it is serialised; the
  elapsed time and the two version strings are parameters.
\<close>

definition createJsonReport ::
  "selector \<Rightarrow> string \<Rightarrow> GameInterface \<Rightarrow> Message list \<Rightarrow> string list \<Rightarrow> int \<Rightarrow> string
     \<Rightarrow> string \<Rightarrow> QJsonValue outcome" where
  "createJsonReport select m_Language game generalMessages sortedPlugins time lootcliVersion
       lootVersion =
     (case createPlugins select m_Language game sortedPlugins of
        UndefinedBehaviour \<Rightarrow> UndefinedBehaviour
      | Returns plugins \<Rightarrow>
          Returns (QJsonObject
            (set_member
               (set_member
                  (set_member [] ''messages''
                     (QJsonArray (createMessages select m_Language generalMessages)))
                  ''plugins'' (QJsonArray plugins))
               ''stats''
               (QJsonObject
                  (put ''lootVersion'' (QJsonString lootVersion)
                     (put ''lootcliVersion'' (QJsonString lootcliVersion)
                        (put ''time'' (QJsonNumber time) [])))))))"

text \<open>
  Whether a plugin carries anything beyond its name, said of what libloot returns: an
  incompatibility with a loaded plugin, a message with a text for the language, a dirty
  or clean record, a master that is not loaded, or one of the three flags.
\<close>

definition carries_more :: "selector \<Rightarrow> string \<Rightarrow> GameInterface \<Rightarrow> string \<Rightarrow> bool" where
  "carries_more select m_Language game pluginName =
     ((case GetPluginMetadata game pluginName of
         None \<Rightarrow> False
       | Some metaData \<Rightarrow>
           list_ex (\<lambda>f. GetPlugin game (GetName f) \<noteq> None) (GetIncompatibilities metaData)
           \<or> list_ex (\<lambda>m. select (GetContent m) m_Language \<noteq> None) (GetMessages metaData)
           \<or> GetDirtyInfo metaData \<noteq> []
           \<or> GetCleanInfo metaData \<noteq> [])
      \<or> (case GetPlugin game pluginName of
            None \<Rightarrow> False
          | Some plugin \<Rightarrow>
              list_ex (\<lambda>master. GetPlugin game master = None) (GetMasters plugin)
              \<or> LoadsArchive plugin \<or> IsMaster plugin \<or> IsLightPlugin plugin))"

text \<open>The \<^verbatim>\<open>name\<close> member of an element of the \<^verbatim>\<open>plugins\<close> array.\<close>

definition plugin_name :: "QJsonValue \<Rightarrow> QJsonValue option" where
  "plugin_name v = (case v of QJsonObject members \<Rightarrow> map_of members ''name'' | _ \<Rightarrow> None)"

text \<open>
  The fields that a value emits: the members of every object in it, at any depth, each
  with its key.
\<close>

fun fields :: "QJsonValue \<Rightarrow> (string \<times> QJsonValue) list" where
  "fields (QJsonObject members) = members @ concat (map (\<lambda>m. fields (snd m)) members)"
| "fields (QJsonArray elements) = concat (map fields elements)"
| "fields v = []"

text \<open>
  Whether the only empty fields of a value are those that the code stores as they are
  given: the text of a message, and a name, which is the name of a loaded plugin.
\<close>

definition fields_filtered :: "GameInterface \<Rightarrow> QJsonValue \<Rightarrow> bool" where
  "fields_filtered game v =
     (\<forall>(k, w) \<in> set (fields v).
        is_empty_value w \<longrightarrow>
          w = QJsonString [] \<and> (k = ''text'' \<or> k = ''name'' \<and> GetPlugin game [] \<noteq> None))"

section \<open>An environment for worked examples\<close>

text \<open>
  A catalog and a file system to evaluate the functions on: the catalog entries are
  sample values, and the file system holds a Nehrim installation with its launcher and
  an Oblivion installation without one. As on a POSIX host, a path with a name of more
  than 255 bytes between two separators cannot be looked up, and both queries throw on
  it.
\<close>

fun name_too_long_from :: "nat \<Rightarrow> string \<Rightarrow> bool" where
  "name_too_long_from n [] = (255 < n)"
| "name_too_long_from n (c # cs) =
     (if c = CHR ''/'' then 255 < n \<or> name_too_long_from 0 cs
      else name_too_long_from (Suc n) cs)"

definition name_too_long :: "string \<Rightarrow> bool" where
  "name_too_long p = name_too_long_from 0 p"

fun example_name :: "GameId \<Rightarrow> string" where
  "example_name tes3 = ''Morrowind''"
| "example_name tes4 = ''Oblivion''"
| "example_name nehrim = ''Nehrim''"
| "example_name tes5 = ''Skyrim''"
| "example_name enderal = ''Enderal''"
| "example_name tes5se = ''Skyrim Special Edition''"
| "example_name enderalse = ''Enderal Special Edition''"
| "example_name tes5vr = ''Skyrim VR''"
| "example_name fo3 = ''Fallout3''"
| "example_name fonv = ''FalloutNV''"
| "example_name fo4 = ''Fallout4''"
| "example_name fo4vr = ''Fallout4VR''"
| "example_name starfield = ''Starfield''"

fun example_master :: "GameId \<Rightarrow> string" where
  "example_master tes3 = ''Morrowind.esm''"
| "example_master tes4 = ''Oblivion.esm''"
| "example_master nehrim = ''Nehrim.esm''"
| "example_master fo3 = ''Fallout3.esm''"
| "example_master fonv = ''FalloutNV.esm''"
| "example_master fo4 = ''Fallout4.esm''"
| "example_master fo4vr = ''Fallout4.esm''"
| "example_master starfield = ''Starfield.esm''"
| "example_master skyrim_family = ''Skyrim.esm''"

fun example_repository :: "GameId \<Rightarrow> string" where
  "example_repository tes3 = ''morrowind''"
| "example_repository tes4 = ''oblivion''"
| "example_repository nehrim = ''oblivion''"
| "example_repository tes5 = ''skyrim''"
| "example_repository enderal = ''enderal''"
| "example_repository tes5se = ''skyrimse''"
| "example_repository enderalse = ''enderal''"
| "example_repository tes5vr = ''skyrimvr''"
| "example_repository fo3 = ''fallout3''"
| "example_repository fonv = ''falloutnv''"
| "example_repository fo4 = ''fallout4''"
| "example_repository fo4vr = ''fallout4vr''"
| "example_repository starfield = ''starfield''"

definition example_env :: env where
  "example_env =
     \<lparr> GetGameName = example_name,
       GetMasterFilename = example_master,
       GetMinimumHeaderVersion = (\<lambda>gameId. 0),
       GetDefaultMasterlistRepositoryName = example_repository,
       ToString = example_name,
       float_of_double = (\<lambda>v. v),
       local_folder_path = (\<lambda>folderName. ''/local/'' @ folderName),
       fs_exists =
         (\<lambda>p. if name_too_long p then filesystem_error
              else Answer (p \<in> set [''/games/nehrim'', ''/games/nehrim/NehrimLauncher.exe'',
                                      ''/games/oblivion''])),
       fs_is_regular_file =
         (\<lambda>p. if name_too_long p then filesystem_error
              else Answer (p = ''/games/nehrim/NehrimLauncher.exe'')),
       fs_first_line = (\<lambda>p. None) \<rparr>"

section \<open>Example game entries\<close>

text \<open>
  Five entries that declare \<^verbatim>\<open>Oblivion\<close>: one installed where the Nehrim launcher is,
  one installed where it is not but otherwise looking like Nehrim, one without an install
  path that names Nehrim's master file, one whose install path does not exist and that
  shows nothing of Nehrim, and one whose install path is a name of 300 letters under the
  root directory.
\<close>

definition nehrim_by_launcher :: toml_table where
  "nehrim_by_launcher =
     \<lparr> vstring = [''gameId'' \<mapsto> ''Oblivion'', ''folder'' \<mapsto> ''Oblivion'',
                  ''path'' \<mapsto> ''/games/nehrim''],
       vbool = Map.empty, vdouble = Map.empty \<rparr>"

definition oblivion_named_nehrim :: toml_table where
  "oblivion_named_nehrim =
     \<lparr> vstring = [''gameId'' \<mapsto> ''Oblivion'', ''folder'' \<mapsto> ''Nehrim'',
                  ''name'' \<mapsto> ''Nehrim'', ''master'' \<mapsto> ''Nehrim.esm'',
                  ''path'' \<mapsto> ''/games/oblivion''],
       vbool = [''isBaseGameInstance'' \<mapsto> False], vdouble = Map.empty \<rparr>"

definition nehrim_by_master :: toml_table where
  "nehrim_by_master =
     \<lparr> vstring = [''gameId'' \<mapsto> ''Oblivion'', ''folder'' \<mapsto> ''Oblivion'',
                  ''name'' \<mapsto> ''TES IV'', ''master'' \<mapsto> ''Nehrim.esm''],
       vbool = Map.empty, vdouble = Map.empty \<rparr>"

definition plain_oblivion :: toml_table where
  "plain_oblivion =
     \<lparr> vstring = [''gameId'' \<mapsto> ''Oblivion'', ''folder'' \<mapsto> ''Oblivion'',
                  ''name'' \<mapsto> ''TES IV'', ''master'' \<mapsto> ''Oblivion.esm'',
                  ''path'' \<mapsto> ''/games/missing''],
       vbool = [''isBaseGameInstance'' \<mapsto> True], vdouble = Map.empty \<rparr>"

definition unreachable_oblivion :: toml_table where
  "unreachable_oblivion =
     \<lparr> vstring = [''gameId'' \<mapsto> ''Oblivion'', ''folder'' \<mapsto> ''Oblivion'',
                  ''name'' \<mapsto> ''TES IV'', ''master'' \<mapsto> ''Oblivion.esm'',
                  ''path'' \<mapsto> CHR ''/'' # replicate 300 (CHR ''a'')],
       vbool = Map.empty, vdouble = Map.empty \<rparr>"

section \<open>Example settings entries\<close>

text \<open>
  Entries for the worked examples of the scan: three Morrowind entries (one setting both
  \<^verbatim>\<open>local_path\<close> and \<^verbatim>\<open>local_folder\<close>, one complete, one without any masterlist
  source), an Oblivion entry with a branch and no repository, a Morrowind entry with both
  local fields and no source, an entry that declares Starfield, a Morrowind entry whose
  repository is not on GitHub, and two Morrowind entries whose repository is a name of
  300 letters, the second of which sets both local fields.
\<close>

definition conflicting_morrowind :: toml_table where
  "conflicting_morrowind =
     \<lparr> vstring = [''gameId'' \<mapsto> ''Morrowind'', ''folder'' \<mapsto> ''Morrowind'',
                  ''name'' \<mapsto> ''First'',
                  ''masterlistSource'' \<mapsto> ''https://example.com/masterlist.yaml'',
                  ''local_path'' \<mapsto> ''/home/user/morrowind'',
                  ''local_folder'' \<mapsto> ''Morrowind''],
       vbool = Map.empty, vdouble = Map.empty \<rparr>"

definition second_morrowind :: toml_table where
  "second_morrowind =
     \<lparr> vstring = [''gameId'' \<mapsto> ''Morrowind'', ''folder'' \<mapsto> ''Morrowind'',
                  ''name'' \<mapsto> ''Second'',
                  ''masterlistSource'' \<mapsto> ''https://example.com/masterlist.yaml''],
       vbool = Map.empty, vdouble = Map.empty \<rparr>"

definition third_morrowind :: toml_table where
  "third_morrowind =
     \<lparr> vstring = [''gameId'' \<mapsto> ''Morrowind'', ''folder'' \<mapsto> ''Morrowind'',
                  ''name'' \<mapsto> ''Third''],
       vbool = Map.empty, vdouble = Map.empty \<rparr>"

definition oblivion_without_source :: toml_table where
  "oblivion_without_source =
     \<lparr> vstring = [''gameId'' \<mapsto> ''Oblivion'', ''folder'' \<mapsto> ''Oblivion'',
                  ''name'' \<mapsto> ''TES IV'', ''branch'' \<mapsto> ''v0.23''],
       vbool = Map.empty, vdouble = Map.empty \<rparr>"

definition starfield_entry :: toml_table where
  "starfield_entry =
     \<lparr> vstring = [''gameId'' \<mapsto> ''Starfield'', ''folder'' \<mapsto> ''Starfield'',
                  ''name'' \<mapsto> ''Starfield'',
                  ''masterlistSource'' \<mapsto> ''https://example.com/masterlist.yaml''],
       vbool = Map.empty, vdouble = Map.empty \<rparr>"

definition conflicting_without_source :: toml_table where
  "conflicting_without_source =
     \<lparr> vstring = [''gameId'' \<mapsto> ''Morrowind'', ''folder'' \<mapsto> ''Morrowind'',
                  ''local_path'' \<mapsto> ''/home/user/morrowind'',
                  ''local_folder'' \<mapsto> ''Morrowind''],
       vbool = Map.empty, vdouble = Map.empty \<rparr>"

definition not_github_morrowind :: toml_table where
  "not_github_morrowind =
     \<lparr> vstring = [''gameId'' \<mapsto> ''Morrowind'', ''folder'' \<mapsto> ''Morrowind'',
                  ''name'' \<mapsto> ''NotGitHub'',
                  ''repo'' \<mapsto> ''https://example.com/not-github'', ''branch'' \<mapsto> ''v0.23''],
       vbool = Map.empty, vdouble = Map.empty \<rparr>"

definition long_repo_morrowind :: toml_table where
  "long_repo_morrowind =
     \<lparr> vstring = [''gameId'' \<mapsto> ''Morrowind'', ''folder'' \<mapsto> ''Morrowind'',
                  ''name'' \<mapsto> ''LongRepo'',
                  ''repo'' \<mapsto> replicate 300 (CHR ''a''), ''branch'' \<mapsto> ''master''],
       vbool = Map.empty, vdouble = Map.empty \<rparr>"

definition conflicting_long_repo :: toml_table where
  "conflicting_long_repo =
     \<lparr> vstring = [''gameId'' \<mapsto> ''Morrowind'', ''folder'' \<mapsto> ''Morrowind'',
                  ''repo'' \<mapsto> replicate 300 (CHR ''a''), ''branch'' \<mapsto> ''master'',
                  ''local_path'' \<mapsto> ''/home/user/morrowind'',
                  ''local_folder'' \<mapsto> ''Morrowind''],
       vbool = Map.empty, vdouble = Map.empty \<rparr>"

section \<open>An example load order\<close>

text \<open>
  A game with three loaded plugins: a master without metadata, a plugin whose metadata
  names only a plugin that is not loaded and a message without English text, and a plugin
  with an English message and a master that is not loaded. The example selector takes
  the text of exactly the requested language.
\<close>

definition example_select :: selector where
  "example_select content m_Language = map_of content m_Language"

definition example_game :: GameInterface where
  "example_game =
     \<lparr> GetPlugin =
         [''Skyrim.esm'' \<mapsto> \<lparr> GetMasters = [], LoadsArchive = False, IsMaster = True,
                              IsLightPlugin = False \<rparr>,
          ''Bare.esp'' \<mapsto> \<lparr> GetMasters = [''Skyrim.esm''], LoadsArchive = False,
                            IsMaster = False, IsLightPlugin = False \<rparr>,
          ''Patch.esp'' \<mapsto> \<lparr> GetMasters = [''Skyrim.esm'', ''Missing.esm''],
                             LoadsArchive = False, IsMaster = False, IsLightPlugin = False \<rparr>],
       GetPluginMetadata =
         [''Bare.esp'' \<mapsto>
            \<lparr> GetIncompatibilities = [\<lparr> GetName = ''Absent.esp'', GetDisplayName = ''Absent'' \<rparr>],
              GetMessages = [\<lparr> GetType = warn, GetContent = [(''de'', ''Hinweis'')] \<rparr>],
              GetDirtyInfo = [], GetCleanInfo = [] \<rparr>,
          ''Patch.esp'' \<mapsto>
            \<lparr> GetIncompatibilities = [],
              GetMessages = [\<lparr> GetType = say, GetContent = [(''en'', ''Hello'')] \<rparr>],
              GetDirtyInfo = [], GetCleanInfo = [] \<rparr>] \<rparr>"

text \<open>
  A game with one loaded plugin, whose only metadata is a message with an English text
  that is the empty string.
\<close>

definition silent_game :: GameInterface where
  "silent_game =
     \<lparr> GetPlugin =
         [''Quiet.esp'' \<mapsto> \<lparr> GetMasters = [], LoadsArchive = False, IsMaster = False,
                             IsLightPlugin = False \<rparr>],
       GetPluginMetadata =
         [''Quiet.esp'' \<mapsto>
            \<lparr> GetIncompatibilities = [],
              GetMessages = [\<lparr> GetType = say, GetContent = [(''en'', [])] \<rparr>],
              GetDirtyInfo = [], GetCleanInfo = [] \<rparr>] \<rparr>"

section \<open>Properties\<close>

lemma default_branch_not_old: "DEFAULT_MASTERLIST_BRANCH \<notin> set oldDefaultBranches"
  by (simp add: DEFAULT_MASTERLIST_BRANCH_def oldDefaultBranches_def)

subsection \<open>Branch migration\<close>

text \<open>
  Claim C4. Branch migration maps each of the nine superseded branch names to the
  current default branch, leaves every other branch name as it is, and is idempotent.
\<close>

theorem migrateBranch_superseded_idempotent:
  "set oldDefaultBranches =
     {''master'', ''v0.7'', ''v0.8'', ''v0.10'', ''v0.13'', ''v0.14'', ''v0.15'', ''v0.17'', ''v0.18''}
   \<and> (\<forall>b \<in> set oldDefaultBranches. migrateBranch b = DEFAULT_MASTERLIST_BRANCH)
   \<and> (\<forall>b. b \<notin> set oldDefaultBranches \<longrightarrow> migrateBranch b = b)
   \<and> (\<forall>b. migrateBranch (migrateBranch b) = migrateBranch b)"
proof (intro conjI allI ballI impI)
  show "set oldDefaultBranches =
     {''master'', ''v0.7'', ''v0.8'', ''v0.10'', ''v0.13'', ''v0.14'', ''v0.15'', ''v0.17'', ''v0.18''}"
    unfolding oldDefaultBranches_def by auto
next
  fix b assume "b \<in> set oldDefaultBranches"
  then show "migrateBranch b = DEFAULT_MASTERLIST_BRANCH" by (simp add: migrateBranch_def)
next
  fix b assume "b \<notin> set oldDefaultBranches"
  then show "migrateBranch b = b" by (simp add: migrateBranch_def)
next
  fix b show "migrateBranch (migrateBranch b) = migrateBranch b"
    using default_branch_not_old by (simp add: migrateBranch_def)
qed

theorem migrateBranch_witness:
  "''v0.17'' \<in> set oldDefaultBranches \<and> migrateBranch ''v0.17'' = ''v0.23''
   \<and> ''v0.21'' \<notin> set oldDefaultBranches \<and> migrateBranch ''v0.21'' = ''v0.21''
   \<and> migrateBranch (migrateBranch ''master'') = migrateBranch ''master''"
proof -
  have old: "''v0.17'' \<in> set oldDefaultBranches" by (simp add: oldDefaultBranches_def)
  have new: "''v0.21'' \<notin> set oldDefaultBranches" by (simp add: oldDefaultBranches_def)
  note c4 = migrateBranch_superseded_idempotent
  from c4 old have 1: "migrateBranch ''v0.17'' = DEFAULT_MASTERLIST_BRANCH" by blast
  from c4 new have 2: "migrateBranch ''v0.21'' = ''v0.21''" by blast
  from c4 have 3: "migrateBranch (migrateBranch ''master'') = migrateBranch ''master''" by blast
  from old new 1 2 3 show ?thesis by (simp add: DEFAULT_MASTERLIST_BRANCH_def)
qed

subsection \<open>Explicit-source migration\<close>

lemma official_repos_no_separator:
  "repo \<in> set officialMasterlistRepos \<Longrightarrow> CHR ''/'' \<notin> set repo"
  unfolding officialMasterlistRepos_def by auto

lemma split_at_first:
  "c \<notin> set xs \<Longrightarrow> c \<notin> set xs' \<Longrightarrow> xs @ c # ys = xs' @ c # ys'
     \<Longrightarrow> xs = xs' \<and> ys = ys'"
proof (induction xs arbitrary: xs')
  case Nil
  then show ?case by (cases xs') auto
next
  case (Cons a xs)
  then show ?case by (cases xs') auto
qed

lemma legacy_url_inject:
  assumes "legacy_url r b = legacy_url r' b'" "CHR ''/'' \<notin> set r" "CHR ''/'' \<notin> set r'"
  shows "r = r' \<and> b = b'"
proof -
  from assms(1) have eq: "r @ CHR ''/'' # (b @ ''/masterlist.yaml'')
      = r' @ CHR ''/'' # (b' @ ''/masterlist.yaml'')"
    by (simp add: legacy_url_def)
  have "r = r' \<and> b @ ''/masterlist.yaml'' = b' @ ''/masterlist.yaml''"
    by (rule split_at_first [OF assms(2) assms(3) eq])
  then show ?thesis by simp
qed

lemma migrate_scan_miss:
  "\<forall>(r, b) \<in> set ps. source \<noteq> legacy_url r b \<Longrightarrow> migrate_scan lvl source ps = (source, [])"
  by (induction ps) auto

lemma migrate_scan_hit:
  assumes "(repo, branch) \<in> set ps"
    and "\<forall>(r, b) \<in> set ps. CHR ''/'' \<notin> set r"
    and "CHR ''/'' \<notin> set repo"
  shows "migrate_scan lvl (legacy_url repo branch) ps =
           (GetDefaultMasterlistUrl repo,
            log_write lvl info (''Migrating masterlist source from '' @ legacy_url repo branch
                                 @ '' to '' @ GetDefaultMasterlistUrl repo))"
  using assms
proof (induction ps)
  case Nil
  then show ?case by simp
next
  case (Cons p ps)
  obtain r b where p: "p = (r, b)" by (cases p)
  show ?case
  proof (cases "legacy_url repo branch = legacy_url r b")
    case True
    from Cons.prems(2) p have "CHR ''/'' \<notin> set r" by simp
    with True Cons.prems(3) have "repo = r" using legacy_url_inject by blast
    with True p show ?thesis by simp
  next
    case False
    with Cons.prems(1) p have "(repo, branch) \<in> set ps" by auto
    with Cons.IH Cons.prems(2,3) False p show ?thesis by simp
  qed
qed

text \<open>
  Claim C6. Explicit-source migration is an exact-match table: a source equal to the
  legacy URL of an official repository and a superseded branch is replaced by the
  default masterlist URL of that repository, and the change is logged; every other
  source is returned as it is, with nothing logged.
\<close>

theorem migrateMasterlistSource_exact_table:
  "(\<forall>repo \<in> set officialMasterlistRepos. \<forall>branch \<in> set oldDefaultBranches.
      migrateMasterlistSource lvl
        (''https://raw.githubusercontent.com/loot/'' @ repo @ ''/'' @ branch @ ''/masterlist.yaml'')
      = (GetDefaultMasterlistUrl repo,
         log_write lvl info
           (''Migrating masterlist source from ''
              @ (''https://raw.githubusercontent.com/loot/'' @ repo @ ''/'' @ branch
                   @ ''/masterlist.yaml'')
              @ '' to '' @ GetDefaultMasterlistUrl repo)))
   \<and> (\<forall>source.
        (\<forall>repo \<in> set officialMasterlistRepos. \<forall>branch \<in> set oldDefaultBranches.
           source \<noteq> ''https://raw.githubusercontent.com/loot/'' @ repo @ ''/'' @ branch
                       @ ''/masterlist.yaml'')
        \<longrightarrow> migrateMasterlistSource lvl source = (source, []))"
proof (intro conjI ballI allI impI)
  fix repo branch
  assume rb: "repo \<in> set officialMasterlistRepos" "branch \<in> set oldDefaultBranches"
  have "migrate_scan lvl (legacy_url repo branch)
          (List.product officialMasterlistRepos oldDefaultBranches) =
        (GetDefaultMasterlistUrl repo,
         log_write lvl info (''Migrating masterlist source from '' @ legacy_url repo branch
                              @ '' to '' @ GetDefaultMasterlistUrl repo))"
    using rb official_repos_no_separator by (intro migrate_scan_hit) auto
  then show "migrateMasterlistSource lvl
        (''https://raw.githubusercontent.com/loot/'' @ repo @ ''/'' @ branch @ ''/masterlist.yaml'')
      = (GetDefaultMasterlistUrl repo,
         log_write lvl info
           (''Migrating masterlist source from ''
              @ (''https://raw.githubusercontent.com/loot/'' @ repo @ ''/'' @ branch
                   @ ''/masterlist.yaml'')
              @ '' to '' @ GetDefaultMasterlistUrl repo))"
    by (simp add: migrateMasterlistSource_def legacy_url_def)
next
  fix source
  assume "\<forall>repo \<in> set officialMasterlistRepos. \<forall>branch \<in> set oldDefaultBranches.
           source \<noteq> ''https://raw.githubusercontent.com/loot/'' @ repo @ ''/'' @ branch
                       @ ''/masterlist.yaml''"
  then have "\<forall>(r, b) \<in> set (List.product officialMasterlistRepos oldDefaultBranches).
               source \<noteq> legacy_url r b"
    by (auto simp: legacy_url_def)
  then show "migrateMasterlistSource lvl source = (source, [])"
    unfolding migrateMasterlistSource_def by (rule migrate_scan_miss)
qed

theorem migrateMasterlistSource_witness:
  "migrateMasterlistSource info ''https://raw.githubusercontent.com/loot/skyrimse/v0.17/masterlist.yaml''
     = (''https://raw.githubusercontent.com/loot/skyrimse/v0.23/masterlist.yaml'',
        [(Info, ''Migrating masterlist source from https://raw.githubusercontent.com/loot/skyrimse/v0.17/masterlist.yaml to https://raw.githubusercontent.com/loot/skyrimse/v0.23/masterlist.yaml'')])
   \<and> migrateMasterlistSource info ''https://raw.githubusercontent.com/loot/skyrimse/v0.21/masterlist.yaml''
     = (''https://raw.githubusercontent.com/loot/skyrimse/v0.21/masterlist.yaml'', [])"
proof -
  note c6 = migrateMasterlistSource_exact_table [of info]
  have r: "''skyrimse'' \<in> set officialMasterlistRepos" by (simp add: officialMasterlistRepos_def)
  have b: "''v0.17'' \<in> set oldDefaultBranches" by (simp add: oldDefaultBranches_def)
  have miss: "\<forall>repo \<in> set officialMasterlistRepos. \<forall>branch \<in> set oldDefaultBranches.
      ''https://raw.githubusercontent.com/loot/skyrimse/v0.21/masterlist.yaml''
        \<noteq> ''https://raw.githubusercontent.com/loot/'' @ repo @ ''/'' @ branch @ ''/masterlist.yaml''"
    by (simp add: officialMasterlistRepos_def oldDefaultBranches_def)
  have 1: "migrateMasterlistSource info
        (''https://raw.githubusercontent.com/loot/'' @ ''skyrimse'' @ ''/'' @ ''v0.17'' @ ''/masterlist.yaml'')
      = (GetDefaultMasterlistUrl ''skyrimse'',
         log_write info info
           (''Migrating masterlist source from ''
              @ (''https://raw.githubusercontent.com/loot/'' @ ''skyrimse'' @ ''/'' @ ''v0.17''
                   @ ''/masterlist.yaml'')
              @ '' to '' @ GetDefaultMasterlistUrl ''skyrimse''))"
    by (rule c6 [THEN conjunct1, rule_format, OF r b])
  have 2: "migrateMasterlistSource info
      ''https://raw.githubusercontent.com/loot/skyrimse/v0.21/masterlist.yaml''
     = (''https://raw.githubusercontent.com/loot/skyrimse/v0.21/masterlist.yaml'', [])"
    by (rule c6 [THEN conjunct2, THEN spec, THEN mp, OF miss])
  have 3: "GetDefaultMasterlistUrl ''skyrimse''
      = ''https://raw.githubusercontent.com/loot/skyrimse/v0.23/masterlist.yaml''"
    by (simp add: GetDefaultMasterlistUrl_def DEFAULT_MASTERLIST_BRANCH_def)
  have 4: "log_write info info
           (''Migrating masterlist source from ''
              @ (''https://raw.githubusercontent.com/loot/'' @ ''skyrimse'' @ ''/'' @ ''v0.17''
                   @ ''/masterlist.yaml'')
              @ '' to '' @ ''https://raw.githubusercontent.com/loot/skyrimse/v0.23/masterlist.yaml'')
     = [(Info, ''Migrating masterlist source from https://raw.githubusercontent.com/loot/skyrimse/v0.17/masterlist.yaml to https://raw.githubusercontent.com/loot/skyrimse/v0.23/masterlist.yaml'')]"
    by (simp add: log_write_def)
  have 5: "''https://raw.githubusercontent.com/loot/'' @ ''skyrimse'' @ ''/'' @ ''v0.17'' @ ''/masterlist.yaml''
     = ''https://raw.githubusercontent.com/loot/skyrimse/v0.17/masterlist.yaml''"
    by simp
  from 1 show ?thesis unfolding 3 4 unfolding 5 using 2 by (intro conjI)
qed

subsection \<open>The regular expression for GitHub URLs\<close>

lemma tolower_separator: "tolower c = CHR ''/'' \<longleftrightarrow> c = CHR ''/''"
  by (auto simp: tolower_def upper_letters_def lower_letters_def split: if_splits)

lemma ToLower_simps:
  "ToLower [] = []"
  "ToLower (c # cs) = tolower c # ToLower cs"
  "ToLower (xs @ ys) = ToLower xs @ ToLower ys"
  "length (ToLower xs) = length xs"
  by (simp_all add: ToLower_def)

lemma ToLower_Nil_iff: "ToLower xs = [] \<longleftrightarrow> xs = []"
  by (simp add: ToLower_def)

lemma tolower_separator_self: "tolower CHR ''/'' = CHR ''/''"
  by (simp add: tolower_separator)

lemma ToLower_no_separator: "CHR ''/'' \<notin> set xs \<Longrightarrow> CHR ''/'' \<notin> set (ToLower xs)"
proof (induction xs)
  case Nil
  then show ?case by (simp add: ToLower_simps)
next
  case (Cons a xs)
  then have "tolower a \<noteq> CHR ''/''" by (auto simp: tolower_separator)
  with Cons show ?case by (auto simp: ToLower_simps)
qed

lemma ToLower_git: "ToLower ''.git'' = ''.git''" "ToLower ''/'' = ''/''"
  by (simp_all add: ToLower_def tolower_def upper_letters_def lower_letters_def)

lemma git_tail_iff:
  "git_tail r \<longleftrightarrow> ToLower r = [] \<or> ToLower r = ''/'' \<or> ToLower r = ''.git'' \<or> ToLower r = ''.git/''"
  by (simp add: git_tail_def)

lemma git_tail_parts:
  assumes "git = [] \<or> ToLower git = ''.git''" "slash = [] \<or> slash = ''/''"
  shows "git_tail (git @ slash)"
  using assms by (auto simp: git_tail_iff ToLower_simps ToLower_git tolower_separator_self)

lemma earlier_stop_is_git_suffix:
  assumes "d \<noteq> []" "CHR ''/'' \<notin> set d"
    and "git = [] \<or> ToLower git = ''.git''" "slash = [] \<or> slash = ''/''"
    and "git_tail (d @ git @ slash)"
  shows "git = [] \<and> ToLower d = ''.git''"
proof -
  define L where "L = ToLower d"
  have L: "L \<noteq> []" "CHR ''/'' \<notin> set L"
    using assms(1,2) by (simp_all add: L_def ToLower_Nil_iff ToLower_no_separator)
  have S: "ToLower slash = [] \<or> ToLower slash = ''/''"
    using assms(4) by (auto simp: ToLower_simps tolower_separator_self)
  have G: "ToLower git = [] \<and> git = [] \<or> ToLower git = ''.git'' \<and> git \<noteq> []"
    using assms(3) by (auto simp: ToLower_simps)
  from assms(5) have "L @ ToLower git @ ToLower slash \<in> {[], ''/'', ''.git'', ''.git/''}"
    by (simp add: git_tail_iff ToLower_simps L_def)
  with L S G have "git = [] \<and> L = ''.git''"
    by (cases L) (auto simp: append_eq_Cons_conv)
  then show ?thesis by (simp add: L_def)
qed

lemma ToLower_git_length: "ToLower g = ''.git'' \<Longrightarrow> length g = 4"
proof -
  assume "ToLower g = ''.git''"
  then have "length (ToLower g) = length ''.git''" by simp
  then show ?thesis by (simp add: ToLower_simps)
qed

lemma ends_with_git_intro:
  assumes "r \<noteq> []" "ToLower g = ''.git''"
  shows "ends_with_git (r @ g)"
  using assms ToLower_git_length [OF assms(2)] by (simp add: ends_with_git_def)

lemma ends_with_git_Cons:
  assumes "ends_with_git cs"
  shows "ends_with_git (c # cs)"
proof -
  from assms have len: "4 < length cs" by (simp add: ends_with_git_def)
  then have "length (c # cs) - 4 = Suc (length cs - 4)" by simp
  with assms len show ?thesis by (simp add: ends_with_git_def)
qed

lemma repo_lazy_capture:
  assumes "repo \<noteq> []" "CHR ''/'' \<notin> set repo"
    and "git = [] \<or> ToLower git = ''.git''" "slash = [] \<or> slash = ''/''"
    and "git = [] \<longrightarrow> \<not> ends_with_git repo"
  shows "repo_lazy acc (repo @ git @ slash) = Some (acc @ repo)"
  using assms(1,2,5)
proof (induction repo arbitrary: acc)
  case Nil
  then show ?case by simp
next
  case (Cons c cs)
  from Cons.prems(2) have c: "c \<noteq> CHR ''/''" and cs: "CHR ''/'' \<notin> set cs" by auto
  show ?case
  proof (cases "cs = []")
    case True
    with c git_tail_parts [OF assms(3,4)] show ?thesis by simp
  next
    case False
    have no_stop: "\<not> git_tail (cs @ git @ slash)"
    proof
      assume "git_tail (cs @ git @ slash)"
      from earlier_stop_is_git_suffix [OF False cs assms(3,4) this]
      have g: "git = []" and "ToLower cs = ''.git''" by simp_all
      then have "ends_with_git ([c] @ cs)" by (intro ends_with_git_intro) simp_all
      with g Cons.prems(3) show False by simp
    qed
    have "git = [] \<longrightarrow> \<not> ends_with_git cs"
      using Cons.prems(3) ends_with_git_Cons by blast
    from Cons.IH [OF False cs this] c no_stop show ?thesis by simp
  qed
qed

lemma repo_lazy_total:
  assumes "repo \<noteq> []" "CHR ''/'' \<notin> set repo" "git_tail tail"
  shows "repo_lazy acc (repo @ tail) \<noteq> None"
  using assms(1,2)
proof (induction repo arbitrary: acc)
  case Nil
  then show ?case by simp
next
  case (Cons c cs)
  then show ?case using assms(3) by (cases "cs = []") auto
qed

lemma repo_lazy_sound:
  "repo_lazy acc cs = Some r \<Longrightarrow>
     \<exists>repo tail. r = acc @ repo \<and> cs = repo @ tail \<and> repo \<noteq> []
        \<and> CHR ''/'' \<notin> set repo \<and> git_tail tail"
proof (induction cs arbitrary: acc)
  case Nil
  then show ?case by simp
next
  case (Cons c cs)
  from Cons.prems have c: "c \<noteq> CHR ''/''" by (auto split: if_splits)
  show ?case
  proof (cases "git_tail cs")
    case True
    with Cons.prems c have "r = acc @ [c]" by simp
    with True c show ?thesis by (intro exI [of _ "[c]"] exI [of _ cs]) simp
  next
    case False
    with Cons.prems c have "repo_lazy (acc @ [c]) cs = Some r" by simp
    from Cons.IH [OF this] obtain repo tail where
      "r = (acc @ [c]) @ repo" "cs = repo @ tail" "repo \<noteq> []"
      "CHR ''/'' \<notin> set repo" "git_tail tail" by blast
    with c show ?thesis by (intro exI [of _ "c # repo"] exI [of _ tail]) simp
  qed
qed

lemma git_tail_split:
  assumes "git_tail tail"
  shows "\<exists>git slash. tail = git @ slash \<and> (git = [] \<or> ToLower git = ''.git'')
           \<and> (slash = [] \<or> slash = ''/'')"
proof -
  from assms consider "ToLower tail = []" | "ToLower tail = ''/''" | "ToLower tail = ''.git''"
    | "ToLower tail = ''.git/''"
    by (auto simp: git_tail_iff)
  then show ?thesis
  proof cases
    case 1
    then have "tail = []" by (simp add: ToLower_Nil_iff)
    then show ?thesis by simp
  next
    case 2
    then have "tail = ''/''"
      by (auto simp: ToLower_def map_eq_Cons_conv tolower_separator)
    then show ?thesis by (intro exI [of _ "[]"] exI [of _ "''/''"]) simp
  next
    case 3
    then show ?thesis by (intro exI [of _ tail] exI [of _ "[]"]) simp
  next
    case 4
    then obtain g where "tail = g @ ''/''" "ToLower g = ''.git''"
      by (auto simp: ToLower_def map_eq_Cons_conv tolower_separator)
    then show ?thesis by (intro exI [of _ g] exI [of _ "''/''"]) simp
  qed
qed

lemma github_prefix_length: "ToLower pre = ''https://github.com/'' \<Longrightarrow> length pre = 19"
proof -
  assume "ToLower pre = ''https://github.com/''"
  then have "length (ToLower pre) = length ''https://github.com/''" by simp
  then show ?thesis by (simp add: ToLower_simps)
qed

lemma GITHUB_REPO_URL_REGEX_unfold:
  "GITHUB_REPO_URL_REGEX url =
     (if ToLower (take 19 url) \<noteq> ''https://github.com/'' then None
      else if takeWhile (\<lambda>c. c \<noteq> CHR ''/'') (drop 19 url) = [] then None
      else (case dropWhile (\<lambda>c. c \<noteq> CHR ''/'') (drop 19 url) of
              [] \<Rightarrow> None
            | sep # after \<Rightarrow>
                (case repo_lazy [] after of
                   None \<Rightarrow> None
                 | Some githubRepo \<Rightarrow>
                     Some (takeWhile (\<lambda>c. c \<noteq> CHR ''/'') (drop 19 url), githubRepo))))"
proof -
  have len: "length ''https://github.com/'' = (19::nat)" by simp
  show ?thesis unfolding GITHUB_REPO_URL_REGEX_def Let_def len by simp
qed

lemma github_url_parts_prefix:
  assumes "github_url_parts url pre owner repo git slash"
  shows "ToLower (take 19 url) = ''https://github.com/''"
    and "takeWhile (\<lambda>c. c \<noteq> CHR ''/'') (drop 19 url) = owner"
    and "dropWhile (\<lambda>c. c \<noteq> CHR ''/'') (drop 19 url) = CHR ''/'' # repo @ git @ slash"
proof -
  from assms have url: "url = pre @ owner @ CHR ''/'' # repo @ git @ slash"
    and pre: "ToLower pre = ''https://github.com/''"
    and owner: "CHR ''/'' \<notin> set owner"
    by (simp_all add: github_url_parts_def)
  note len = github_prefix_length [OF pre]
  from url len pre show "ToLower (take 19 url) = ''https://github.com/''" by simp
  from url len have rest: "drop 19 url = owner @ CHR ''/'' # repo @ git @ slash" by simp
  from owner have P: "\<And>x. x \<in> set owner \<Longrightarrow> x \<noteq> CHR ''/''" by auto
  show "takeWhile (\<lambda>c. c \<noteq> CHR ''/'') (drop 19 url) = owner"
    unfolding rest using P by (simp add: takeWhile_append2)
  show "dropWhile (\<lambda>c. c \<noteq> CHR ''/'') (drop 19 url) = CHR ''/'' # repo @ git @ slash"
    unfolding rest using P by (simp add: dropWhile_append2)
qed

lemma GITHUB_REPO_URL_REGEX_capture:
  assumes "github_url_parts url pre owner repo git slash"
    and "git = [] \<longrightarrow> \<not> ends_with_git repo"
  shows "GITHUB_REPO_URL_REGEX url = Some (owner, repo)"
proof -
  from assms(1) have parts: "owner \<noteq> []" "repo \<noteq> []" "CHR ''/'' \<notin> set repo"
    "git = [] \<or> ToLower git = ''.git''" "slash = [] \<or> slash = ''/''"
    by (simp_all add: github_url_parts_def)
  have "repo_lazy [] (repo @ git @ slash) = Some repo"
    using repo_lazy_capture [OF parts(2,3,4,5) assms(2), of "[]"] by simp
  with github_url_parts_prefix [OF assms(1)] parts(1) show ?thesis
    by (simp add: GITHUB_REPO_URL_REGEX_unfold)
qed

lemma GITHUB_REPO_URL_REGEX_complete:
  assumes "github_url_parts url pre owner repo git slash"
  shows "GITHUB_REPO_URL_REGEX url \<noteq> None"
proof -
  from assms have parts: "owner \<noteq> []" "repo \<noteq> []" "CHR ''/'' \<notin> set repo"
    "git = [] \<or> ToLower git = ''.git''" "slash = [] \<or> slash = ''/''"
    by (simp_all add: github_url_parts_def)
  have "repo_lazy [] (repo @ git @ slash) \<noteq> None"
    by (rule repo_lazy_total [OF parts(2,3) git_tail_parts [OF parts(4,5)]])
  with github_url_parts_prefix [OF assms] parts(1) show ?thesis
    by (auto simp: GITHUB_REPO_URL_REGEX_unfold)
qed

lemma GITHUB_REPO_URL_REGEX_sound:
  assumes "GITHUB_REPO_URL_REGEX url = Some (owner, repo)"
  shows "\<exists>pre git slash. github_url_parts url pre owner repo git slash"
proof -
  let ?P = "\<lambda>c. c \<noteq> CHR ''/''"
  let ?rest = "drop 19 url"
  from assms have pre: "ToLower (take 19 url) = ''https://github.com/''"
    by (auto simp: GITHUB_REPO_URL_REGEX_unfold split: if_splits)
  from assms have owner: "owner = takeWhile ?P ?rest" "owner \<noteq> []"
    by (auto simp: GITHUB_REPO_URL_REGEX_unfold split: if_splits list.splits option.splits)
  from assms obtain sep after where
    dw: "dropWhile ?P ?rest = sep # after" and lazy: "repo_lazy [] after = Some repo"
    by (auto simp: GITHUB_REPO_URL_REGEX_unfold split: if_splits list.splits option.splits)
  from dw have "dropWhile ?P ?rest \<noteq> []" by simp
  then have "\<not> ?P (hd (dropWhile ?P ?rest))" by (rule hd_dropWhile)
  with dw have sep: "sep = CHR ''/''" by simp
  from repo_lazy_sound [OF lazy] obtain tail where
    tail: "after = repo @ tail" "repo \<noteq> []" "CHR ''/'' \<notin> set repo" "git_tail tail"
    by auto
  from git_tail_split [OF tail(4)] obtain git slash where
    gs: "tail = git @ slash" "git = [] \<or> ToLower git = ''.git''" "slash = [] \<or> slash = ''/''"
    by blast
  have "url = take 19 url @ ?rest" by simp
  also have "?rest = takeWhile ?P ?rest @ dropWhile ?P ?rest" by simp
  finally have url: "url = take 19 url @ owner @ ''/'' @ repo @ git @ slash"
    using owner(1) dw sep tail(1) gs(1) by simp
  have "CHR ''/'' \<notin> set owner"
    unfolding owner(1) using set_takeWhileD by fastforce
  with url pre owner(2) tail(2,3) gs(2,3)
  have "github_url_parts url (take 19 url) owner repo git slash"
    unfolding github_url_parts_def by blast
  then show ?thesis by blast
qed

lemma GITHUB_REPO_URL_REGEX_no_separator:
  assumes "GITHUB_REPO_URL_REGEX url = Some (owner, repo)"
  shows "CHR ''/'' \<notin> set owner \<and> CHR ''/'' \<notin> set repo"
  using GITHUB_REPO_URL_REGEX_sound [OF assms] by (auto simp: github_url_parts_def)

subsection \<open>The example file system\<close>

text \<open>
  The example file system cannot look up a name of 300 letters: a query for the path
  \<^verbatim>\<open>/aaa...a\<close> throws, and so does the local-path test of a repository of that
  name, which asks for \<^verbatim>\<open>aaa...a/masterlist.yaml\<close>.
\<close>

lemma name_too_long_from_replicate:
  "c \<noteq> CHR ''/'' \<Longrightarrow>
     name_too_long_from n (replicate k c @ rest) = name_too_long_from (n + k) rest"
  by (induction k arbitrary: n) simp_all

lemma name_too_long_300:
  "name_too_long (CHR ''/'' # replicate 300 (CHR ''a''))"
  "name_too_long (path_append (replicate 300 (CHR ''a'')) ''masterlist.yaml'')"
proof -
  have a: "CHR ''a'' \<noteq> CHR ''/''" by simp
  from name_too_long_from_replicate [OF a, of 0 300 "[]"]
  show "name_too_long (CHR ''/'' # replicate 300 (CHR ''a''))"
    by (simp add: name_too_long_def)
  have r: "replicate 300 (CHR ''a'') \<noteq> []" "last (replicate 300 (CHR ''a'')) = CHR ''a''"
    by simp_all
  from name_too_long_from_replicate [OF a, of 0 300 "''/masterlist.yaml''"] r
  show "name_too_long (path_append (replicate 300 (CHR ''a'')) ''masterlist.yaml'')"
    by (simp add: name_too_long_def path_append_def)
qed

lemma replicate_300: "replicate 300 (CHR ''a'') = CHR ''a'' # replicate 299 (CHR ''a'')"
proof -
  have "replicate (Suc 299) (CHR ''a'') = CHR ''a'' # replicate 299 (CHR ''a'')"
    by (rule replicate_Suc)
  then show ?thesis by simp
qed

lemma migrateRepositoryUrl_300:
  "migrateRepositoryUrl tes3 (replicate 300 (CHR ''a'')) = replicate 300 (CHR ''a'')"
  by (simp add: migrateRepositoryUrl_def)

lemma isLocalPath_300:
  "isLocalPath example_env (migrateRepositoryUrl tes3 (replicate 300 (CHR ''a'')))
     ''masterlist.yaml'' = filesystem_error"
proof -
  note u = migrateRepositoryUrl_300
  note r = replicate_300
  have s: "\<not> starts_with (replicate 300 (CHR ''a'')) ''http://''"
    "\<not> starts_with (replicate 300 (CHR ''a'')) ''https://''"
    unfolding r by simp_all
  have "fs_is_regular_file example_env
          (path_append (replicate 300 (CHR ''a'')) ''masterlist.yaml'') = filesystem_error"
    using name_too_long_300(2) by (simp add: example_env_def)
  with s show ?thesis unfolding u by (simp add: isLocalPath_def)
qed

text \<open>
  A Morrowind entry with such a repository: the exception leaves the migration after the
  branch migration has logged its line, and the iteration of the loop with it.
\<close>

lemma GITHUB_REPO_URL_REGEX_300:
  "GITHUB_REPO_URL_REGEX (migrateRepositoryUrl tes3 (replicate 300 (CHR ''a''))) = None"
proof -
  have "ToLower (take 19 (replicate 300 (CHR ''a''))) \<noteq> ''https://github.com/''"
    unfolding replicate_300
    by (simp add: ToLower_def tolower_def upper_letters_def lower_letters_def)
  then show ?thesis
    unfolding migrateRepositoryUrl_300 by (simp add: GITHUB_REPO_URL_REGEX_unfold)
qed

lemma migrateMasterlistRepoSettings_300:
  "migrateMasterlistRepoSettings example_env info tes3 (replicate 300 (CHR ''a'')) ''master''
     = (filesystem_error,
        [(Info, ''Updating masterlist repository branch from master to v0.23'')])"
  by (simp add: migrateMasterlistRepoSettings_def Let_def isLocalPath_300
      migrateBranch_log_def migrateRepositoryUrl_log_def oldDefaultBranches_def log_write_def
      DEFAULT_MASTERLIST_BRANCH_def)

lemma resolveSource_300:
  "resolveSource example_env info tes3 None (Some (replicate 300 (CHR ''a''))) (Some ''master'')
     = SourceThrows [(Info, ''Updating masterlist repository branch from master to v0.23'')]"
  by (simp add: resolveSource_def migrateMasterlistRepoSettings_300)

lemmas entry_eval =
  process_entry_def declared_GameId_def classified_def declared_folder_def
  merge_overrides_def merge_paths_def default_GameSettings_def new_GameSettings_def
  SetName_def SetMaster_def SetMinimumHeaderVersion_def Let_def

lemma long_repo_morrowind_thrown:
  "process_entry example_env info (default_GameSettings example_env tes3) long_repo_morrowind
     = (Threw FilesystemError,
        [(Info, ''Updating masterlist repository branch from master to v0.23'')])"
  by (simp add: long_repo_morrowind_def entry_eval resolveSource_300)

lemma conflicting_long_repo_thrown:
  "process_entry example_env info (default_GameSettings example_env tes3) conflicting_long_repo
     = (Threw FilesystemError,
        [(Info, ''Updating masterlist repository branch from master to v0.23'')])"
  by (simp add: conflicting_long_repo_def entry_eval resolveSource_300)

subsection \<open>Rewriting GitHub URLs\<close>

lemma merge_paths_source:
  "merge_paths e t s = Accepted s' \<Longrightarrow> gs_masterlistSource s' = gs_masterlistSource s"
  by (auto simp: merge_paths_def Let_def SetGamePath_def SetGameLocalPath_def
      SetGameLocalFolder_def split: option.splits)

lemma merge_paths_step:
  "merge_paths e t s = Threw ConflictingConfiguration \<or> (\<exists>s'. merge_paths e t s = Accepted s')"
  by (simp add: merge_paths_def Let_def split: option.splits)

text \<open>
  The block of a matching entry, after its first three overrides: they change neither
  the identity, nor the class, nor the masterlist source of the candidate profile.
\<close>

lemma merge_overrides_source:
  "\<exists>s3. merge_overrides e lvl t n =
          (case resolveSource e lvl (gs_id s3) (vstring t ''masterlistSource'')
                  (vstring t ''repo'') (vstring t ''branch'') of
             SourceUndefined \<Rightarrow> (Undefined, [])
           | SourceThrows logs \<Rightarrow> (Threw FilesystemError, logs)
           | KeepSource logs \<Rightarrow> (merge_paths e t s3, logs)
           | NewSource src logs \<Rightarrow> (merge_paths e t (SetMasterlistSource src s3), logs))
        \<and> gs_id s3 = gs_id n \<and> gs_type s3 = gs_type n
        \<and> gs_masterlistSource s3 = gs_masterlistSource n"
  unfolding merge_overrides_def Let_def
  apply (rule exI)
  apply (rule conjI)
   apply (rule refl)
  apply (simp add: SetName_def SetMaster_def SetMinimumHeaderVersion_def split: option.splits)
  done

lemma merge_overrides_keep:
  assumes "resolveSource e lvl (gs_id n) (vstring t ''masterlistSource'') (vstring t ''repo'')
             (vstring t ''branch'') = KeepSource logs"
  shows "snd (merge_overrides e lvl t n) = logs"
    and "\<forall>s. fst (merge_overrides e lvl t n) = Accepted s
           \<longrightarrow> gs_masterlistSource s = gs_masterlistSource n"
    and "fst (merge_overrides e lvl t n) = Threw ConflictingConfiguration
         \<or> (\<exists>s. fst (merge_overrides e lvl t n) = Accepted s)"
proof -
  from merge_overrides_source [of e lvl t n] obtain s3 where
    m: "merge_overrides e lvl t n =
          (case resolveSource e lvl (gs_id s3) (vstring t ''masterlistSource'')
                  (vstring t ''repo'') (vstring t ''branch'') of
             SourceUndefined \<Rightarrow> (Undefined, [])
           | SourceThrows logs \<Rightarrow> (Threw FilesystemError, logs)
           | KeepSource logs \<Rightarrow> (merge_paths e t s3, logs)
           | NewSource src logs \<Rightarrow> (merge_paths e t (SetMasterlistSource src s3), logs))"
    and i: "gs_id s3 = gs_id n" and src: "gs_masterlistSource s3 = gs_masterlistSource n"
    by blast
  from m i assms have r: "merge_overrides e lvl t n = (merge_paths e t s3, logs)" by simp
  then show "snd (merge_overrides e lvl t n) = logs" by simp
  from r src show "\<forall>s. fst (merge_overrides e lvl t n) = Accepted s
           \<longrightarrow> gs_masterlistSource s = gs_masterlistSource n"
    by (auto dest: merge_paths_source)
  from r merge_paths_step [of e t s3]
  show "fst (merge_overrides e lvl t n) = Threw ConflictingConfiguration
         \<or> (\<exists>s. fst (merge_overrides e lvl t n) = Accepted s)" by simp
qed

text \<open>
  The local-path test answers no, without a look at the file system, for every location
  that starts with \<^verbatim>\<open>http://\<close> or \<^verbatim>\<open>https://\<close> in lower case.
\<close>

lemma isLocalPath_http:
  "starts_with location ''http://'' \<or> starts_with location ''https://''
     \<Longrightarrow> isLocalPath e location fname = Answer False"
  by (simp add: isLocalPath_def)

text \<open>
  Claim C2, amended. When the local-path test of the (possibly migrated) URL completes
  and answers that it is not a local repository path, as it does without a look at the
  file system for every URL that starts with http:// or https:// in lower case: a URL of
  the form https://github.com/<owner>/<repo>, with
  an optional .git suffix and an optional trailing slash, compared without regard to
  case, is rewritten to
  https://raw.githubusercontent.com/<owner>/<repo>/<branch>/masterlist.yaml with the
  migrated branch; any other URL gives no result and a warning, and the caller, the block
  of the matching entry, sets no source: if it accepts the entry, the masterlist source
  of the profile is the one the candidate profile had before. A .git at the end of the
  URL is the suffix, not a part of <repo>.
\<close>

theorem migrateMasterlistRepoSettings_github:
  assumes "isLocalPath e (migrateRepositoryUrl gid url) ''masterlist.yaml'' = Answer False"
  shows
    "(\<forall>pre owner repo git slash.
        github_url_parts (migrateRepositoryUrl gid url) pre owner repo git slash
          \<and> (git = [] \<longrightarrow> \<not> ends_with_git repo)
        \<longrightarrow> migrateMasterlistRepoSettings e lvl gid url branch =
              (Answer (Some (''https://raw.githubusercontent.com/'' @ owner @ ''/'' @ repo
                               @ ''/'' @ migrateBranch branch @ ''/masterlist.yaml'')),
               migrateBranch_log lvl branch @ migrateRepositoryUrl_log lvl gid url))
     \<and> ((\<forall>pre owner repo git slash.
            \<not> github_url_parts (migrateRepositoryUrl gid url) pre owner repo git slash)
        \<longrightarrow> migrateMasterlistRepoSettings e lvl gid url branch =
              (Answer None,
               migrateBranch_log lvl branch @ migrateRepositoryUrl_log lvl gid url
                 @ log_write lvl warning cannot_migrate_message)
            \<and> resolveSource e lvl gid None (Some url) (Some branch) =
                KeepSource (migrateBranch_log lvl branch @ migrateRepositoryUrl_log lvl gid url
                             @ log_write lvl warning cannot_migrate_message)
            \<and> (\<forall>t newSettings.
                  gs_id newSettings = gid \<and> vstring t ''masterlistSource'' = None
                  \<and> vstring t ''repo'' = Some url \<and> vstring t ''branch'' = Some branch
                  \<longrightarrow> snd (merge_overrides e lvl t newSettings) =
                        migrateBranch_log lvl branch @ migrateRepositoryUrl_log lvl gid url
                          @ log_write lvl warning cannot_migrate_message
                      \<and> (\<forall>s. fst (merge_overrides e lvl t newSettings) = Accepted s
                            \<longrightarrow> gs_masterlistSource s = gs_masterlistSource newSettings)
                      \<and> (fst (merge_overrides e lvl t newSettings)
                           = Threw ConflictingConfiguration
                         \<or> (\<exists>s. fst (merge_overrides e lvl t newSettings) = Accepted s))))"
proof (intro conjI allI impI)
  fix pre owner repo git slash
  assume "github_url_parts (migrateRepositoryUrl gid url) pre owner repo git slash
            \<and> (git = [] \<longrightarrow> \<not> ends_with_git repo)"
  then have "GITHUB_REPO_URL_REGEX (migrateRepositoryUrl gid url) = Some (owner, repo)"
    using GITHUB_REPO_URL_REGEX_capture by blast
  with assms show "migrateMasterlistRepoSettings e lvl gid url branch =
      (Answer (Some (''https://raw.githubusercontent.com/'' @ owner @ ''/'' @ repo @ ''/''
               @ migrateBranch branch @ ''/masterlist.yaml'')),
       migrateBranch_log lvl branch @ migrateRepositoryUrl_log lvl gid url)"
    by (simp add: migrateMasterlistRepoSettings_def Let_def)
next
  assume none: "\<forall>pre owner repo git slash.
      \<not> github_url_parts (migrateRepositoryUrl gid url) pre owner repo git slash"
  have "GITHUB_REPO_URL_REGEX (migrateRepositoryUrl gid url) = None"
  proof (cases "GITHUB_REPO_URL_REGEX (migrateRepositoryUrl gid url)")
    case None
    then show ?thesis .
  next
    case (Some p)
    obtain owner repo where "p = (owner, repo)" by (cases p)
    with Some GITHUB_REPO_URL_REGEX_sound none show ?thesis by blast
  qed
  with assms show m: "migrateMasterlistRepoSettings e lvl gid url branch =
      (Answer None,
       migrateBranch_log lvl branch @ migrateRepositoryUrl_log lvl gid url
         @ log_write lvl warning cannot_migrate_message)"
    by (simp add: migrateMasterlistRepoSettings_def Let_def)
  then show k: "resolveSource e lvl gid None (Some url) (Some branch) =
      KeepSource (migrateBranch_log lvl branch @ migrateRepositoryUrl_log lvl gid url
                   @ log_write lvl warning cannot_migrate_message)"
    by (simp add: resolveSource_def)
  fix t :: toml_table and newSettings :: GameSettings
  assume h: "gs_id newSettings = gid \<and> vstring t ''masterlistSource'' = None
                  \<and> vstring t ''repo'' = Some url \<and> vstring t ''branch'' = Some branch"
  with k have r: "resolveSource e lvl (gs_id newSettings) (vstring t ''masterlistSource'')
      (vstring t ''repo'') (vstring t ''branch'')
    = KeepSource (migrateBranch_log lvl branch @ migrateRepositoryUrl_log lvl gid url
                   @ log_write lvl warning cannot_migrate_message)" by simp
  from merge_overrides_keep(1) [OF r]
  show "snd (merge_overrides e lvl t newSettings) =
          migrateBranch_log lvl branch @ migrateRepositoryUrl_log lvl gid url
            @ log_write lvl warning cannot_migrate_message" .
  from merge_overrides_keep(3) [OF r]
  show "fst (merge_overrides e lvl t newSettings) = Threw ConflictingConfiguration
         \<or> (\<exists>s. fst (merge_overrides e lvl t newSettings) = Accepted s)" .
  fix s
  assume "fst (merge_overrides e lvl t newSettings) = Accepted s"
  with merge_overrides_keep(2) [OF r]
  show "gs_masterlistSource s = gs_masterlistSource newSettings" by blast
qed

theorem migrateMasterlistRepoSettings_github_witness:
  "isLocalPath example_env (migrateRepositoryUrl tes5 ''https://github.com/loot/skyrim.git'')
        ''masterlist.yaml'' = Answer False
   \<and> github_url_parts (migrateRepositoryUrl tes5 ''https://github.com/loot/skyrim.git'')
        ''https://github.com/'' ''loot'' ''skyrim'' ''.git'' []
   \<and> migrateMasterlistRepoSettings example_env info tes5
        ''https://github.com/loot/skyrim.git'' ''v0.23''
       = (Answer (Some ''https://raw.githubusercontent.com/loot/skyrim/v0.23/masterlist.yaml''),
          [])
   \<and> isLocalPath example_env (migrateRepositoryUrl tes3 ''https://example.com/not-github'')
        ''masterlist.yaml'' = Answer False
   \<and> migrateMasterlistRepoSettings example_env info tes3
        ''https://example.com/not-github'' ''v0.23''
       = (Answer None, [(Warning, ''Cannot migrate masterlist repository settings as the URL does not point to a repository on GitHub.'')])
   \<and> resolveSource example_env info tes3 None (Some ''https://example.com/not-github'')
        (Some ''v0.23'')
       = KeepSource [(Warning, ''Cannot migrate masterlist repository settings as the URL does not point to a repository on GitHub.'')]
   \<and> process_entry example_env info (default_GameSettings example_env tes3)
        not_github_morrowind
       = (Accepted (SetName ''NotGitHub'' (new_GameSettings example_env tes3 ''Morrowind'')),
          [(Warning, ''Cannot migrate masterlist repository settings as the URL does not point to a repository on GitHub.'')])
   \<and> gs_masterlistSource (SetName ''NotGitHub'' (new_GameSettings example_env tes3 ''Morrowind''))
       = ''https://raw.githubusercontent.com/loot/morrowind/v0.23/masterlist.yaml''"
proof -
  let ?warning = "[(Warning, ''Cannot migrate masterlist repository settings as the URL does not point to a repository on GitHub.'')]"
  let ?n = "new_GameSettings example_env tes3 ''Morrowind''"
  have u1: "migrateRepositoryUrl tes5 ''https://github.com/loot/skyrim.git''
              = ''https://github.com/loot/skyrim.git''"
    and u2: "migrateRepositoryUrl tes3 ''https://example.com/not-github''
              = ''https://example.com/not-github''"
    by (simp_all add: migrateRepositoryUrl_def)
  have l1: "isLocalPath example_env (migrateRepositoryUrl tes5 ''https://github.com/loot/skyrim.git'')
        ''masterlist.yaml'' = Answer False"
    and l2: "isLocalPath example_env (migrateRepositoryUrl tes3 ''https://example.com/not-github'')
        ''masterlist.yaml'' = Answer False"
    unfolding u1 u2 by (simp_all add: isLocalPath_def)
  have p: "github_url_parts (migrateRepositoryUrl tes5 ''https://github.com/loot/skyrim.git'')
        ''https://github.com/'' ''loot'' ''skyrim'' ''.git'' []"
    unfolding u1
    by (simp add: github_url_parts_def ToLower_def tolower_def upper_letters_def lower_letters_def)
  have np: "\<forall>pre owner repo git slash.
      \<not> github_url_parts (migrateRepositoryUrl tes3 ''https://example.com/not-github'')
          pre owner repo git slash"
  proof (intro allI notI)
    fix pre owner repo git slash
    assume "github_url_parts (migrateRepositoryUrl tes3 ''https://example.com/not-github'')
          pre owner repo git slash"
    from github_url_parts_prefix(1) [OF this] show False
      unfolding u2
      by (simp add: ToLower_def tolower_def upper_letters_def lower_letters_def)
  qed
  have logs: "migrateBranch_log info ''v0.23'' = []"
    "migrateRepositoryUrl_log info tes5 ''https://github.com/loot/skyrim.git'' = []"
    "migrateRepositoryUrl_log info tes3 ''https://example.com/not-github'' = []"
    "migrateBranch ''v0.23'' = ''v0.23''"
    "log_write info warning cannot_migrate_message = ?warning"
    by (simp_all add: migrateBranch_log_def migrateRepositoryUrl_log_def migrateBranch_def
        oldDefaultBranches_def log_write_def cannot_migrate_message_def)
  note c2a = migrateMasterlistRepoSettings_github [OF l1, of info "''v0.23''", THEN conjunct1,
      rule_format, of "''https://github.com/''" "''loot''" "''skyrim''" "''.git''" "[]"]
  note c2b = migrateMasterlistRepoSettings_github [OF l2, of info "''v0.23''", THEN conjunct2,
      THEN mp, OF np]
  have a: "migrateMasterlistRepoSettings example_env info tes5
             ''https://github.com/loot/skyrim.git'' ''v0.23''
       = (Answer (Some ''https://raw.githubusercontent.com/loot/skyrim/v0.23/masterlist.yaml''),
          [])"
    using c2a p by (simp add: logs)
  from c2b have b: "migrateMasterlistRepoSettings example_env info tes3
        ''https://example.com/not-github'' ''v0.23'' = (Answer None, ?warning)"
    and c: "resolveSource example_env info tes3 None (Some ''https://example.com/not-github'')
        (Some ''v0.23'') = KeepSource ?warning"
    by (simp_all add: logs)
  have fields: "gs_id ?n = tes3 \<and> vstring not_github_morrowind ''masterlistSource'' = None
      \<and> vstring not_github_morrowind ''repo'' = Some ''https://example.com/not-github''
      \<and> vstring not_github_morrowind ''branch'' = Some ''v0.23''"
    by (simp add: not_github_morrowind_def new_GameSettings_def)
  note caller = c2b [THEN conjunct2, THEN conjunct2, rule_format, OF fields]
  from caller have l: "snd (merge_overrides example_env info not_github_morrowind ?n) = ?warning"
    by (simp add: logs)
  have m: "merge_overrides example_env info not_github_morrowind ?n
             = (Accepted (SetName ''NotGitHub'' ?n), ?warning)"
    using c
    by (simp add: merge_overrides_def merge_paths_def not_github_morrowind_def Let_def
        new_GameSettings_def SetName_def)
  have d: "process_entry example_env info (default_GameSettings example_env tes3)
        not_github_morrowind = (Accepted (SetName ''NotGitHub'' ?n), ?warning)"
    using m
    by (simp add: process_entry_def declared_GameId_def declared_folder_def
        default_GameSettings_def not_github_morrowind_def new_GameSettings_def Let_def)
  from m have "fst (merge_overrides example_env info not_github_morrowind ?n)
      = Accepted (SetName ''NotGitHub'' ?n)" by simp
  with caller have "gs_masterlistSource (SetName ''NotGitHub'' ?n) = gs_masterlistSource ?n"
    by blast
  then have f: "gs_masterlistSource (SetName ''NotGitHub'' ?n)
       = ''https://raw.githubusercontent.com/loot/morrowind/v0.23/masterlist.yaml''"
    by (simp add: new_GameSettings_def example_env_def GetDefaultMasterlistUrl_def
        DEFAULT_MASTERLIST_BRANCH_def)
  from l1 p a l2 b c d f show ?thesis by (intro conjI)
qed

text \<open>
  The migration does not always return. A repository that is a name of 300 letters is
  no repository on GitHub, and the example file system holds no local repository; but
  the local-path test asks the file system for a name that it cannot look up, and the
  query throws. The migration has logged the line of the branch migration by then; it
  logs no warning and returns nothing, and the loop over the entries catches the
  exception and skips the entry.
\<close>

theorem migrateMasterlistRepoSettings_throws:
  "GITHUB_REPO_URL_REGEX (migrateRepositoryUrl tes3 (replicate 300 (CHR ''a''))) = None
   \<and> isLocalPath example_env (migrateRepositoryUrl tes3 (replicate 300 (CHR ''a'')))
         ''masterlist.yaml'' = filesystem_error
   \<and> migrateMasterlistRepoSettings example_env info tes3 (replicate 300 (CHR ''a'')) ''master''
       = (filesystem_error,
          [(Info, ''Updating masterlist repository branch from master to v0.23'')])
   \<and> vstring long_repo_morrowind ''repo'' = Some (replicate 300 (CHR ''a''))
   \<and> process_entry example_env info (default_GameSettings example_env tes3)
         long_repo_morrowind
       = (Threw FilesystemError,
          [(Info, ''Updating masterlist repository branch from master to v0.23'')])"
proof -
  have "vstring long_repo_morrowind ''repo'' = Some (replicate 300 (CHR ''a''))"
    by (simp add: long_repo_morrowind_def)
  with GITHUB_REPO_URL_REGEX_300 isLocalPath_300 migrateMasterlistRepoSettings_300
    long_repo_morrowind_thrown
  show ?thesis by (intro conjI)
qed

subsection \<open>Idempotence of source resolution\<close>

lemma starts_with_take: "starts_with s p \<longleftrightarrow> take (length p) s = p"
  by (induction s p rule: starts_with.induct) auto

lemma starts_with_https: "starts_with u ''https://'' \<longleftrightarrow> take 8 u = ''https://''"
proof -
  have l: "length ''https://'' = 8" by simp
  show ?thesis by (simp only: starts_with_take l)
qed

lemma migrateBranch_not_old: "migrateBranch branch \<notin> set oldDefaultBranches"
  using default_branch_not_old by (simp add: migrateBranch_def)

lemma default_url_is_legacy_url:
  "GetDefaultMasterlistUrl repo = legacy_url repo DEFAULT_MASTERLIST_BRANCH"
  by (simp add: GetDefaultMasterlistUrl_def legacy_url_def)

lemma migrate_scan_cases:
  "migrate_scan lvl src ps = (s, l) \<Longrightarrow>
     (s = src \<and> l = [] \<and> (\<forall>(r, b) \<in> set ps. src \<noteq> legacy_url r b))
     \<or> (\<exists>(r, b) \<in> set ps. s = GetDefaultMasterlistUrl r)"
  by (induction ps) (auto split: if_splits)

lemma table_pairs_iff:
  "(r, b) \<in> set table_pairs \<longleftrightarrow> r \<in> set officialMasterlistRepos \<and> b \<in> set oldDefaultBranches"
  by (simp add: table_pairs_def)

lemma default_url_not_in_table:
  assumes "repo \<in> set officialMasterlistRepos" "(r, b) \<in> set table_pairs"
  shows "GetDefaultMasterlistUrl repo \<noteq> legacy_url r b"
proof
  assume "GetDefaultMasterlistUrl repo = legacy_url r b"
  then have "legacy_url repo DEFAULT_MASTERLIST_BRANCH = legacy_url r b"
    by (simp add: default_url_is_legacy_url)
  from legacy_url_inject [OF this] assms official_repos_no_separator
  have "DEFAULT_MASTERLIST_BRANCH = b" by (simp add: table_pairs_iff)
  with assms(2) default_branch_not_old show False by (simp add: table_pairs_iff)
qed

lemma legacy_url_shape:
  "take 8 (legacy_url r b) = ''https://''" "55 \<le> length (legacy_url r b)"
  by (simp_all add: legacy_url_def)

lemma local_path_not_in_table:
  assumes "\<not> starts_with u ''https://''"
  shows "path_append u ''masterlist.yaml'' \<noteq> legacy_url r b"
proof
  assume eq: "path_append u ''masterlist.yaml'' = legacy_url r b"
  have pa: "path_append u ''masterlist.yaml'' = u @ ''/masterlist.yaml''
      \<or> path_append u ''masterlist.yaml'' = u @ ''masterlist.yaml''"
    by (simp add: path_append_def)
  show False
  proof (cases "8 \<le> length u")
    case True
    with pa have "take 8 (path_append u ''masterlist.yaml'') = take 8 u" by auto
    with eq legacy_url_shape(1) have "take 8 u = ''https://''" by simp
    then have "starts_with u ''https://''" by (simp only: starts_with_https)
    with assms show False by blast
  next
    case False
    with pa have "length (path_append u ''masterlist.yaml'') < 55" by auto
    with eq legacy_url_shape(2) [of r b] show False by simp
  qed
qed

lemma raw_url_not_in_table:
  assumes "CHR ''/'' \<notin> set owner" "CHR ''/'' \<notin> set repo" "(r, b) \<in> set table_pairs"
  shows "''https://raw.githubusercontent.com/'' @ owner @ ''/'' @ repo @ ''/''
           @ migrateBranch branch @ ''/masterlist.yaml'' \<noteq> legacy_url r b"
proof
  assume "''https://raw.githubusercontent.com/'' @ owner @ ''/'' @ repo @ ''/''
           @ migrateBranch branch @ ''/masterlist.yaml'' = legacy_url r b"
  then have eq: "owner @ CHR ''/'' # (repo @ CHR ''/'' # (migrateBranch branch @ ''/masterlist.yaml''))
      = ''loot'' @ CHR ''/'' # (r @ CHR ''/'' # (b @ ''/masterlist.yaml''))"
    by (simp add: legacy_url_def)
  have loot: "CHR ''/'' \<notin> set ''loot''" by simp
  from assms(3) have r: "CHR ''/'' \<notin> set r"
    using official_repos_no_separator by (simp add: table_pairs_iff)
  from split_at_first [OF assms(1) loot eq]
  have "repo @ CHR ''/'' # (migrateBranch branch @ ''/masterlist.yaml'')
      = r @ CHR ''/'' # (b @ ''/masterlist.yaml'')" by simp
  from split_at_first [OF assms(2) r this] have "migrateBranch branch = b" by simp
  with assms(3) migrateBranch_not_old [of branch] show False by (simp add: table_pairs_iff)
qed

lemma not_in_table_unchanged:
  assumes "\<And>r b. (r, b) \<in> set table_pairs \<Longrightarrow> s \<noteq> legacy_url r b"
  shows "migrateMasterlistSource lvl s = (s, [])"
  unfolding migrateMasterlistSource_def table_pairs_def [symmetric]
  using assms by (intro migrate_scan_miss) auto

lemma migrateMasterlistSource_fixpoint:
  assumes "migrateMasterlistSource lvl src = (s, l)"
  shows "migrateMasterlistSource lvl' s = (s, [])"
proof -
  from assms have "migrate_scan lvl src table_pairs = (s, l)"
    by (simp add: migrateMasterlistSource_def table_pairs_def)
  from migrate_scan_cases [OF this]
  consider "s = src" "\<forall>(r, b) \<in> set table_pairs. src \<noteq> legacy_url r b"
    | repo branch where "(repo, branch) \<in> set table_pairs" "s = GetDefaultMasterlistUrl repo"
    by auto
  then show ?thesis
  proof cases
    case 1
    then show ?thesis by (intro not_in_table_unchanged) auto
  next
    case 2
    then have "repo \<in> set officialMasterlistRepos" by (simp add: table_pairs_iff)
    with 2(2) show ?thesis
      by (intro not_in_table_unchanged) (simp add: default_url_not_in_table)
  qed
qed

lemma migrateMasterlistRepoSettings_fixpoint:
  assumes "migrateMasterlistRepoSettings e lvl gid url branch = (Answer (Some s), l)"
  shows "migrateMasterlistSource lvl' s = (s, [])"
proof (cases "isLocalPath e (migrateRepositoryUrl gid url) ''masterlist.yaml'' = Answer True")
  case True
  then have "\<not> starts_with (migrateRepositoryUrl gid url) ''https://''"
    by (auto simp: isLocalPath_def split: if_splits)
  moreover from assms True
  have "s = path_append (migrateRepositoryUrl gid url) ''masterlist.yaml''"
    by (simp add: migrateMasterlistRepoSettings_def Let_def)
  ultimately show ?thesis
    by (intro not_in_table_unchanged) (simp add: local_path_not_in_table)
next
  case False
  with assms have "isLocalPath e (migrateRepositoryUrl gid url) ''masterlist.yaml''
      = Answer False"
    by (auto simp: migrateMasterlistRepoSettings_def Let_def split: fs.splits bool.splits)
  with assms obtain owner repo where
    m: "GITHUB_REPO_URL_REGEX (migrateRepositoryUrl gid url) = Some (owner, repo)"
    and s: "s = ''https://raw.githubusercontent.com/'' @ owner @ ''/'' @ repo @ ''/''
                 @ migrateBranch branch @ ''/masterlist.yaml''"
    by (auto simp: migrateMasterlistRepoSettings_def Let_def split: option.splits)
  from GITHUB_REPO_URL_REGEX_no_separator [OF m]
  have sep: "CHR ''/'' \<notin> set owner" "CHR ''/'' \<notin> set repo" by simp_all
  show ?thesis
  proof (rule not_in_table_unchanged)
    fix r b
    assume "(r, b) \<in> set table_pairs"
    then show "s \<noteq> legacy_url r b"
      unfolding s by (rule raw_url_not_in_table [OF sep])
  qed
qed

text \<open>
  Claim C5. Masterlist source resolution is idempotent: whenever it produces a source,
  resolving that source again, as the explicit source of the same game with the same
  URL and branch, returns it unchanged.
\<close>

theorem resolveSource_idempotent:
  assumes "resolveSource e lvl gid source url branch = NewSource s logs"
  shows "resolveSource e lvl gid (Some s) url branch = NewSource s []"
proof -
  have "migrateMasterlistSource lvl s = (s, [])"
  proof (cases source)
    case (Some src)
    with assms obtain l where "migrateMasterlistSource lvl src = (s, l)"
      by (auto simp: resolveSource_def split: prod.splits)
    then show ?thesis by (rule migrateMasterlistSource_fixpoint)
  next
    case None
    with assms obtain u b l where
      "migrateMasterlistRepoSettings e lvl gid u b = (Answer (Some s), l)"
      by (auto simp: resolveSource_def split: option.splits prod.splits fs.splits)
    then show ?thesis by (rule migrateMasterlistRepoSettings_fixpoint)
  qed
  then show ?thesis by (simp add: resolveSource_def)
qed

theorem resolveSource_idempotent_witness:
  "resolveSource example_env info tes5 None (Some ''https://github.com/loot/skyrim.git'')
       (Some ''master'')
     = NewSource ''https://raw.githubusercontent.com/loot/skyrim/v0.23/masterlist.yaml''
         [(Info, ''Updating masterlist repository branch from master to v0.23'')]
   \<and> resolveSource example_env info tes5
         (Some ''https://raw.githubusercontent.com/loot/skyrim/v0.23/masterlist.yaml'')
         (Some ''https://github.com/loot/skyrim.git'') (Some ''master'')
     = NewSource ''https://raw.githubusercontent.com/loot/skyrim/v0.23/masterlist.yaml'' []"
proof -
  have u: "migrateRepositoryUrl tes5 ''https://github.com/loot/skyrim.git''
             = ''https://github.com/loot/skyrim.git''"
    by (simp add: migrateRepositoryUrl_def)
  have p: "github_url_parts ''https://github.com/loot/skyrim.git''
             ''https://github.com/'' ''loot'' ''skyrim'' ''.git'' []"
    by (simp add: github_url_parts_def ToLower_def tolower_def upper_letters_def lower_letters_def)
  have m: "GITHUB_REPO_URL_REGEX ''https://github.com/loot/skyrim.git'' = Some (''loot'', ''skyrim'')"
    by (rule GITHUB_REPO_URL_REGEX_capture [OF p]) simp
  have l: "isLocalPath example_env ''https://github.com/loot/skyrim.git'' ''masterlist.yaml''
      = Answer False"
    by (simp add: isLocalPath_def)
  have first: "resolveSource example_env info tes5 None (Some ''https://github.com/loot/skyrim.git'')
       (Some ''master'')
     = NewSource ''https://raw.githubusercontent.com/loot/skyrim/v0.23/masterlist.yaml''
         [(Info, ''Updating masterlist repository branch from master to v0.23'')]"
    using l
    by (simp add: resolveSource_def migrateMasterlistRepoSettings_def u m migrateBranch_def
        migrateBranch_log_def migrateRepositoryUrl_log_def oldDefaultBranches_def
        DEFAULT_MASTERLIST_BRANCH_def log_write_def)
  from first resolveSource_idempotent [OF first] show ?thesis by (intro conjI)
qed

subsection \<open>The Nehrim classifier\<close>

lemma istarts_with_iff:
  "istarts_with s t \<longleftrightarrow> (\<exists>mid post. s = mid @ post \<and> map toupper mid = map toupper t)"
proof (induction s t rule: istarts_with.induct)
  case (1 s)
  then show ?case by simp
next
  case (2 p ps)
  then show ?case by simp
next
  case (3 c cs p ps)
  show ?case
  proof
    assume "istarts_with (c # cs) (p # ps)"
    with 3 obtain mid post where "cs = mid @ post" "map toupper mid = map toupper ps"
      "toupper c = toupper p" by auto
    then show "\<exists>mid post. c # cs = mid @ post \<and> map toupper mid = map toupper (p # ps)"
      by (intro exI [of _ "c # mid"] exI [of _ post]) simp
  next
    assume "\<exists>mid post. c # cs = mid @ post \<and> map toupper mid = map toupper (p # ps)"
    then obtain mid post where m: "c # cs = mid @ post" "map toupper mid = map toupper (p # ps)"
      by blast
    then obtain m ms where "mid = m # ms" by (cases mid) auto
    with m 3 show "istarts_with (c # cs) (p # ps)" by auto
  qed
qed

lemma icontains_iff:
  "icontains s t \<longleftrightarrow>
     (\<exists>pre mid post. s = pre @ mid @ post \<and> map toupper mid = map toupper t)"
proof (induction s)
  case Nil
  then show ?case by auto
next
  case (Cons c cs)
  show ?case
  proof
    assume "icontains (c # cs) t"
    then consider "istarts_with (c # cs) t" | "icontains cs t" by auto
    then show "\<exists>pre mid post. c # cs = pre @ mid @ post \<and> map toupper mid = map toupper t"
    proof cases
      case 1
      then obtain mid post where "c # cs = mid @ post" "map toupper mid = map toupper t"
        unfolding istarts_with_iff by blast
      then show ?thesis by (intro exI [of _ "[]"] exI [of _ mid] exI [of _ post]) simp
    next
      case 2
      with Cons obtain pre mid post where "cs = pre @ mid @ post" "map toupper mid = map toupper t"
        by blast
      then show ?thesis by (intro exI [of _ "c # pre"] exI [of _ mid] exI [of _ post]) simp
    qed
  next
    assume "\<exists>pre mid post. c # cs = pre @ mid @ post \<and> map toupper mid = map toupper t"
    then obtain pre mid post where
      d: "c # cs = pre @ mid @ post" "map toupper mid = map toupper t" by blast
    show "icontains (c # cs) t"
    proof (cases pre)
      case Nil
      with d have "istarts_with (c # cs) t" unfolding istarts_with_iff by auto
      then show ?thesis by simp
    next
      case (Cons a pre')
      with d have "cs = pre' @ mid @ post" by simp
      with d(2) Cons.IH have "icontains cs t" by blast
      then show ?thesis by simp
    qed
  qed
qed

text \<open>
  Claim C3, amended. For an entry whose install path is not empty and is found to exist
  on disk, the classifier gives what the query for NehrimLauncher.exe under that path
  gives, whatever the other fields say. For an entry without an install path, or whose
  install path is empty or found not to exist, it is Nehrim exactly when the declared
  master file equals Nehrim's master file, or the declared name or folder contains nehrim
  in any case, or isBaseGameInstance is present and false; absent or malformed fields
  count as a heuristic that does not match and never make the classifier fail. The
  classifier fails exactly when a file-system query that it makes fails: the entry has
  an install path that is not empty, and the query for that path throws, or finds the
  path and the query for the launcher throws.
\<close>

theorem IsNehrim_classification:
  "(\<forall>installPath.
       vstring t ''path'' = Some installPath \<and> installPath \<noteq> []
         \<and> fs_exists e installPath = Answer True
       \<longrightarrow> IsNehrim e t = fs_exists e (path_append installPath ''NehrimLauncher.exe''))
   \<and> ((\<forall>installPath. vstring t ''path'' = Some installPath
           \<longrightarrow> installPath = [] \<or> fs_exists e installPath = Answer False)
       \<longrightarrow> IsNehrim e t =
             Answer ((\<exists>master. vstring t ''master'' = Some master
                        \<and> path_eq master (GetMasterFilename e nehrim))
                     \<or> (\<exists>name. vstring t ''name'' = Some name \<and> icontains name ''nehrim'')
                     \<or> (\<exists>folder. vstring t ''folder'' = Some folder
                            \<and> icontains folder ''nehrim'')
                     \<or> vbool t ''isBaseGameInstance'' = Some False))
   \<and> (IsNehrim e t = filesystem_error \<longleftrightarrow>
        (\<exists>installPath.
            vstring t ''path'' = Some installPath \<and> installPath \<noteq> []
            \<and> (fs_exists e installPath = filesystem_error
                 \<or> fs_exists e installPath = Answer True
                    \<and> fs_exists e (path_append installPath ''NehrimLauncher.exe'')
                        = filesystem_error)))
   \<and> IsNehrim e \<lparr> vstring = Map.empty, vbool = Map.empty, vdouble = Map.empty \<rparr>
       = Answer False"
proof (intro conjI allI impI)
  fix installPath
  assume "vstring t ''path'' = Some installPath \<and> installPath \<noteq> []
         \<and> fs_exists e installPath = Answer True"
  then show "IsNehrim e t = fs_exists e (path_append installPath ''NehrimLauncher.exe'')"
    by (simp add: IsNehrim_def)
next
  assume no_path: "\<forall>installPath. vstring t ''path'' = Some installPath
           \<longrightarrow> installPath = [] \<or> fs_exists e installPath = Answer False"
  have h: "nehrim_heuristics e t \<longleftrightarrow>
      (\<exists>master. vstring t ''master'' = Some master
          \<and> path_eq master (GetMasterFilename e nehrim))
      \<or> (\<exists>name. vstring t ''name'' = Some name \<and> icontains name ''nehrim'')
      \<or> (\<exists>folder. vstring t ''folder'' = Some folder \<and> icontains folder ''nehrim'')
      \<or> vbool t ''isBaseGameInstance'' = Some False"
    by (auto simp: nehrim_heuristics_def split: option.splits)
  from no_path have "IsNehrim e t = Answer (nehrim_heuristics e t)"
    by (auto simp: IsNehrim_def split: option.splits)
  with h show "IsNehrim e t =
             Answer ((\<exists>master. vstring t ''master'' = Some master
                        \<and> path_eq master (GetMasterFilename e nehrim))
                     \<or> (\<exists>name. vstring t ''name'' = Some name \<and> icontains name ''nehrim'')
                     \<or> (\<exists>folder. vstring t ''folder'' = Some folder
                            \<and> icontains folder ''nehrim'')
                     \<or> vbool t ''isBaseGameInstance'' = Some False)"
    by simp
next
  show "IsNehrim e t = filesystem_error \<longleftrightarrow>
        (\<exists>installPath.
            vstring t ''path'' = Some installPath \<and> installPath \<noteq> []
            \<and> (fs_exists e installPath = filesystem_error
                 \<or> fs_exists e installPath = Answer True
                    \<and> fs_exists e (path_append installPath ''NehrimLauncher.exe'')
                        = filesystem_error))"
    by (auto simp: IsNehrim_def split: option.splits fs.splits bool.splits)
next
  show "IsNehrim e \<lparr> vstring = Map.empty, vbool = Map.empty, vdouble = Map.empty \<rparr>
       = Answer False"
    by (simp add: IsNehrim_def nehrim_heuristics_def)
qed

theorem IsNehrim_classification_witness:
  "IsNehrim example_env nehrim_by_launcher = Answer True
   \<and> IsNehrim example_env oblivion_named_nehrim = Answer False
   \<and> IsNehrim example_env nehrim_by_master = Answer True
   \<and> IsNehrim example_env plain_oblivion = Answer False
   \<and> IsNehrim example_env unreachable_oblivion = filesystem_error"
proof -
  note ev = example_env_def path_append_def path_eq_def toupper_def lower_letters_def
    upper_letters_def name_too_long_def
  have 1: "IsNehrim example_env nehrim_by_launcher = Answer True"
    using IsNehrim_classification [of nehrim_by_launcher example_env, THEN conjunct1,
        rule_format, of "''/games/nehrim''"]
    by (simp add: nehrim_by_launcher_def ev)
  have 2: "IsNehrim example_env oblivion_named_nehrim = Answer False"
    using IsNehrim_classification [of oblivion_named_nehrim example_env, THEN conjunct1,
        rule_format, of "''/games/oblivion''"]
    by (simp add: oblivion_named_nehrim_def ev)
  have 3: "IsNehrim example_env nehrim_by_master = Answer True"
    using IsNehrim_classification [of nehrim_by_master example_env, THEN conjunct2,
        THEN conjunct1]
    by (simp add: nehrim_by_master_def ev)
  have 4: "IsNehrim example_env plain_oblivion = Answer False"
    using IsNehrim_classification [of plain_oblivion example_env, THEN conjunct2,
        THEN conjunct1]
    by (simp add: plain_oblivion_def ev)
  have "fs_exists example_env (CHR ''/'' # replicate 300 (CHR ''a'')) = filesystem_error"
    using name_too_long_300(1) by (simp add: example_env_def)
  then have "\<exists>installPath.
            vstring unreachable_oblivion ''path'' = Some installPath \<and> installPath \<noteq> []
            \<and> (fs_exists example_env installPath = filesystem_error
                 \<or> fs_exists example_env installPath = Answer True
                    \<and> fs_exists example_env (path_append installPath ''NehrimLauncher.exe'')
                        = filesystem_error)"
    by (intro exI [of _ "CHR ''/'' # replicate 300 (CHR ''a'')"])
      (simp add: unreachable_oblivion_def)
  with IsNehrim_classification [of unreachable_oblivion example_env, THEN conjunct2,
        THEN conjunct2, THEN conjunct1]
  have 5: "IsNehrim example_env unreachable_oblivion = filesystem_error" by (rule iffD2)
  from 1 2 3 4 5 show ?thesis by (intro conjI)
qed

text \<open>
  The classifier can fail. On an entry that declares Oblivion and whose install path
  is a name of 300 letters under the root directory, the query whether the path exists
  throws; the exception leaves the classifier, and the loop over the entries catches it
  and skips the entry.
\<close>

theorem IsNehrim_fails:
  "vstring unreachable_oblivion ''path'' = Some (CHR ''/'' # replicate 300 (CHR ''a''))
   \<and> fs_exists example_env (CHR ''/'' # replicate 300 (CHR ''a'')) = filesystem_error
   \<and> IsNehrim example_env unreachable_oblivion = filesystem_error
   \<and> process_entry example_env info (default_GameSettings example_env tes4)
         unreachable_oblivion
       = (Threw FilesystemError, [])"
proof -
  have p: "vstring unreachable_oblivion ''path'' = Some (CHR ''/'' # replicate 300 (CHR ''a''))"
    by (simp add: unreachable_oblivion_def)
  have x: "fs_exists example_env (CHR ''/'' # replicate 300 (CHR ''a'')) = filesystem_error"
    using name_too_long_300(1) by (simp add: example_env_def)
  from p x have n: "IsNehrim example_env unreachable_oblivion = filesystem_error"
    by (simp add: IsNehrim_def)
  have g: "vstring unreachable_oblivion ''gameId'' = Some ''Oblivion''"
    by (simp add: unreachable_oblivion_def)
  from g n have "process_entry example_env info (default_GameSettings example_env tes4)
         unreachable_oblivion = (Threw FilesystemError, [])"
    by (simp add: process_entry_def declared_GameId_def classified_def)
  with p x n show ?thesis by (intro conjI)
qed

subsection \<open>Settings resolution\<close>

lemma new_GameSettings_type: "gs_type (new_GameSettings e g f) = GetGameType g"
  by (simp add: new_GameSettings_def)

lemma new_GameSettings_id: "gs_id (new_GameSettings e g f) = g"
  by (simp add: new_GameSettings_def)

lemma merge_paths_cases:
  "merge_paths e t s =
     (if conflicting_local t then Threw ConflictingConfiguration
      else Accepted (case vstring t ''local_path'' of
             Some localPath \<Rightarrow>
               SetGameLocalPath localPath
                 (case vstring t ''path'' of Some path \<Rightarrow> SetGamePath path s | None \<Rightarrow> s)
           | None \<Rightarrow>
               (case vstring t ''local_folder'' of
                  Some localFolder \<Rightarrow>
                    SetGameLocalFolder e localFolder
                      (case vstring t ''path'' of Some path \<Rightarrow> SetGamePath path s | None \<Rightarrow> s)
                | None \<Rightarrow>
                    (case vstring t ''path'' of Some path \<Rightarrow> SetGamePath path s | None \<Rightarrow> s))))"
  by (simp add: merge_paths_def conflicting_local_def Let_def split: option.splits)

lemma merge_paths_type: "merge_paths e t s = Accepted s' \<Longrightarrow> gs_type s' = gs_type s"
  by (auto simp: merge_paths_def Let_def SetGamePath_def SetGameLocalPath_def
      SetGameLocalFolder_def split: option.splits)

lemma merge_paths_accept:
  "\<not> conflicting_local t \<Longrightarrow> \<exists>s'. merge_paths e t s = Accepted s' \<and> gs_type s' = gs_type s"
proof -
  assume "\<not> conflicting_local t"
  then obtain s' where a: "merge_paths e t s = Accepted s'" by (simp add: merge_paths_cases)
  from a merge_paths_type [OF a] show ?thesis by blast
qed

text \<open>What the source step of a matching entry comes to, said of the entry.\<close>

lemma resolveSource_defined:
  "resolveSource e lvl gid (vstring t ''masterlistSource'') (vstring t ''repo'')
       (vstring t ''branch'') = SourceUndefined \<longleftrightarrow> \<not> source_defined t"
  by (auto simp: resolveSource_def source_defined_def
      split: option.splits prod.splits fs.splits)

lemma resolveSource_throws:
  assumes "source_defined t"
  shows "(\<exists>logs. resolveSource e lvl gid (vstring t ''masterlistSource'') (vstring t ''repo'')
            (vstring t ''branch'') = SourceThrows logs)
         \<longleftrightarrow> vstring t ''masterlistSource'' = None
             \<and> (\<exists>url. vstring t ''repo'' = Some url
                  \<and> isLocalPath e (migrateRepositoryUrl gid url) ''masterlist.yaml''
                      = filesystem_error)"
proof (cases "vstring t ''masterlistSource''")
  case (Some src)
  then show ?thesis by (simp add: resolveSource_def split: prod.splits)
next
  case None
  with assms obtain url branch where
    ub: "vstring t ''repo'' = Some url" "vstring t ''branch'' = Some branch"
    by (auto simp: source_defined_def)
  show ?thesis
  proof (cases "isLocalPath e (migrateRepositoryUrl gid url) ''masterlist.yaml''")
    case filesystem_error
    with None ub show ?thesis
      by (simp add: resolveSource_def migrateMasterlistRepoSettings_def Let_def)
  next
    case (Answer b)
    with None ub show ?thesis
      by (cases b)
        (simp_all add: resolveSource_def migrateMasterlistRepoSettings_def Let_def
          split: option.splits prod.splits)
  qed
qed

lemma entry_GameId_class:
  "matches_class e cur t \<longleftrightarrow> (\<exists>g. entry_GameId e t = Some g \<and> GetGameType g = gs_type cur)"
  by (auto simp: matches_class_def entry_class_def)

lemma process_entry_GameId:
  "entry_GameId e t = Some g \<Longrightarrow>
     \<exists>f. process_entry e lvl cur t =
            (if GetGameType g = gs_type cur
             then merge_overrides e lvl t (new_GameSettings e g f) else (NoMatch, []))"
  by (auto simp: process_entry_def entry_GameId_def Let_def new_GameSettings_type
      split: option.splits sum.splits)

lemma process_entry_no_GameId:
  "entry_GameId e t = None \<Longrightarrow>
     process_entry e lvl cur t \<in>
       {(Threw MissingGameId, []), (Threw InvalidType, []), (Threw FilesystemError, []),
        (Threw MissingFolder, [])}"
  by (auto simp: process_entry_def entry_GameId_def declared_GameId_def classified_def
      split: option.splits sum.splits if_splits fs.splits)

lemma process_entry_no_class:
  assumes "\<not> matches_class e cur t"
  shows "process_entry e lvl cur t \<in>
       {(Threw MissingGameId, []), (Threw InvalidType, []), (Threw FilesystemError, []),
        (Threw MissingFolder, []), (NoMatch, [])}"
proof (cases "entry_GameId e t")
  case None
  from process_entry_no_GameId [OF this, of lvl cur] show ?thesis by blast
next
  case (Some g)
  with assms have "GetGameType g \<noteq> gs_type cur" by (simp add: entry_GameId_class)
  with process_entry_GameId [OF Some, of lvl cur] show ?thesis by auto
qed

text \<open>
  An entry of the requested class reaches the block of a matching entry; what the block
  does is decided by the source step and by the two local fields.
\<close>

lemma process_entry_class:
  assumes "matches_class e cur t"
  shows "\<exists>g s3. entry_GameId e t = Some g \<and> gs_type s3 = gs_type cur
           \<and> process_entry e lvl cur t =
               (case resolveSource e lvl g (vstring t ''masterlistSource'')
                       (vstring t ''repo'') (vstring t ''branch'') of
                  SourceUndefined \<Rightarrow> (Undefined, [])
                | SourceThrows logs \<Rightarrow> (Threw FilesystemError, logs)
                | KeepSource logs \<Rightarrow> (merge_paths e t s3, logs)
                | NewSource src logs \<Rightarrow> (merge_paths e t (SetMasterlistSource src s3), logs))"
proof -
  from assms obtain g where g: "entry_GameId e t = Some g" "GetGameType g = gs_type cur"
    by (auto simp: entry_GameId_class)
  from process_entry_GameId [OF g(1), of lvl cur] g(2) obtain f where
    p: "process_entry e lvl cur t = merge_overrides e lvl t (new_GameSettings e g f)" by auto
  from merge_overrides_source [of e lvl t "new_GameSettings e g f"] obtain s3 where
    m: "merge_overrides e lvl t (new_GameSettings e g f) =
          (case resolveSource e lvl (gs_id s3) (vstring t ''masterlistSource'')
                  (vstring t ''repo'') (vstring t ''branch'') of
             SourceUndefined \<Rightarrow> (Undefined, [])
           | SourceThrows logs \<Rightarrow> (Threw FilesystemError, logs)
           | KeepSource logs \<Rightarrow> (merge_paths e t s3, logs)
           | NewSource src logs \<Rightarrow> (merge_paths e t (SetMasterlistSource src s3), logs))"
    and i: "gs_id s3 = gs_id (new_GameSettings e g f)"
    and ty: "gs_type s3 = gs_type (new_GameSettings e g f)" by blast
  from i have i': "gs_id s3 = g" by (simp add: new_GameSettings_id)
  from ty g(2) have ty': "gs_type s3 = gs_type cur" by (simp add: new_GameSettings_type)
  from g(1) ty' p m [unfolded i'] show ?thesis by auto
qed

lemma source_raises_throws:
  assumes "entry_GameId e t = Some g" "source_defined t"
  shows "source_raises e t \<longleftrightarrow>
           (\<exists>logs. resolveSource e lvl g (vstring t ''masterlistSource'') (vstring t ''repo'')
              (vstring t ''branch'') = SourceThrows logs)"
  unfolding resolveSource_throws [OF assms(2)]
  using assms(1) by (auto simp: source_raises_def split: option.splits)

lemma process_entry_raises:
  assumes "matches_class e cur t" "source_defined t" "source_raises e t"
  shows "\<exists>l. process_entry e lvl cur t = (Threw FilesystemError, l)"
proof -
  from process_entry_class [OF assms(1), of lvl] obtain g s3 where
    g: "entry_GameId e t = Some g"
    and p: "process_entry e lvl cur t =
               (case resolveSource e lvl g (vstring t ''masterlistSource'')
                       (vstring t ''repo'') (vstring t ''branch'') of
                  SourceUndefined \<Rightarrow> (Undefined, [])
                | SourceThrows logs \<Rightarrow> (Threw FilesystemError, logs)
                | KeepSource logs \<Rightarrow> (merge_paths e t s3, logs)
                | NewSource src logs \<Rightarrow> (merge_paths e t (SetMasterlistSource src s3), logs))"
    by blast
  from assms(3) source_raises_throws [OF g assms(2), of lvl] obtain logs where
    "resolveSource e lvl g (vstring t ''masterlistSource'') (vstring t ''repo'')
       (vstring t ''branch'') = SourceThrows logs" by blast
  with p show ?thesis by simp
qed

lemma process_entry_merges:
  assumes "matches_class e cur t" "source_defined t" "\<not> source_raises e t"
  shows "\<exists>s l. process_entry e lvl cur t = (merge_paths e t s, l) \<and> gs_type s = gs_type cur"
proof -
  from process_entry_class [OF assms(1), of lvl] obtain g s3 where
    g: "entry_GameId e t = Some g" and ty: "gs_type s3 = gs_type cur"
    and p: "process_entry e lvl cur t =
               (case resolveSource e lvl g (vstring t ''masterlistSource'')
                       (vstring t ''repo'') (vstring t ''branch'') of
                  SourceUndefined \<Rightarrow> (Undefined, [])
                | SourceThrows logs \<Rightarrow> (Threw FilesystemError, logs)
                | KeepSource logs \<Rightarrow> (merge_paths e t s3, logs)
                | NewSource src logs \<Rightarrow> (merge_paths e t (SetMasterlistSource src s3), logs))"
    by blast
  show ?thesis
  proof (cases "resolveSource e lvl g (vstring t ''masterlistSource'') (vstring t ''repo'')
              (vstring t ''branch'')")
    case (NewSource src logs)
    with p ty show ?thesis
      by (intro exI [of _ "SetMasterlistSource src s3"] exI [of _ logs])
        (simp add: SetMasterlistSource_def)
  next
    case (KeepSource logs)
    with p ty show ?thesis by (intro exI [of _ s3] exI [of _ logs]) simp
  next
    case (SourceThrows logs)
    with assms(3) source_raises_throws [OF g assms(2), of lvl] show ?thesis by blast
  next
    case SourceUndefined
    with assms(2) resolveSource_defined show ?thesis by blast
  qed
qed

lemma process_entry_conflict:
  assumes "matches_class e cur t" "source_defined t" "\<not> source_raises e t"
    "conflicting_local t"
  shows "\<exists>l. process_entry e lvl cur t = (Threw ConflictingConfiguration, l)"
  using process_entry_merges [OF assms(1-3), of lvl] assms(4)
  by (auto simp: merge_paths_cases)

lemma process_entry_accepted:
  assumes "is_accepted e cur t"
  shows "\<exists>s l. process_entry e lvl cur t = (Accepted s, l) \<and> gs_type s = gs_type cur"
proof -
  from assms have m: "matches_class e cur t" and sd: "source_defined t"
    and nr: "\<not> source_raises e t" and nc: "\<not> conflicting_local t"
    by (simp_all add: is_accepted_def)
  from process_entry_merges [OF m sd nr, of lvl] obtain s l where
    p: "process_entry e lvl cur t = (merge_paths e t s, l)" and ty: "gs_type s = gs_type cur"
    by blast
  from merge_paths_accept [OF nc, of e s] obtain s' where
    "merge_paths e t s = Accepted s'" "gs_type s' = gs_type s" by blast
  with p ty show ?thesis by simp
qed

lemma process_entry_skipped:
  assumes "is_skipped e cur t"
  shows "\<exists>l. process_entry e lvl cur t = (NoMatch, l) \<or> (\<exists>err. process_entry e lvl cur t = (Threw err, l))"
proof (cases "matches_class e cur t")
  case False
  from process_entry_no_class [OF this, of lvl] show ?thesis by auto
next
  case True
  with assms have sd: "source_defined t" and c: "source_raises e t \<or> conflicting_local t"
    by (simp_all add: is_skipped_def)
  show ?thesis
  proof (cases "source_raises e t")
    case True
    from process_entry_raises [OF \<open>matches_class e cur t\<close> sd this, of lvl]
    show ?thesis by blast
  next
    case False
    with c have "conflicting_local t" by simp
    from process_entry_conflict [OF \<open>matches_class e cur t\<close> sd False this, of lvl]
    show ?thesis by blast
  qed
qed

lemma scan_games_skip:
  assumes "process_entry e lvl cur t = (NoMatch, l) \<or> (\<exists>err. process_entry e lvl cur t = (Threw err, l))"
  shows "scan_games e lvl cur (t # ts) =
           (case scan_games e lvl cur ts of
              Returns (s, later) \<Rightarrow> Returns (s, l @ later)
            | UndefinedBehaviour \<Rightarrow> UndefinedBehaviour)"
  using assms by auto

lemma scan_games_skipped_prefix:
  assumes "\<forall>x \<in> set pre. is_skipped e cur x"
  shows "\<exists>l. \<forall>rest. scan_games e lvl cur (pre @ rest) =
           (case scan_games e lvl cur rest of
              Returns (s, later) \<Rightarrow> Returns (s, l @ later)
            | UndefinedBehaviour \<Rightarrow> UndefinedBehaviour)"
  using assms
proof (induction pre)
  case Nil
  have "\<forall>rest. scan_games e lvl cur ([] @ rest) =
           (case scan_games e lvl cur rest of
              Returns (s, later) \<Rightarrow> Returns (s, [] @ later)
            | UndefinedBehaviour \<Rightarrow> UndefinedBehaviour)"
    by (auto split: outcome.splits)
  then show ?case by blast
next
  case (Cons t pre)
  from Cons.prems have "is_skipped e cur t" by simp
  from process_entry_skipped [OF this, of lvl] obtain l0 where
    sk: "process_entry e lvl cur t = (NoMatch, l0)
         \<or> (\<exists>err. process_entry e lvl cur t = (Threw err, l0))" by blast
  from Cons obtain l where
    ih: "\<forall>rest. scan_games e lvl cur (pre @ rest) =
           (case scan_games e lvl cur rest of
              Returns (s, later) \<Rightarrow> Returns (s, l @ later)
            | UndefinedBehaviour \<Rightarrow> UndefinedBehaviour)" by auto
  have "\<forall>rest. scan_games e lvl cur ((t # pre) @ rest) =
           (case scan_games e lvl cur rest of
              Returns (s, later) \<Rightarrow> Returns (s, (l0 @ l) @ later)
            | UndefinedBehaviour \<Rightarrow> UndefinedBehaviour)"
  proof
    fix rest
    have "scan_games e lvl cur ((t # pre) @ rest) =
           (case scan_games e lvl cur (pre @ rest) of
              Returns (s, later) \<Rightarrow> Returns (s, l0 @ later)
            | UndefinedBehaviour \<Rightarrow> UndefinedBehaviour)"
      using scan_games_skip [OF sk] by simp
    with ih show "scan_games e lvl cur ((t # pre) @ rest) =
           (case scan_games e lvl cur rest of
              Returns (s, later) \<Rightarrow> Returns (s, (l0 @ l) @ later)
            | UndefinedBehaviour \<Rightarrow> UndefinedBehaviour)"
      by (simp split: outcome.splits)
  qed
  then show ?case by blast
qed

text \<open>The definitions that evaluating the example entries unfolds.\<close>

lemmas example_eval =
  example_env_def process_entry_def declared_GameId_def classified_def declared_folder_def
  merge_overrides_def merge_paths_def resolveSource_def migrateMasterlistSource_def
  officialMasterlistRepos_def oldDefaultBranches_def legacy_url_def default_GameSettings_def
  new_GameSettings_def IsNehrim_def nehrim_heuristics_def path_eq_def toupper_def
  upper_letters_def lower_letters_def name_too_long_def Let_def
  matches_class_def entry_class_def entry_GameId_def is_skipped_def is_accepted_def
  conflicting_local_def source_defined_def source_raises_def

lemma second_morrowind_accepted: "process_entry example_env info (default_GameSettings example_env tes3) second_morrowind
  = (Accepted (SetMasterlistSource ''https://example.com/masterlist.yaml''
                      (SetName ''Second'' (new_GameSettings example_env tes3 ''Morrowind''))), [])"
  by (simp add: second_morrowind_def example_eval)

lemma conflicting_morrowind_thrown: "process_entry example_env info (default_GameSettings example_env tes3) conflicting_morrowind
  = (Threw ConflictingConfiguration, [])"
  by (simp add: conflicting_morrowind_def example_eval)

lemma plain_oblivion_no_match: "process_entry example_env info (default_GameSettings example_env tes3) plain_oblivion
  = (NoMatch, [])"
  by (simp add: plain_oblivion_def example_eval)

lemma long_repo_status:
  "matches_class example_env (default_GameSettings example_env tes3) long_repo_morrowind"
  "source_defined long_repo_morrowind"
  "source_raises example_env long_repo_morrowind"
  "\<not> conflicting_local long_repo_morrowind"
  "matches_class example_env (default_GameSettings example_env tes3) conflicting_long_repo"
  "source_defined conflicting_long_repo"
  "source_raises example_env conflicting_long_repo"
  "conflicting_local conflicting_long_repo"
  by (simp_all add: long_repo_morrowind_def conflicting_long_repo_def matches_class_def
      entry_class_def entry_GameId_def declared_GameId_def default_GameSettings_def
      new_GameSettings_def source_defined_def source_raises_def conflicting_local_def
      isLocalPath_300)

lemma example_entries_status: "is_skipped example_env (default_GameSettings example_env tes3) conflicting_morrowind"
  "is_skipped example_env (default_GameSettings example_env tes3) plain_oblivion"
  "is_accepted example_env (default_GameSettings example_env tes3) second_morrowind"
  by (simp_all add: conflicting_morrowind_def plain_oblivion_def second_morrowind_def example_eval)

lemma long_repo_skipped:
  "is_skipped example_env (default_GameSettings example_env tes3) long_repo_morrowind"
  using long_repo_status(1-3) by (simp add: is_skipped_def)

text \<open>
  Claim C1, amended. Settings resolution scans the configured entries in order and
  accepts the first entry whose engine-type class equals the class of the requested game
  and whose processing raises no exception: the entry does not set both local_path and
  local_folder, and no file-system query made for it fails, neither the classifier's
  queries for its install path, which decide its class, nor the local-path test of its
  repository (and it names a masterlist source, or both a repository and a branch). The
  entries before it are skipped. Resolution stops there: the result is the same whatever
  entries follow. If every entry is skipped, the profile is the initial catalog-default
  profile.
\<close>

theorem scan_games_first_accepted:
  "(\<forall>pre t.
      (\<forall>x \<in> set pre. is_skipped e cur x) \<and> is_accepted e cur t
      \<longrightarrow> (\<exists>s l. gs_type s = gs_type cur
                \<and> (\<exists>l0. process_entry e lvl cur t = (Accepted s, l0))
                \<and> (\<forall>post. scan_games e lvl cur (pre @ t # post) = Returns (s, l))))
   \<and> (\<forall>ts. (\<forall>x \<in> set ts. is_skipped e cur x)
          \<longrightarrow> (\<exists>l. scan_games e lvl cur ts = Returns (cur, l)))
   \<and> (\<forall>ts lang.
         (\<forall>x \<in> set ts. is_skipped e (default_GameSettings e m_GameId) x)
         \<longrightarrow> (\<exists>l logs.
                resolve_settings e lvl default_language m_GameId m_Language
                    (ParsedSettings \<lparr>games = Some ts, language = lang\<rparr>)
                  = Returns (Resolved (default_GameSettings e m_GameId) l logs)))"
proof (intro conjI allI impI)
  fix pre t
  assume h: "(\<forall>x \<in> set pre. is_skipped e cur x) \<and> is_accepted e cur t"
  from process_entry_accepted [of e cur t lvl] h obtain s l0 where
    acc: "process_entry e lvl cur t = (Accepted s, l0)" and ty: "gs_type s = gs_type cur"
    by blast
  from scan_games_skipped_prefix [of pre e cur lvl] h obtain l where
    pre: "\<forall>rest. scan_games e lvl cur (pre @ rest) =
           (case scan_games e lvl cur rest of
              Returns (s, later) \<Rightarrow> Returns (s, l @ later)
            | UndefinedBehaviour \<Rightarrow> UndefinedBehaviour)" by blast
  have "\<forall>post. scan_games e lvl cur (pre @ t # post) = Returns (s, l @ l0)"
    using pre acc by simp
  with acc ty show "\<exists>s l. gs_type s = gs_type cur
                \<and> (\<exists>l0. process_entry e lvl cur t = (Accepted s, l0))
                \<and> (\<forall>post. scan_games e lvl cur (pre @ t # post) = Returns (s, l))"
    by blast
next
  fix ts
  assume "\<forall>x \<in> set ts. is_skipped e cur x"
  from scan_games_skipped_prefix [OF this, of lvl] obtain l where
    "scan_games e lvl cur (ts @ []) =
           (case scan_games e lvl cur [] of
              Returns (s, later) \<Rightarrow> Returns (s, l @ later)
            | UndefinedBehaviour \<Rightarrow> UndefinedBehaviour)" by blast
  then show "\<exists>l. scan_games e lvl cur ts = Returns (cur, l)" by simp
next
  fix ts lang
  assume "\<forall>x \<in> set ts. is_skipped e (default_GameSettings e m_GameId) x"
  from scan_games_skipped_prefix [OF this, of lvl] obtain l where
    "scan_games e lvl (default_GameSettings e m_GameId) (ts @ []) =
           (case scan_games e lvl (default_GameSettings e m_GameId) [] of
              Returns (s, later) \<Rightarrow> Returns (s, l @ later)
            | UndefinedBehaviour \<Rightarrow> UndefinedBehaviour)" by blast
  then have "scan_games e lvl (default_GameSettings e m_GameId) ts
      = Returns (default_GameSettings e m_GameId, l)" by simp
  then show "\<exists>l logs.
                resolve_settings e lvl default_language m_GameId m_Language
                    (ParsedSettings \<lparr>games = Some ts, language = lang\<rparr>)
                  = Returns (Resolved (default_GameSettings e m_GameId) l logs)"
    by (simp add: resolve_settings_def getSettings_def)
qed

theorem scan_games_first_accepted_witness:
  "is_skipped example_env (default_GameSettings example_env tes3) conflicting_morrowind
   \<and> is_skipped example_env (default_GameSettings example_env tes3) plain_oblivion
   \<and> is_skipped example_env (default_GameSettings example_env tes3) long_repo_morrowind
   \<and> is_accepted example_env (default_GameSettings example_env tes3) second_morrowind
   \<and> scan_games example_env info (default_GameSettings example_env tes3)
         [conflicting_morrowind, plain_oblivion, long_repo_morrowind, second_morrowind,
          third_morrowind]
       = Returns (SetMasterlistSource ''https://example.com/masterlist.yaml''
                    (SetName ''Second'' (new_GameSettings example_env tes3 ''Morrowind'')),
                  [(Info, ''Updating masterlist repository branch from master to v0.23'')])
   \<and> scan_games example_env info (default_GameSettings example_env tes3)
         [conflicting_morrowind, plain_oblivion, long_repo_morrowind]
       = Returns (default_GameSettings example_env tes3,
                  [(Info, ''Updating masterlist repository branch from master to v0.23'')])"
proof -
  let ?cur = "default_GameSettings example_env tes3"
  let ?pre = "[conflicting_morrowind, plain_oblivion, long_repo_morrowind]"
  let ?second = "SetMasterlistSource ''https://example.com/masterlist.yaml''
                    (SetName ''Second'' (new_GameSettings example_env tes3 ''Morrowind''))"
  let ?log = "[(Info, ''Updating masterlist repository branch from master to v0.23'')]"
  note c1 = scan_games_first_accepted [of example_env ?cur info]
  note steps = second_morrowind_accepted conflicting_morrowind_thrown plain_oblivion_no_match
    long_repo_morrowind_thrown
  have pre: "\<forall>x \<in> set ?pre. is_skipped example_env ?cur x"
    using example_entries_status(1,2) long_repo_skipped by simp
  from c1 [THEN conjunct1, rule_format, of ?pre second_morrowind] pre example_entries_status(3)
  obtain s l where all: "\<forall>post. scan_games example_env info ?cur (?pre @ second_morrowind # post)
       = Returns (s, l)" by blast
  from all have "scan_games example_env info ?cur (?pre @ second_morrowind # []) = Returns (s, l)"
    by blast
  then have sl: "s = ?second \<and> l = ?log" by (simp add: steps)
  from all have "scan_games example_env info ?cur (?pre @ second_morrowind # [third_morrowind])
       = Returns (s, l)" by blast
  with sl have a: "scan_games example_env info ?cur
         [conflicting_morrowind, plain_oblivion, long_repo_morrowind, second_morrowind,
          third_morrowind]
       = Returns (?second, ?log)" by simp
  from c1 [THEN conjunct2, THEN conjunct1, rule_format, of ?pre] pre
  obtain l' where "scan_games example_env info ?cur ?pre = Returns (?cur, l')" by blast
  then have b: "scan_games example_env info ?cur ?pre = Returns (?cur, ?log)"
    by (simp add: steps)
  from example_entries_status(1,2) long_repo_skipped example_entries_status(3) a b
  show ?thesis by (intro conjI)
qed

text \<open>
  The first entry of the requested class is not always the one accepted. Of two
  Morrowind entries, the first of which sets both local fields, the second is accepted;
  so it is when the repository of the first is a name that the file system cannot look
  up; and a Morrowind entry without any masterlist source leaves the scan undefined.
\<close>

lemma third_morrowind_undefined: "process_entry example_env info (default_GameSettings example_env tes3) third_morrowind
  = (Undefined, [])"
  by (simp add: third_morrowind_def example_eval)

theorem first_class_match_not_accepted:
  "matches_class example_env (default_GameSettings example_env tes3) conflicting_morrowind
   \<and> scan_games example_env info (default_GameSettings example_env tes3)
         [conflicting_morrowind, second_morrowind]
       = Returns (SetMasterlistSource ''https://example.com/masterlist.yaml''
                    (SetName ''Second'' (new_GameSettings example_env tes3 ''Morrowind'')), [])
   \<and> matches_class example_env (default_GameSettings example_env tes3) long_repo_morrowind
   \<and> scan_games example_env info (default_GameSettings example_env tes3)
         [long_repo_morrowind, second_morrowind]
       = Returns (SetMasterlistSource ''https://example.com/masterlist.yaml''
                    (SetName ''Second'' (new_GameSettings example_env tes3 ''Morrowind'')),
                  [(Info, ''Updating masterlist repository branch from master to v0.23'')])
   \<and> matches_class example_env (default_GameSettings example_env tes3) third_morrowind
   \<and> scan_games example_env info (default_GameSettings example_env tes3) [third_morrowind]
       = UndefinedBehaviour"
proof -
  have "matches_class example_env (default_GameSettings example_env tes3) conflicting_morrowind"
    "matches_class example_env (default_GameSettings example_env tes3) third_morrowind"
    by (simp_all add: conflicting_morrowind_def third_morrowind_def example_eval)
  with long_repo_status(1) show ?thesis
    by (simp add: second_morrowind_accepted conflicting_morrowind_thrown
        third_morrowind_undefined long_repo_morrowind_thrown)
qed

text \<open>
  Claim C7, amended. For every configured entry that sets both local_path and
  local_folder (and that, when its engine-type class is the requested one, names a
  masterlist source or both a repository and a branch): resolution of the entry fails
  with ConflictingConfiguration when its class is the requested one and the local-path
  test of its repository raises no file-system error; it fails with that file-system
  error, before the check is reached, when the test raises one; and when its class
  is not the requested one or cannot be determined, the entry is no match or fails with
  the earlier error (a missing or unrecognised gameId, a missing folder, a file-system
  error of the classifier), and ConflictingConfiguration is not raised. In every case
  the profile in progress is left as it was and the scan continues with the entries that
  follow, as for an entry that does not match.
\<close>

theorem conflicting_entry_skipped:
  assumes "conflicting_local t" "matches_class e cur t \<longrightarrow> source_defined t"
  shows "\<exists>step l. process_entry e lvl cur t = (step, l)
           \<and> (matches_class e cur t \<and> \<not> source_raises e t
                \<longrightarrow> step = Threw ConflictingConfiguration)
           \<and> (matches_class e cur t \<and> source_raises e t \<longrightarrow> step = Threw FilesystemError)
           \<and> (\<not> matches_class e cur t
                \<longrightarrow> step \<in> {Threw MissingGameId, Threw InvalidType, Threw FilesystemError,
                            Threw MissingFolder, NoMatch}
                    \<and> l = [])
           \<and> scan_games e lvl cur [t] = Returns (cur, l)
           \<and> (\<forall>ts. scan_games e lvl cur (t # ts) =
                  (case scan_games e lvl cur ts of
                     Returns (s, later) \<Rightarrow> Returns (s, l @ later)
                   | UndefinedBehaviour \<Rightarrow> UndefinedBehaviour))"
proof -
  have "\<exists>step l. process_entry e lvl cur t = (step, l)
           \<and> (matches_class e cur t \<and> \<not> source_raises e t
                \<longrightarrow> step = Threw ConflictingConfiguration)
           \<and> (matches_class e cur t \<and> source_raises e t \<longrightarrow> step = Threw FilesystemError)
           \<and> (\<not> matches_class e cur t
                \<longrightarrow> step \<in> {Threw MissingGameId, Threw InvalidType, Threw FilesystemError,
                            Threw MissingFolder, NoMatch}
                    \<and> l = [])
           \<and> (step = NoMatch \<or> (\<exists>err. step = Threw err))"
  proof (cases "matches_class e cur t")
    case False
    from process_entry_no_class [OF False, of lvl] show ?thesis using False by auto
  next
    case True
    with assms(2) have sd: "source_defined t" by simp
    show ?thesis
    proof (cases "source_raises e t")
      case raises: True
      from process_entry_raises [OF True sd raises, of lvl] True raises show ?thesis by auto
    next
      case merges: False
      from process_entry_conflict [OF True sd merges assms(1), of lvl] True merges
      show ?thesis by auto
    qed
  qed
  then obtain step l where p: "process_entry e lvl cur t = (step, l)"
    and a: "matches_class e cur t \<and> \<not> source_raises e t
                \<longrightarrow> step = Threw ConflictingConfiguration"
    and b: "matches_class e cur t \<and> source_raises e t \<longrightarrow> step = Threw FilesystemError"
    and c: "\<not> matches_class e cur t
                \<longrightarrow> step \<in> {Threw MissingGameId, Threw InvalidType, Threw FilesystemError,
                            Threw MissingFolder, NoMatch}
                    \<and> l = []"
    and skip: "step = NoMatch \<or> (\<exists>err. step = Threw err)" by blast
  from p skip have sk: "process_entry e lvl cur t = (NoMatch, l)
      \<or> (\<exists>err. process_entry e lvl cur t = (Threw err, l))" by auto
  have d: "\<forall>ts. scan_games e lvl cur (t # ts) =
                  (case scan_games e lvl cur ts of
                     Returns (s, later) \<Rightarrow> Returns (s, l @ later)
                   | UndefinedBehaviour \<Rightarrow> UndefinedBehaviour)"
    using scan_games_skip [OF sk] by blast
  then have "scan_games e lvl cur (t # []) =
                  (case scan_games e lvl cur [] of
                     Returns (s, later) \<Rightarrow> Returns (s, l @ later)
                   | UndefinedBehaviour \<Rightarrow> UndefinedBehaviour)" by (rule spec)
  then have s: "scan_games e lvl cur [t] = Returns (cur, l)" by simp
  from p a b c s d show ?thesis by (intro exI [of _ step] exI [of _ l] conjI)
qed

theorem conflicting_entry_skipped_witness:
  "conflicting_local conflicting_morrowind
   \<and> matches_class example_env (default_GameSettings example_env tes3) conflicting_morrowind
   \<and> source_defined conflicting_morrowind
   \<and> process_entry example_env info (default_GameSettings example_env tes3) conflicting_morrowind
       = (Threw ConflictingConfiguration, [])
   \<and> scan_games example_env info (default_GameSettings example_env tes3) [conflicting_morrowind]
       = Returns (default_GameSettings example_env tes3, [])
   \<and> scan_games example_env info (default_GameSettings example_env tes3)
         [conflicting_morrowind, plain_oblivion]
       = scan_games example_env info (default_GameSettings example_env tes3) [plain_oblivion]
   \<and> conflicting_local conflicting_long_repo
   \<and> matches_class example_env (default_GameSettings example_env tes3) conflicting_long_repo
   \<and> source_raises example_env conflicting_long_repo
   \<and> process_entry example_env info (default_GameSettings example_env tes3) conflicting_long_repo
       = (Threw FilesystemError,
          [(Info, ''Updating masterlist repository branch from master to v0.23'')])
   \<and> scan_games example_env info (default_GameSettings example_env tes3) [conflicting_long_repo]
       = Returns (default_GameSettings example_env tes3,
                  [(Info, ''Updating masterlist repository branch from master to v0.23'')])"
proof -
  let ?cur = "default_GameSettings example_env tes3"
  let ?log = "[(Info, ''Updating masterlist repository branch from master to v0.23'')]"
  have h: "conflicting_local conflicting_morrowind"
    "matches_class example_env ?cur conflicting_morrowind"
    "source_defined conflicting_morrowind"
    by (simp_all add: conflicting_morrowind_def example_eval)
  from h(2,3) have h': "matches_class example_env ?cur conflicting_morrowind
      \<longrightarrow> source_defined conflicting_morrowind" by simp
  from conflicting_entry_skipped [OF h(1) h', of info] obtain step l where
    p: "process_entry example_env info ?cur conflicting_morrowind = (step, l)"
    and s: "scan_games example_env info ?cur [conflicting_morrowind] = Returns (?cur, l)"
    and c: "\<forall>ts. scan_games example_env info ?cur (conflicting_morrowind # ts) =
                  (case scan_games example_env info ?cur ts of
                     Returns (s, later) \<Rightarrow> Returns (s, l @ later)
                   | UndefinedBehaviour \<Rightarrow> UndefinedBehaviour)"
    by blast
  from p have l: "step = Threw ConflictingConfiguration" "l = []"
    by (simp_all add: conflicting_morrowind_thrown)
  from c have "scan_games example_env info ?cur (conflicting_morrowind # [plain_oblivion]) =
                  (case scan_games example_env info ?cur [plain_oblivion] of
                     Returns (s, later) \<Rightarrow> Returns (s, l @ later)
                   | UndefinedBehaviour \<Rightarrow> UndefinedBehaviour)" by (rule spec)
  with l have c': "scan_games example_env info ?cur [conflicting_morrowind, plain_oblivion]
       = scan_games example_env info ?cur [plain_oblivion]"
    by (simp split: outcome.splits)
  from long_repo_status(5,6) have k': "matches_class example_env ?cur conflicting_long_repo
      \<longrightarrow> source_defined conflicting_long_repo" by simp
  from conflicting_entry_skipped [OF long_repo_status(8) k', of info] long_repo_status(5,7)
  obtain l2 where
    p2: "process_entry example_env info ?cur conflicting_long_repo = (Threw FilesystemError, l2)"
    and s2: "scan_games example_env info ?cur [conflicting_long_repo] = Returns (?cur, l2)"
    by blast
  from p2 have l2: "l2 = ?log" by (simp add: conflicting_long_repo_thrown)
  from h p s c' l long_repo_status(5,7,8) p2 s2 l2 show ?thesis by simp
qed

text \<open>
  An entry that sets both local fields does not always fail with
  ConflictingConfiguration. When its class is not the requested one it raises no
  exception: it is not a match. When its class is the requested one and its repository
  is a name that the file system cannot look up, the file-system error is thrown before
  the check. When its class is the requested one and it names no masterlist source, the
  empty optionals are dereferenced before the check.
\<close>

theorem conflicting_entry_without_error:
  "conflicting_local conflicting_morrowind
   \<and> process_entry example_env info (default_GameSettings example_env tes4) conflicting_morrowind
       = (NoMatch, [])
   \<and> conflicting_local conflicting_long_repo
   \<and> process_entry example_env info (default_GameSettings example_env tes3) conflicting_long_repo
       = (Threw FilesystemError,
          [(Info, ''Updating masterlist repository branch from master to v0.23'')])
   \<and> conflicting_local conflicting_without_source
   \<and> process_entry example_env info (default_GameSettings example_env tes3)
         conflicting_without_source
       = (Undefined, [])"
proof -
  have "conflicting_local conflicting_morrowind
   \<and> process_entry example_env info (default_GameSettings example_env tes4) conflicting_morrowind
       = (NoMatch, [])
   \<and> conflicting_local conflicting_without_source
   \<and> process_entry example_env info (default_GameSettings example_env tes3)
         conflicting_without_source
       = (Undefined, [])"
    by (simp add: conflicting_morrowind_def conflicting_without_source_def example_eval)
  with long_repo_status(8) conflicting_long_repo_thrown show ?thesis by simp
qed

text \<open>
  Claim C8. A matched entry without masterlistSource must have both repo and branch;
  the claim says that an absent one is an error for that entry. The code evaluates
  \<^verbatim>\<open>*url\<close> and \<^verbatim>\<open>*branch\<close> without a test: on an entry that declares Oblivion, with a
  branch and no repo, its behaviour is undefined, and so is that of the whole resolution.
\<close>

theorem missing_repo_dereferenced:
  "vstring oblivion_without_source ''masterlistSource'' = None
   \<and> vstring oblivion_without_source ''repo'' = None
   \<and> resolveSource example_env info tes4 None None (Some ''v0.23'') = SourceUndefined
   \<and> process_entry example_env info (default_GameSettings example_env tes4)
         oblivion_without_source
       = (Undefined, [])
   \<and> resolve_settings example_env info ''en'' tes4 []
         (ParsedSettings \<lparr>games = Some [oblivion_without_source], language = None\<rparr>)
       = UndefinedBehaviour"
proof -
  have p: "process_entry example_env info (default_GameSettings example_env tes4)
         oblivion_without_source = (Undefined, [])"
    by (simp add: oblivion_without_source_def example_eval)
  then show ?thesis
    by (simp add: resolve_settings_def getSettings_def resolveSource_def
        oblivion_without_source_def)
qed

lemma declared_GameId_class:
  "declared_GameId e t gameType = Inr g \<Longrightarrow> GetGameType g \<noteq> T_starfield"
  by (auto simp: declared_GameId_def classified_def split: if_splits fs.splits)

lemma scan_games_starfield:
  assumes "gs_type cur = T_starfield"
  shows "scan_games e lvl cur ts = Returns (cur, [])"
proof (induction ts)
  case Nil
  then show ?case by simp
next
  case (Cons t ts)
  have "\<not> matches_class e cur t"
    using assms declared_GameId_class
    by (auto simp: matches_class_def entry_class_def entry_GameId_def
        split: option.splits sum.splits)
  from process_entry_no_class [OF this, of lvl] Cons show ?case by auto
qed

text \<open>
  Claim C10. The declared type strings that the scan recognises are exactly Morrowind,
  Oblivion, Skyrim, SkyrimSE, Skyrim Special Edition, Skyrim VR, Fallout3, FalloutNV,
  Fallout4 and Fallout4VR. An entry declaring any other gameId, such as Starfield,
  Nehrim, Enderal or EnderalSE (all four are accepted as requested game names), throws
  the invalid-type exception and is skipped. So a run that requests Starfield resolves
  to the catalog-default profile for every settings file that can be read.
\<close>

theorem declared_types_and_starfield:
  "(\<forall>gameType.
      declared_GameId e t gameType \<noteq> Inl InvalidType \<longleftrightarrow>
        gameType \<in> {''Morrowind'', ''Oblivion'', ''Skyrim'', ''SkyrimSE'',
                     ''Skyrim Special Edition'', ''Skyrim VR'', ''Fallout3'', ''FalloutNV'',
                     ''Fallout4'', ''Fallout4VR''})
   \<and> (\<forall>gameType.
        vstring t ''gameId'' = Some gameType
          \<and> gameType \<notin> {''Morrowind'', ''Oblivion'', ''Skyrim'', ''SkyrimSE'',
                     ''Skyrim Special Edition'', ''Skyrim VR'', ''Fallout3'', ''FalloutNV'',
                     ''Fallout4'', ''Fallout4VR''}
        \<longrightarrow> process_entry e lvl cur t = (Threw InvalidType, [])
            \<and> scan_games e lvl cur (t # ts) = scan_games e lvl cur ts)
   \<and> setGame ''Starfield'' = Inr starfield \<and> setGame ''Nehrim'' = Inr nehrim
   \<and> setGame ''Enderal'' = Inr enderal \<and> setGame ''EnderalSE'' = Inr enderalse
   \<and> (\<forall>gameType \<in> {''Starfield'', ''Nehrim'', ''Enderal'', ''EnderalSE''}.
        declared_GameId e t gameType = Inl InvalidType)
   \<and> (\<forall>tables. scan_games e lvl (default_GameSettings e starfield) tables
                  = Returns (default_GameSettings e starfield, []))
   \<and> (\<forall>file. file \<noteq> UnreadableSettings
        \<longrightarrow> (\<exists>l. resolve_settings e lvl default_language starfield m_Language file
                    = Returns (Resolved (default_GameSettings e starfield) l [])))"
proof (intro conjI allI impI ballI)
  fix gameType
  show "declared_GameId e t gameType \<noteq> Inl InvalidType \<longleftrightarrow>
        gameType \<in> {''Morrowind'', ''Oblivion'', ''Skyrim'', ''SkyrimSE'',
                     ''Skyrim Special Edition'', ''Skyrim VR'', ''Fallout3'', ''FalloutNV'',
                     ''Fallout4'', ''Fallout4VR''}"
    by (simp add: declared_GameId_def classified_def split: fs.splits)
next
  fix gameType
  assume h: "vstring t ''gameId'' = Some gameType
          \<and> gameType \<notin> {''Morrowind'', ''Oblivion'', ''Skyrim'', ''SkyrimSE'',
                     ''Skyrim Special Edition'', ''Skyrim VR'', ''Fallout3'', ''FalloutNV'',
                     ''Fallout4'', ''Fallout4VR''}"
  then have "declared_GameId e t gameType = Inl InvalidType" by (simp add: declared_GameId_def)
  with h show p: "process_entry e lvl cur t = (Threw InvalidType, [])"
    by (simp add: process_entry_def)
  then show "scan_games e lvl cur (t # ts) = scan_games e lvl cur ts"
    by (simp split: outcome.splits prod.splits)
next
  show "setGame ''Starfield'' = Inr starfield" "setGame ''Nehrim'' = Inr nehrim"
    "setGame ''Enderal'' = Inr enderal" "setGame ''EnderalSE'' = Inr enderalse"
    by (simp_all add: setGame_def gameMap_def ToLower_def tolower_def upper_letters_def
        lower_letters_def)
next
  fix gameType :: string
  assume "gameType \<in> {''Starfield'', ''Nehrim'', ''Enderal'', ''EnderalSE''}"
  then show "declared_GameId e t gameType = Inl InvalidType"
    by (elim insertE emptyE) (simp_all add: declared_GameId_def)
next
  fix tables
  show "scan_games e lvl (default_GameSettings e starfield) tables
          = Returns (default_GameSettings e starfield, [])"
    by (rule scan_games_starfield) (simp add: default_GameSettings_def new_GameSettings_def)
next
  fix f :: settings_file
  assume f: "f \<noteq> UnreadableSettings"
  have s: "scan_games e lvl (default_GameSettings e starfield) tables
          = Returns (default_GameSettings e starfield, [])" for tables
    by (rule scan_games_starfield) (simp add: default_GameSettings_def new_GameSettings_def)
  from f
  show "\<exists>l. resolve_settings e lvl default_language starfield m_Language f
                    = Returns (Resolved (default_GameSettings e starfield) l [])"
    by (cases f) (auto simp: resolve_settings_def getSettings_def s split: option.splits)
qed

theorem declared_types_and_starfield_witness:
  "vstring starfield_entry ''gameId'' = Some ''Starfield''
   \<and> process_entry example_env info (default_GameSettings example_env starfield) starfield_entry
       = (Threw InvalidType, [])
   \<and> declared_GameId example_env starfield_entry ''Starfield'' = Inl InvalidType
   \<and> declared_GameId example_env nehrim_by_master ''Oblivion'' = Inr nehrim
   \<and> resolve_settings example_env info ''en'' starfield []
         (ParsedSettings \<lparr>games = Some [starfield_entry, second_morrowind], language = None\<rparr>)
       = Returns (Resolved (default_GameSettings example_env starfield) ''en'' [])"
proof -
  note c10 = declared_types_and_starfield [of example_env _ info _ _ "''en''" "[]"]
  have g: "vstring starfield_entry ''gameId'' = Some ''Starfield''"
    by (simp add: starfield_entry_def)
  have n: "''Starfield'' \<notin> {''Morrowind'', ''Oblivion'', ''Skyrim'', ''SkyrimSE'',
                     ''Skyrim Special Edition'', ''Skyrim VR'', ''Fallout3'', ''FalloutNV'',
                     ''Fallout4'', ''Fallout4VR''}" by simp
  have 1: "process_entry example_env info (default_GameSettings example_env starfield)
      starfield_entry = (Threw InvalidType, [])"
    by (rule c10 [of starfield_entry "default_GameSettings example_env starfield" "[]",
      THEN conjunct2, THEN conjunct1, THEN spec, THEN mp, OF conjI, OF g n, THEN conjunct1])
  from c10 [of starfield_entry "default_GameSettings example_env starfield" "[]"]
  have 2: "declared_GameId example_env starfield_entry ''Starfield'' = Inl InvalidType" by simp
  from c10 [of nehrim_by_master "default_GameSettings example_env starfield" "[]",
      THEN conjunct1, rule_format, of "''Oblivion''"]
  have "declared_GameId example_env nehrim_by_master ''Oblivion'' \<noteq> Inl InvalidType" by simp
  then have 3: "declared_GameId example_env nehrim_by_master ''Oblivion'' = Inr nehrim"
    by (simp add: nehrim_by_master_def example_eval)
  have f: "ParsedSettings \<lparr>games = Some [starfield_entry, second_morrowind], language = None\<rparr>
             \<noteq> UnreadableSettings" by simp
  from c10 [of starfield_entry "default_GameSettings example_env starfield" "[]",
      THEN conjunct2, THEN conjunct2, THEN conjunct2, THEN conjunct2, THEN conjunct2,
      THEN conjunct2, THEN conjunct2, THEN conjunct2, THEN spec, THEN mp, OF f]
  obtain l where r: "resolve_settings example_env info ''en'' starfield []
         (ParsedSettings \<lparr>games = Some [starfield_entry, second_morrowind], language = None\<rparr>)
       = Returns (Resolved (default_GameSettings example_env starfield) l [])" ..
  then have "l = ''en''"
    by (auto simp: resolve_settings_def getSettings_def split: outcome.splits prod.splits)
  with g 1 2 3 r show ?thesis by simp
qed

subsection \<open>The plugins of the report\<close>

lemma put_map_fst: "set (map fst (put e v ms)) = insert e (set (map fst ms))"
  by (induction e v ms rule: put.induct) auto

lemma put_keys: "fst ` set (put e v ms) = insert e (fst ` set ms)"
  using put_map_fst [of e v ms] by simp

lemma put_length: "e \<notin> fst ` set ms \<Longrightarrow> length (put e v ms) = Suc (length ms)"
  by (induction ms) auto

lemma put_members: "(k, w) \<in> set (put e v ms) \<Longrightarrow> (k = e \<and> w = v) \<or> (k, w) \<in> set ms"
  by (induction ms) (auto split: if_splits)

lemma put_lookup: "k \<noteq> e \<Longrightarrow> map_of (put e v ms) k = map_of ms k"
  by (induction ms) auto

lemma is_empty_array: "is_empty_value (QJsonArray xs) \<longleftrightarrow> xs = []"
  by (simp add: is_empty_value_def)

text \<open>
  One call of \<^verbatim>\<open>set\<close>, and one assignment of a flag, on an object whose members,
  apart from the member \<open>n\<close>, are not empty and satisfy \<open>Q\<close>.
\<close>

lemma set_member_step:
  assumes "fst ` set ms \<subseteq> K" "e \<notin> K" "e \<noteq> ''name''"
    and "\<forall>(k, w) \<in> set ms. (k, w) = n \<or> \<not> is_empty_value w \<and> Q w"
    and "Q v"
  shows "fst ` set (set_member ms e v) \<subseteq> insert e K"
    and "length (set_member ms e v) = length ms + (if is_empty_value v then 0 else 1)"
    and "\<forall>(k, w) \<in> set (set_member ms e v). (k, w) = n \<or> \<not> is_empty_value w \<and> Q w"
    and "map_of (set_member ms e v) ''name'' = map_of ms ''name''"
proof -
  from assms(1,2) have fresh: "e \<notin> fst ` set ms" by auto
  show "fst ` set (set_member ms e v) \<subseteq> insert e K"
    using assms(1) by (auto simp: set_member_def put_keys)
  show "length (set_member ms e v) = length ms + (if is_empty_value v then 0 else 1)"
    using fresh by (simp add: set_member_def put_length)
  show "\<forall>(k, w) \<in> set (set_member ms e v). (k, w) = n \<or> \<not> is_empty_value w \<and> Q w"
  proof (cases "is_empty_value v")
    case True
    with assms(4) show ?thesis by (simp add: set_member_def)
  next
    case False
    have "(k, w) = n \<or> \<not> is_empty_value w \<and> Q w" if "(k, w) \<in> set (put e v ms)" for k w
      using put_members [OF that] False assms(4,5) by auto
    with False show ?thesis by (auto simp: set_member_def)
  qed
  show "map_of (set_member ms e v) ''name'' = map_of ms ''name''"
    using assms(3) by (simp add: set_member_def put_lookup)
qed

lemma flag_step:
  assumes "fst ` set ms \<subseteq> K" "e \<notin> K" "e \<noteq> ''name''"
    and "\<forall>(k, w) \<in> set ms. (k, w) = n \<or> \<not> is_empty_value w \<and> Q w"
    and "Q (QJsonBool True)"
  shows "fst ` set (if b then put e (QJsonBool True) ms else ms) \<subseteq> insert e K"
    and "length (if b then put e (QJsonBool True) ms else ms) = length ms + (if b then 1 else 0)"
    and "\<forall>(k, w) \<in> set (if b then put e (QJsonBool True) ms else ms).
           (k, w) = n \<or> \<not> is_empty_value w \<and> Q w"
    and "map_of (if b then put e (QJsonBool True) ms else ms) ''name'' = map_of ms ''name''"
proof -
  from assms(1,2) have fresh: "e \<notin> fst ` set ms" by auto
  show "fst ` set (if b then put e (QJsonBool True) ms else ms) \<subseteq> insert e K"
    using assms(1) by (auto simp: put_keys)
  show "length (if b then put e (QJsonBool True) ms else ms) = length ms + (if b then 1 else 0)"
    using fresh by (simp add: put_length)
  show "\<forall>(k, w) \<in> set (if b then put e (QJsonBool True) ms else ms).
           (k, w) = n \<or> \<not> is_empty_value w \<and> Q w"
  proof (cases b)
    case False
    with assms(4) show ?thesis by simp
  next
    case True
    have flag: "\<not> is_empty_value (QJsonBool True)" by (simp add: is_empty_value_def)
    have "(k, w) = n \<or> \<not> is_empty_value w \<and> Q w"
      if "(k, w) \<in> set (put e (QJsonBool True) ms)" for k w
      using put_members [OF that] flag assms(4,5) by auto
    with True show ?thesis by auto
  qed
  show "map_of (if b then put e (QJsonBool True) ms else ms) ''name'' = map_of ms ''name''"
    using assms(3) by (simp add: put_lookup)
qed

lemma createIncompatibilities_empty:
  "createIncompatibilities game fs = [] \<longleftrightarrow>
     \<not> list_ex (\<lambda>f. GetPlugin game (GetName f) \<noteq> None) fs"
  by (induction fs) (auto split: option.splits)

lemma createMessages_empty:
  "createMessages select lang ms = [] \<longleftrightarrow>
     \<not> list_ex (\<lambda>m. select (GetContent m) lang \<noteq> None) ms"
  by (induction ms) (auto split: option.splits)

lemma createMissingMasters_empty:
  "createMissingMasters game plugin = [] \<longleftrightarrow>
     \<not> list_ex (\<lambda>master. GetPlugin game master = None) (GetMasters plugin)"
  by (auto simp: createMissingMasters_def list_ex_iff filter_empty_conv)

lemma metadata_members_spec:
  fixes ms :: "(string \<times> QJsonValue) list" and game :: GameInterface
    and md :: PluginMetadata and select :: selector and lang :: string
  assumes "fst ` set ms \<subseteq> {''name''}"
    and "\<forall>(k, w) \<in> set ms. (k, w) = n \<or> \<not> is_empty_value w \<and> Q w"
    and "Q (QJsonArray (createIncompatibilities game (GetIncompatibilities md)))"
    and "Q (QJsonArray (createMessages select lang (GetMessages md)))"
    and "Q (QJsonArray (createDirty select lang (GetDirtyInfo md)))"
    and "Q (QJsonArray (createClean select lang (GetCleanInfo md)))"
  defines "a \<equiv> createIncompatibilities game (GetIncompatibilities md)"
    and "b \<equiv> createMessages select lang (GetMessages md)"
    and "c \<equiv> createDirty select lang (GetDirtyInfo md)"
    and "d \<equiv> createClean select lang (GetCleanInfo md)"
    and "r \<equiv> metadata_members select lang game md ms"
  shows "fst ` set r \<subseteq> {''clean'', ''dirty'', ''messages'', ''incompatibilities'', ''name''}"
    and "length r = length ms + (if a = [] then 0 else 1) + (if b = [] then 0 else 1)
           + (if c = [] then 0 else 1) + (if d = [] then 0 else 1)"
    and "\<forall>(k, w) \<in> set r. (k, w) = n \<or> \<not> is_empty_value w \<and> Q w"
    and "map_of r ''name'' = map_of ms ''name''"
proof -
  have r: "r = set_member (set_member (set_member (set_member ms
              ''incompatibilities'' (QJsonArray a)) ''messages'' (QJsonArray b))
              ''dirty'' (QJsonArray c)) ''clean'' (QJsonArray d)"
    by (simp add: r_def metadata_members_def a_def b_def c_def d_def)
  have q: "Q (QJsonArray a)" "Q (QJsonArray b)" "Q (QJsonArray c)" "Q (QJsonArray d)"
    using assms(3-6) by (simp_all add: a_def b_def c_def d_def)
  note s1 = set_member_step [OF assms(1) _ _ assms(2) q(1), of "''incompatibilities''"]
  have k1: "fst ` set (set_member ms ''incompatibilities'' (QJsonArray a))
              \<subseteq> {''incompatibilities'', ''name''}" by (rule s1(1)) simp_all
  have i1: "\<forall>(k, w) \<in> set (set_member ms ''incompatibilities'' (QJsonArray a)).
              (k, w) = n \<or> \<not> is_empty_value w \<and> Q w" by (rule s1(3)) simp_all
  note s2 = set_member_step [OF k1 _ _ i1 q(2), of "''messages''"]
  have k2: "fst ` set (set_member (set_member ms ''incompatibilities'' (QJsonArray a))
              ''messages'' (QJsonArray b)) \<subseteq> {''messages'', ''incompatibilities'', ''name''}"
    by (rule s2(1)) simp_all
  have i2: "\<forall>(k, w) \<in> set (set_member (set_member ms ''incompatibilities'' (QJsonArray a))
              ''messages'' (QJsonArray b)). (k, w) = n \<or> \<not> is_empty_value w \<and> Q w"
    by (rule s2(3)) simp_all
  note s3 = set_member_step [OF k2 _ _ i2 q(3), of "''dirty''"]
  have k3: "fst ` set (set_member (set_member (set_member ms ''incompatibilities'' (QJsonArray a))
              ''messages'' (QJsonArray b)) ''dirty'' (QJsonArray c))
              \<subseteq> {''dirty'', ''messages'', ''incompatibilities'', ''name''}"
    by (rule s3(1)) simp_all
  have i3: "\<forall>(k, w) \<in> set (set_member (set_member (set_member ms ''incompatibilities''
              (QJsonArray a)) ''messages'' (QJsonArray b)) ''dirty'' (QJsonArray c)).
              (k, w) = n \<or> \<not> is_empty_value w \<and> Q w"
    by (rule s3(3)) simp_all
  note s4 = set_member_step [OF k3 _ _ i3 q(4), of "''clean''"]
  show "fst ` set r \<subseteq> {''clean'', ''dirty'', ''messages'', ''incompatibilities'', ''name''}"
    unfolding r by (rule s4(1)) simp_all
  show "\<forall>(k, w) \<in> set r. (k, w) = n \<or> \<not> is_empty_value w \<and> Q w"
    unfolding r by (rule s4(3)) simp_all
  have "length r = length ms + (if is_empty_value (QJsonArray a) then 0 else 1)
           + (if is_empty_value (QJsonArray b) then 0 else 1)
           + (if is_empty_value (QJsonArray c) then 0 else 1)
           + (if is_empty_value (QJsonArray d) then 0 else 1)"
    unfolding r using s1(2) s2(2) s3(2) s4(2) by simp
  then show "length r = length ms + (if a = [] then 0 else 1) + (if b = [] then 0 else 1)
           + (if c = [] then 0 else 1) + (if d = [] then 0 else 1)"
    by (simp only: is_empty_array)
  show "map_of r ''name'' = map_of ms ''name''"
    unfolding r using s1(4) s2(4) s3(4) s4(4) by simp
qed

lemma flag_members_spec:
  fixes ms :: "(string \<times> QJsonValue) list" and m :: "QJsonValue list"
    and plugin :: PluginInterface
  assumes "fst ` set ms \<subseteq> {''clean'', ''dirty'', ''messages'', ''incompatibilities'', ''name''}"
    and "\<forall>(k, w) \<in> set ms. (k, w) = n \<or> \<not> is_empty_value w \<and> Q w"
    and "Q (QJsonArray m)" and "Q (QJsonBool True)"
  defines "r \<equiv> flag_members plugin (set_member ms ''missingMasters'' (QJsonArray m))"
  shows "length r = length ms + (if m = [] then 0 else 1)
           + (if LoadsArchive plugin then 1 else 0)
           + (if IsMaster plugin then 1 else 0) + (if IsLightPlugin plugin then 1 else 0)"
    and "\<forall>(k, w) \<in> set r. (k, w) = n \<or> \<not> is_empty_value w \<and> Q w"
    and "map_of r ''name'' = map_of ms ''name''"
proof -
  define o2 where "o2 = set_member ms ''missingMasters'' (QJsonArray m)"
  define o3 where "o3 = (if LoadsArchive plugin then put ''loadsArchive'' (QJsonBool True) o2 else o2)"
  define o4 where "o4 = (if IsMaster plugin then put ''isMaster'' (QJsonBool True) o3 else o3)"
  have r: "r = (if IsLightPlugin plugin then put ''isLightMaster'' (QJsonBool True) o4 else o4)"
    by (simp add: r_def flag_members_def Let_def o2_def o3_def o4_def)
  note s2 = set_member_step [OF assms(1) _ _ assms(2,3), of "''missingMasters''"]
  have k2: "fst ` set o2 \<subseteq> {''missingMasters'', ''clean'', ''dirty'', ''messages'',
              ''incompatibilities'', ''name''}"
    unfolding o2_def by (rule s2(1)) simp_all
  have i2: "\<forall>(k, w) \<in> set o2. (k, w) = n \<or> \<not> is_empty_value w \<and> Q w"
    unfolding o2_def by (rule s2(3)) simp_all
  have l2: "length o2 = length ms + (if m = [] then 0 else 1)"
    unfolding o2_def using s2(2) by (simp add: is_empty_array)
  have n2: "map_of o2 ''name'' = map_of ms ''name''"
    unfolding o2_def by (rule s2(4)) simp_all
  note s3 = flag_step [OF k2 _ _ i2 assms(4), of "''loadsArchive''" "LoadsArchive plugin"]
  have k3: "fst ` set o3 \<subseteq> {''loadsArchive'', ''missingMasters'', ''clean'', ''dirty'',
              ''messages'', ''incompatibilities'', ''name''}"
    unfolding o3_def by (rule s3(1)) simp_all
  have i3: "\<forall>(k, w) \<in> set o3. (k, w) = n \<or> \<not> is_empty_value w \<and> Q w"
    unfolding o3_def by (rule s3(3)) simp_all
  have l3: "length o3 = length o2 + (if LoadsArchive plugin then 1 else 0)"
    unfolding o3_def by (rule s3(2)) simp_all
  have n3: "map_of o3 ''name'' = map_of o2 ''name''"
    unfolding o3_def by (rule s3(4)) simp_all
  note s4 = flag_step [OF k3 _ _ i3 assms(4), of "''isMaster''" "IsMaster plugin"]
  have k4: "fst ` set o4 \<subseteq> {''isMaster'', ''loadsArchive'', ''missingMasters'', ''clean'',
              ''dirty'', ''messages'', ''incompatibilities'', ''name''}"
    unfolding o4_def by (rule s4(1)) simp_all
  have i4: "\<forall>(k, w) \<in> set o4. (k, w) = n \<or> \<not> is_empty_value w \<and> Q w"
    unfolding o4_def by (rule s4(3)) simp_all
  have l4: "length o4 = length o3 + (if IsMaster plugin then 1 else 0)"
    unfolding o4_def by (rule s4(2)) simp_all
  have n4: "map_of o4 ''name'' = map_of o3 ''name''"
    unfolding o4_def by (rule s4(4)) simp_all
  note s5 = flag_step [OF k4 _ _ i4 assms(4), of "''isLightMaster''" "IsLightPlugin plugin"]
  show "\<forall>(k, w) \<in> set r. (k, w) = n \<or> \<not> is_empty_value w \<and> Q w"
    unfolding r by (rule s5(3)) simp_all
  have l5: "length r = length o4 + (if IsLightPlugin plugin then 1 else 0)"
    unfolding r by (rule s5(2)) simp_all
  have n5: "map_of r ''name'' = map_of o4 ''name''"
    unfolding r by (rule s5(4)) simp_all
  from l2 l3 l4 l5
  show "length r = length ms + (if m = [] then 0 else 1)
           + (if LoadsArchive plugin then 1 else 0)
           + (if IsMaster plugin then 1 else 0) + (if IsLightPlugin plugin then 1 else 0)"
    by simp
  from n2 n3 n4 n5 show "map_of r ''name'' = map_of ms ''name''" by simp
qed

lemma createDirty_empty: "createDirty select lang data = [] \<longleftrightarrow> data = []"
  by (simp add: createDirty_def)

lemma createClean_empty: "createClean select lang data = [] \<longleftrightarrow> data = []"
  by (simp add: createClean_def)

text \<open>The fields inside the five arrays of a plugin entry.\<close>

lemma fields_filtered_array:
  "fields_filtered game (QJsonArray vs) \<longleftrightarrow> (\<forall>v \<in> set vs. fields_filtered game v)"
  by (auto simp: fields_filtered_def)

lemma put_all:
  "\<forall>m \<in> set ms. P m \<Longrightarrow> P (e, v) \<Longrightarrow> \<forall>m \<in> set (put e v ms). P m"
  by (induction e v ms rule: put.induct) auto

lemma set_member_all:
  "\<forall>m \<in> set ms. P m \<Longrightarrow> (\<not> is_empty_value v \<Longrightarrow> P (e, v))
     \<Longrightarrow> \<forall>m \<in> set (set_member ms e v). P m"
  using put_all [of ms P e v] by (auto simp: set_member_def)

lemma fields_filtered_flat:
  assumes "\<forall>m \<in> set ms. \<not> is_empty_value (snd m) \<and> fields (snd m) = []"
  shows "fields_filtered game (QJsonObject ms)"
  using assms by (auto simp: fields_filtered_def)

lemma toString_not_empty: "toString ty \<noteq> []"
  by (cases ty) simp_all

lemma createMessages_filtered:
  "fields_filtered game (QJsonArray (createMessages select lang list))"
proof -
  have "fields_filtered game v" if "v \<in> set (createMessages select lang list)" for v
    using that
  proof (induction list)
    case Nil
    then show ?case by simp
  next
    case (Cons m list)
    show ?case
    proof (cases "select (GetContent m) lang")
      case None
      with Cons show ?thesis by simp
    next
      case (Some selected)
      with Cons.prems consider
        "v = QJsonObject [(''type'', QJsonString (toString (GetType m))),
                          (''text'', QJsonString selected)]"
        | "v \<in> set (createMessages select lang list)" by auto
      then show ?thesis
      proof cases
        case 1
        then show ?thesis
          using toString_not_empty [of "GetType m"]
          by (auto simp: fields_filtered_def is_empty_value_def)
      next
        case 2
        with Cons.IH show ?thesis by blast
      qed
    qed
  qed
  then show ?thesis by (simp add: fields_filtered_array)
qed

lemma createDirty_filtered:
  "fields_filtered game (QJsonArray (createDirty select lang data))"
proof -
  define P where "P m \<longleftrightarrow> \<not> is_empty_value (snd m) \<and> fields (snd m) = []"
    for m :: "string \<times> QJsonValue"
  have number: "P (k, QJsonNumber i)" for k i by (simp add: P_def is_empty_value_def)
  have str: "\<not> is_empty_value (QJsonString s) \<Longrightarrow> P (k, QJsonString s)" for k s
    by (simp add: P_def)
  have "fields_filtered game v" if "v \<in> set (createDirty select lang data)" for v
  proof -
    from that obtain d where v: "v = QJsonObject
            (set_member
               (set_member
                  (put ''deletedNavmesh'' (QJsonNumber (int (GetDeletedNavmeshCount d)))
                     (put ''deletedReferences'' (QJsonNumber (int (GetDeletedReferenceCount d)))
                        (put ''itm'' (QJsonNumber (int (GetITMCount d)))
                           (put ''crc'' (QJsonNumber (int (GetCRC d))) []))))
                  ''cleaningUtility'' (QJsonString (GetCleaningUtility d)))
               ''info'' (QJsonString (info_text select lang d)))"
      by (auto simp: createDirty_def)
    have "\<forall>m \<in> set [(''crc'', QJsonNumber (int (GetCRC d)))]. P m" using number by simp
    then have "\<forall>m \<in> set (put ''itm'' (QJsonNumber (int (GetITMCount d)))
        [(''crc'', QJsonNumber (int (GetCRC d)))]). P m"
      by (rule put_all) (rule number)
    then have "\<forall>m \<in> set (put ''deletedReferences''
        (QJsonNumber (int (GetDeletedReferenceCount d)))
        (put ''itm'' (QJsonNumber (int (GetITMCount d)))
           [(''crc'', QJsonNumber (int (GetCRC d)))])). P m"
      by (rule put_all) (rule number)
    then have "\<forall>m \<in> set (put ''deletedNavmesh'' (QJsonNumber (int (GetDeletedNavmeshCount d)))
        (put ''deletedReferences'' (QJsonNumber (int (GetDeletedReferenceCount d)))
          (put ''itm'' (QJsonNumber (int (GetITMCount d)))
             [(''crc'', QJsonNumber (int (GetCRC d)))]))). P m"
      by (rule put_all) (rule number)
    then have "\<forall>m \<in> set (set_member
        (put ''deletedNavmesh'' (QJsonNumber (int (GetDeletedNavmeshCount d)))
          (put ''deletedReferences'' (QJsonNumber (int (GetDeletedReferenceCount d)))
            (put ''itm'' (QJsonNumber (int (GetITMCount d)))
               [(''crc'', QJsonNumber (int (GetCRC d)))])))
        ''cleaningUtility'' (QJsonString (GetCleaningUtility d))). P m"
      by (rule set_member_all) (rule str)
    then have "\<forall>m \<in> set (set_member (set_member
        (put ''deletedNavmesh'' (QJsonNumber (int (GetDeletedNavmeshCount d)))
          (put ''deletedReferences'' (QJsonNumber (int (GetDeletedReferenceCount d)))
            (put ''itm'' (QJsonNumber (int (GetITMCount d)))
               [(''crc'', QJsonNumber (int (GetCRC d)))])))
        ''cleaningUtility'' (QJsonString (GetCleaningUtility d)))
        ''info'' (QJsonString (info_text select lang d))). P m"
      by (rule set_member_all) (rule str)
    then show ?thesis unfolding v P_def by (simp add: fields_filtered_flat)
  qed
  then show ?thesis by (simp add: fields_filtered_array)
qed

lemma createClean_filtered:
  "fields_filtered game (QJsonArray (createClean select lang data))"
proof -
  define P where "P m \<longleftrightarrow> \<not> is_empty_value (snd m) \<and> fields (snd m) = []"
    for m :: "string \<times> QJsonValue"
  have number: "P (k, QJsonNumber i)" for k i by (simp add: P_def is_empty_value_def)
  have str: "\<not> is_empty_value (QJsonString s) \<Longrightarrow> P (k, QJsonString s)" for k s
    by (simp add: P_def)
  have "fields_filtered game v" if "v \<in> set (createClean select lang data)" for v
  proof -
    from that obtain d where v: "v = QJsonObject
            (set_member
               (set_member (put ''crc'' (QJsonNumber (int (GetCRC d))) [])
                  ''cleaningUtility'' (QJsonString (GetCleaningUtility d)))
               ''info'' (QJsonString (info_text select lang d)))"
      by (auto simp: createClean_def)
    have "\<forall>m \<in> set (put ''crc'' (QJsonNumber (int (GetCRC d))) []). P m" using number by simp
    then have "\<forall>m \<in> set (set_member (put ''crc'' (QJsonNumber (int (GetCRC d))) [])
        ''cleaningUtility'' (QJsonString (GetCleaningUtility d))). P m"
      by (rule set_member_all) (rule str)
    then have "\<forall>m \<in> set (set_member (set_member (put ''crc'' (QJsonNumber (int (GetCRC d))) [])
        ''cleaningUtility'' (QJsonString (GetCleaningUtility d)))
        ''info'' (QJsonString (info_text select lang d))). P m"
      by (rule set_member_all) (rule str)
    then show ?thesis unfolding v P_def by (rule fields_filtered_flat)
  qed
  then show ?thesis by (simp add: fields_filtered_array)
qed

lemma createIncompatibilities_filtered:
  "fields_filtered game (QJsonArray (createIncompatibilities game data))"
proof -
  have "fields_filtered game v" if "v \<in> set (createIncompatibilities game data)" for v
    using that
  proof (induction data)
    case Nil
    then show ?case by simp
  next
    case (Cons f data)
    show ?case
    proof (cases "GetPlugin game (GetName f)")
      case None
      with Cons show ?thesis by simp
    next
      case (Some plugin)
      let ?o = "if GetDisplayName f \<noteq> GetName f
             then set_member (put ''name'' (QJsonString (GetName f)) [])
                    ''displayName'' (QJsonString (GetDisplayName f))
             else put ''name'' (QJsonString (GetName f)) []"
      from Some Cons.prems consider "v = QJsonObject ?o"
        | "v \<in> set (createIncompatibilities game data)" by auto
      then show ?thesis
      proof cases
        case 1
        have "?o = [(''name'', QJsonString (GetName f))]
            \<or> ?o = [(''name'', QJsonString (GetName f)),
                    (''displayName'', QJsonString (GetDisplayName f))]
              \<and> GetDisplayName f \<noteq> []"
          by (auto simp: set_member_def is_empty_value_def)
        moreover from Some have "GetName f = [] \<longrightarrow> GetPlugin game [] \<noteq> None" by auto
        ultimately show ?thesis
          unfolding 1 by (auto simp: fields_filtered_def is_empty_value_def)
      next
        case 2
        with Cons.IH show ?thesis by blast
      qed
    qed
  qed
  then show ?thesis by (simp add: fields_filtered_array)
qed

lemma createMissingMasters_filtered:
  "fields_filtered game (QJsonArray (createMissingMasters game plugin))"
  by (auto simp: fields_filtered_def createMissingMasters_def)

lemma plugin_members_spec:
  assumes "plugin_members select lang game p = Some ms"
  shows "1 < length ms \<longleftrightarrow> carries_more select lang game p"
    and "\<forall>(k, w) \<in> set ms. (k, w) = (''name'', QJsonString p)
           \<or> \<not> is_empty_value w \<and> fields_filtered game w"
    and "map_of ms ''name'' = Some (QJsonString p)"
proof -
  from assms obtain plugin where gp: "GetPlugin game p = Some plugin"
    by (auto simp: plugin_members_def split: option.splits)
  let ?o0 = "put ''name'' (QJsonString p) []"
  let ?m = "createMissingMasters game plugin"
  have k0: "fst ` set ?o0 \<subseteq> {''name''}" by simp
  have i0: "\<forall>(k, w) \<in> set ?o0. (k, w) = (''name'', QJsonString p)
      \<or> \<not> is_empty_value w \<and> fields_filtered game w" by simp
  have flag: "fields_filtered game (QJsonBool True)" by (simp add: fields_filtered_def)
  show "1 < length ms \<longleftrightarrow> carries_more select lang game p"
    and "\<forall>(k, w) \<in> set ms. (k, w) = (''name'', QJsonString p)
           \<or> \<not> is_empty_value w \<and> fields_filtered game w"
    and "map_of ms ''name'' = Some (QJsonString p)"
  proof (atomize (full), cases "GetPluginMetadata game p")
    case None
    have k0': "fst ` set ?o0 \<subseteq> {''clean'', ''dirty'', ''messages'', ''incompatibilities'', ''name''}"
      by simp
    note t = flag_members_spec [OF k0' i0 createMissingMasters_filtered [of game plugin] flag,
        where plugin = plugin]
    from assms gp None
    have ms: "ms = flag_members plugin (set_member ?o0 ''missingMasters'' (QJsonArray ?m))"
      by (simp add: plugin_members_def Let_def)
    have len: "length ms = 1 + (if ?m = [] then 0 else 1) + (if LoadsArchive plugin then 1 else 0)
           + (if IsMaster plugin then 1 else 0) + (if IsLightPlugin plugin then 1 else 0)"
      unfolding ms using t(1) by simp
    have cm: "carries_more select lang game p \<longleftrightarrow>
        ?m \<noteq> [] \<or> LoadsArchive plugin \<or> IsMaster plugin \<or> IsLightPlugin plugin"
      by (simp add: carries_more_def gp None createMissingMasters_empty)
    have "1 < length ms \<longleftrightarrow> carries_more select lang game p"
      unfolding len cm by auto
    moreover have "\<forall>(k, w) \<in> set ms. (k, w) = (''name'', QJsonString p)
        \<or> \<not> is_empty_value w \<and> fields_filtered game w"
      unfolding ms by (rule t(2))
    moreover have "map_of ms ''name'' = Some (QJsonString p)"
      unfolding ms using t(3) by simp
    ultimately show "(1 < length ms \<longleftrightarrow> carries_more select lang game p)
        \<and> (\<forall>(k, w) \<in> set ms. (k, w) = (''name'', QJsonString p)
              \<or> \<not> is_empty_value w \<and> fields_filtered game w)
        \<and> map_of ms ''name'' = Some (QJsonString p)" by blast
  next
    case (Some md)
    let ?a = "createIncompatibilities game (GetIncompatibilities md)"
    let ?b = "createMessages select lang (GetMessages md)"
    let ?c = "createDirty select lang (GetDirtyInfo md)"
    let ?d = "createClean select lang (GetCleanInfo md)"
    let ?o1 = "metadata_members select lang game md ?o0"
    note m = metadata_members_spec [OF k0 i0 createIncompatibilities_filtered
        createMessages_filtered createDirty_filtered createClean_filtered,
        where md = md and select = select and lang = lang]
    note t = flag_members_spec [OF m(1) m(3) createMissingMasters_filtered [of game plugin] flag,
        where plugin = plugin]
    from assms gp Some
    have ms: "ms = flag_members plugin (set_member ?o1 ''missingMasters'' (QJsonArray ?m))"
      by (simp add: plugin_members_def Let_def)
    have len: "length ms = 1 + (if ?a = [] then 0 else 1) + (if ?b = [] then 0 else 1)
           + (if ?c = [] then 0 else 1) + (if ?d = [] then 0 else 1)
           + (if ?m = [] then 0 else 1) + (if LoadsArchive plugin then 1 else 0)
           + (if IsMaster plugin then 1 else 0) + (if IsLightPlugin plugin then 1 else 0)"
      unfolding ms using t(1) m(2) by simp
    have cm: "carries_more select lang game p \<longleftrightarrow>
        ?a \<noteq> [] \<or> ?b \<noteq> [] \<or> ?c \<noteq> [] \<or> ?d \<noteq> []
        \<or> ?m \<noteq> [] \<or> LoadsArchive plugin \<or> IsMaster plugin \<or> IsLightPlugin plugin"
      by (auto simp: carries_more_def gp Some createMissingMasters_empty
          createIncompatibilities_empty createMessages_empty createDirty_empty createClean_empty)
    have "1 < length ms \<longleftrightarrow> carries_more select lang game p"
      unfolding len cm by auto
    moreover have "\<forall>(k, w) \<in> set ms. (k, w) = (''name'', QJsonString p)
        \<or> \<not> is_empty_value w \<and> fields_filtered game w"
      unfolding ms by (rule t(2))
    moreover have "map_of ms ''name'' = Some (QJsonString p)"
      unfolding ms using t(3) m(4) by simp
    ultimately show "(1 < length ms \<longleftrightarrow> carries_more select lang game p)
        \<and> (\<forall>(k, w) \<in> set ms. (k, w) = (''name'', QJsonString p)
              \<or> \<not> is_empty_value w \<and> fields_filtered game w)
        \<and> map_of ms ''name'' = Some (QJsonString p)" by blast
  qed
qed

lemma put_lookup_same: "map_of (put e v ms) e = Some v"
  by (induction e v ms rule: put.induct) auto

lemma set_member_lookup:
  "map_of (set_member ms e v) k =
     (if k = e \<and> \<not> is_empty_value v then Some v else map_of ms k)"
  by (auto simp: set_member_def put_lookup put_lookup_same)

text \<open>
  The fields of a plugin entry: its members, and the fields inside its members.
\<close>

lemma fields_of_entry:
  assumes "\<forall>(k, w) \<in> set ms. (k, w) = (''name'', QJsonString p)
             \<or> \<not> is_empty_value w \<and> fields_filtered game w"
    and "p = [] \<longrightarrow> GetPlugin game [] \<noteq> None"
  shows "fields_filtered game (QJsonObject ms)"
  unfolding fields_filtered_def
proof (intro ballI, clarify)
  fix k w
  assume f: "(k, w) \<in> set (fields (QJsonObject ms))" and e: "is_empty_value w"
  from f consider "(k, w) \<in> set ms"
    | k' w' where "(k', w') \<in> set ms" "(k, w) \<in> set (fields w')" by auto
  then show "w = QJsonString [] \<and> (k = ''text'' \<or> k = ''name'' \<and> GetPlugin game [] \<noteq> None)"
  proof cases
    case 1
    with assms(1) e have "(k, w) = (''name'', QJsonString p)" by auto
    with e assms(2) show ?thesis by (simp add: is_empty_value_def)
  next
    case 2
    from 2(1) assms(1) have "fields_filtered game w'"
      by (auto simp: fields_filtered_def)
    with 2(2) e show ?thesis by (auto simp: fields_filtered_def)
  qed
qed

text \<open>
  Claim C9, amended. When every plugin of the load order is loaded, the plugins array
  holds an object for a plugin exactly when the plugin carries something beyond its
  name: an incompatibility with a loaded plugin, a message with a text for the language,
  a dirty or clean record, a missing master, or one of the flags. The objects keep the
  order of the load order; each has the name of its plugin and at least one more member,
  and no member other than the name is an empty object, array or string. At any depth of
  the array, an empty object or array is never a field, and an empty string is a field
  only where the code stores a string as it is given: as the text of a message, which
  may be the empty string, and as a name, which is the name of a loaded plugin. The
  report has a plugins member exactly when the array is not empty.
\<close>

theorem createPlugins_beyond_name:
  assumes "\<forall>p \<in> set sortedPlugins. GetPlugin game p \<noteq> None"
  shows "\<exists>plugins.
           createPlugins select lang game sortedPlugins = Returns plugins
           \<and> map plugin_name plugins =
               map (\<lambda>p. Some (QJsonString p))
                 (filter (carries_more select lang game) sortedPlugins)
           \<and> (\<forall>v \<in> set plugins. \<exists>p members.
                 p \<in> set sortedPlugins \<and> v = QJsonObject members \<and> 1 < length members
                 \<and> (\<forall>(k, w) \<in> set members.
                        (k, w) = (''name'', QJsonString p) \<or> \<not> is_empty_value w))
           \<and> (\<forall>(k, w) \<in> set (fields (QJsonArray plugins)).
                 is_empty_value w \<longrightarrow>
                   w = QJsonString []
                   \<and> (k = ''text'' \<or> k = ''name'' \<and> GetPlugin game [] \<noteq> None))
           \<and> (\<exists>root. createJsonReport select lang game generalMessages sortedPlugins time
                         lootcliVersion lootVersion = Returns (QJsonObject root)
                 \<and> map_of root ''plugins'' =
                     (if plugins = [] then None else Some (QJsonArray plugins)))"
proof -
  define good where "good sorted v \<longleftrightarrow>
      (\<exists>p members. p \<in> set sorted \<and> v = QJsonObject members \<and> 1 < length members
         \<and> (\<forall>(k, w) \<in> set members.
                (k, w) = (''name'', QJsonString p)
                \<or> \<not> is_empty_value w \<and> fields_filtered game w))"
    for sorted :: "string list" and v
  have good_mono: "good (p # ps) v" if "good ps v" for p ps v
  proof -
    from that obtain q members where "q \<in> set ps" "v = QJsonObject members"
      "1 < length members"
      "\<forall>(k, w) \<in> set members. (k, w) = (''name'', QJsonString q)
          \<or> \<not> is_empty_value w \<and> fields_filtered game w"
      unfolding good_def by blast
    then have "q \<in> set (p # ps) \<and> v = QJsonObject members \<and> 1 < length members
         \<and> (\<forall>(k, w) \<in> set members.
                (k, w) = (''name'', QJsonString q)
                \<or> \<not> is_empty_value w \<and> fields_filtered game w)" by simp
    then show ?thesis unfolding good_def by (intro exI)
  qed
  have "\<exists>plugins.
           createPlugins select lang game sortedPlugins = Returns plugins
           \<and> map plugin_name plugins =
               map (\<lambda>p. Some (QJsonString p))
                 (filter (carries_more select lang game) sortedPlugins)
           \<and> (\<forall>v \<in> set plugins. good sortedPlugins v)"
    using assms
  proof (induction sortedPlugins)
    case Nil
    then show ?case by simp
  next
    case (Cons p ps)
    from Cons.prems obtain plugin where "GetPlugin game p = Some plugin" by auto
    then obtain ms where ms: "plugin_members select lang game p = Some ms"
      by (simp add: plugin_members_def Let_def)
    note spec = plugin_members_spec [OF ms]
    from Cons.prems have "\<forall>p \<in> set ps. GetPlugin game p \<noteq> None" by simp
    from Cons.IH [OF this] obtain plugins where
      ih: "createPlugins select lang game ps = Returns plugins"
        "map plugin_name plugins =
           map (\<lambda>p. Some (QJsonString p)) (filter (carries_more select lang game) ps)"
        "\<forall>v \<in> set plugins. good ps v"
      by blast
    from ih(3) good_mono have ih3: "\<forall>v \<in> set plugins. good (p # ps) v" by blast
    show ?case
    proof (cases "carries_more select lang game p")
      case True
      with spec(1) have big: "1 < length ms" by simp
      with ms ih(1) have 1: "createPlugins select lang game (p # ps)
          = Returns (QJsonObject ms # plugins)" by simp
      have 2: "map plugin_name (QJsonObject ms # plugins) =
          map (\<lambda>p. Some (QJsonString p)) (filter (carries_more select lang game) (p # ps))"
        using True ih(2) spec(3) by (simp add: plugin_name_def)
      have "p \<in> set (p # ps) \<and> QJsonObject ms = QJsonObject ms \<and> 1 < length ms
         \<and> (\<forall>(k, w) \<in> set ms.
                (k, w) = (''name'', QJsonString p)
                \<or> \<not> is_empty_value w \<and> fields_filtered game w)"
        using big spec(2) by simp
      then have "good (p # ps) (QJsonObject ms)" unfolding good_def by (intro exI)
      with ih3 have 3: "\<forall>v \<in> set (QJsonObject ms # plugins). good (p # ps) v" by simp
      from 1 2 3 show ?thesis by (intro exI conjI)
    next
      case False
      with spec(1) have "\<not> 1 < length ms" by simp
      with ms ih(1) have 1: "createPlugins select lang game (p # ps) = Returns plugins" by simp
      have 2: "map plugin_name plugins =
          map (\<lambda>p. Some (QJsonString p)) (filter (carries_more select lang game) (p # ps))"
        using False ih(2) by simp
      from 1 2 ih3 show ?thesis by (intro exI conjI)
    qed
  qed
  then obtain plugins where
    p1: "createPlugins select lang game sortedPlugins = Returns plugins"
    and p2: "map plugin_name plugins =
         map (\<lambda>p. Some (QJsonString p)) (filter (carries_more select lang game) sortedPlugins)"
    and p3: "\<forall>v \<in> set plugins. good sortedPlugins v"
    by blast
  have c3: "\<forall>v \<in> set plugins. \<exists>p members.
                 p \<in> set sortedPlugins \<and> v = QJsonObject members \<and> 1 < length members
                 \<and> (\<forall>(k, w) \<in> set members.
                        (k, w) = (''name'', QJsonString p) \<or> \<not> is_empty_value w)"
  proof
    fix v assume "v \<in> set plugins"
    with p3 obtain q members where
      q: "q \<in> set sortedPlugins" "v = QJsonObject members" "1 < length members"
        "\<forall>(k, w) \<in> set members. (k, w) = (''name'', QJsonString q)
            \<or> \<not> is_empty_value w \<and> fields_filtered game w"
      unfolding good_def by blast
    from q(4) have "\<forall>(k, w) \<in> set members.
        (k, w) = (''name'', QJsonString q) \<or> \<not> is_empty_value w" by auto
    with q(1-3) show "\<exists>p members.
                 p \<in> set sortedPlugins \<and> v = QJsonObject members \<and> 1 < length members
                 \<and> (\<forall>(k, w) \<in> set members.
                        (k, w) = (''name'', QJsonString p) \<or> \<not> is_empty_value w)"
      by (intro exI conjI)
  qed
  have "fields_filtered game v" if "v \<in> set plugins" for v
  proof -
    from that p3 obtain q members where
      q: "q \<in> set sortedPlugins" "v = QJsonObject members"
        "\<forall>(k, w) \<in> set members. (k, w) = (''name'', QJsonString q)
            \<or> \<not> is_empty_value w \<and> fields_filtered game w"
      unfolding good_def by blast
    from q(1) assms have "q = [] \<longrightarrow> GetPlugin game [] \<noteq> None" by auto
    from fields_of_entry [OF q(3) this] q(2) show ?thesis by simp
  qed
  then have "fields_filtered game (QJsonArray plugins)" by (simp add: fields_filtered_array)
  then have c4: "\<forall>(k, w) \<in> set (fields (QJsonArray plugins)).
                 is_empty_value w \<longrightarrow>
                   w = QJsonString []
                   \<and> (k = ''text'' \<or> k = ''name'' \<and> GetPlugin game [] \<noteq> None)"
    unfolding fields_filtered_def .
  from p1 have c5: "\<exists>root. createJsonReport select lang game generalMessages sortedPlugins time
                         lootcliVersion lootVersion = Returns (QJsonObject root)
                 \<and> map_of root ''plugins'' =
                     (if plugins = [] then None else Some (QJsonArray plugins))"
    by (simp add: createJsonReport_def set_member_lookup is_empty_array)
  from p1 p2 c3 c4 c5 show ?thesis by (intro exI [of _ plugins] conjI)
qed

theorem createPlugins_beyond_name_witness:
  "createPlugins example_select ''en'' example_game [''Skyrim.esm'', ''Bare.esp'', ''Patch.esp'']
     = Returns
         [QJsonObject [(''name'', QJsonString ''Skyrim.esm''), (''isMaster'', QJsonBool True)],
          QJsonObject
            [(''name'', QJsonString ''Patch.esp''),
             (''messages'',
              QJsonArray [QJsonObject [(''type'', QJsonString ''info''),
                                       (''text'', QJsonString ''Hello'')]]),
             (''missingMasters'', QJsonArray [QJsonString ''Missing.esm''])]]
   \<and> filter (carries_more example_select ''en'' example_game)
         [''Skyrim.esm'', ''Bare.esp'', ''Patch.esp'']
     = [''Skyrim.esm'', ''Patch.esp'']"
proof -
  let ?sorted = "[''Skyrim.esm'', ''Bare.esp'', ''Patch.esp'']"
  have loaded: "\<forall>p \<in> set ?sorted. GetPlugin example_game p \<noteq> None"
    by (simp add: example_game_def)
  from createPlugins_beyond_name [OF loaded, of example_select "''en''" "[]" 0 "[]" "[]"]
  obtain plugins where
    r: "createPlugins example_select ''en'' example_game ?sorted = Returns plugins"
    and n: "map plugin_name plugins =
         map (\<lambda>p. Some (QJsonString p))
           (filter (carries_more example_select ''en'' example_game) ?sorted)"
    by blast
  have c: "createPlugins example_select ''en'' example_game ?sorted
     = Returns
         [QJsonObject [(''name'', QJsonString ''Skyrim.esm''), (''isMaster'', QJsonBool True)],
          QJsonObject
            [(''name'', QJsonString ''Patch.esp''),
             (''messages'',
              QJsonArray [QJsonObject [(''type'', QJsonString ''info''),
                                       (''text'', QJsonString ''Hello'')]]),
             (''missingMasters'', QJsonArray [QJsonString ''Missing.esm''])]]"
    by (simp add: plugin_members_def metadata_members_def flag_members_def set_member_def
        is_empty_value_def createMissingMasters_def createDirty_def createClean_def
        example_game_def example_select_def)
  with r have "plugins =
         [QJsonObject [(''name'', QJsonString ''Skyrim.esm''), (''isMaster'', QJsonBool True)],
          QJsonObject
            [(''name'', QJsonString ''Patch.esp''),
             (''messages'',
              QJsonArray [QJsonObject [(''type'', QJsonString ''info''),
                                       (''text'', QJsonString ''Hello'')]]),
             (''missingMasters'', QJsonArray [QJsonString ''Missing.esm''])]]"
    by simp
  with n have "map (\<lambda>p. Some (QJsonString p))
           (filter (carries_more example_select ''en'' example_game) ?sorted)
       = map (\<lambda>p. Some (QJsonString p)) [''Skyrim.esm'', ''Patch.esp'']"
    by (simp add: plugin_name_def)
  then have "filter (carries_more example_select ''en'' example_game) ?sorted
       = [''Skyrim.esm'', ''Patch.esp'']"
    by (rule map_injective) (simp add: inj_on_def)
  with c show ?thesis by (intro conjI)
qed

text \<open>
  An empty string is emitted as a field. A plugin whose only metadata is a message with
  an empty English text is reported with that message, and the text of the message is
  the empty string: \<^verbatim>\<open>createMessages\<close> builds the object of a message without
  \<^verbatim>\<open>set\<close>.
\<close>

theorem empty_text_emitted:
  "createPlugins example_select ''en'' silent_game [''Quiet.esp'']
     = Returns
         [QJsonObject
            [(''name'', QJsonString ''Quiet.esp''),
             (''messages'',
              QJsonArray [QJsonObject [(''type'', QJsonString ''info''),
                                       (''text'', QJsonString [])]])]]
   \<and> (''text'', QJsonString [])
       \<in> set (fields (QJsonArray
            [QJsonObject
               [(''name'', QJsonString ''Quiet.esp''),
                (''messages'',
                 QJsonArray [QJsonObject [(''type'', QJsonString ''info''),
                                          (''text'', QJsonString [])]])]]))
   \<and> is_empty_value (QJsonString [])"
  by (simp add: plugin_members_def metadata_members_def flag_members_def set_member_def
      is_empty_value_def createMissingMasters_def createDirty_def createClean_def
      silent_game_def example_select_def)

end
